(* ===== verification/Prelude.thy ===== *)
theory Prelude
  imports Main
begin

text \<open>
  Shared vocabulary of the development: the types that name timestamps and row ids, the
  HTTP error that every handler of \<open>src/backend/auth/routes.py\<close> raises
  (\<open>HTTPException(status_code, detail)\<close> and \<open>AuthenticationError\<close>, a 401), the
  string helpers that Python's \<open>str\<close> methods stand for (\<open>lower\<close>, \<open>in\<close>,
  \<open>startswith\<close>, slicing), and the list-as-table helpers that model SQLAlchemy's
  \<open>query(...).filter(...).first()\<close>, \<open>.count()\<close>, \<open>.delete()\<close> and
  attribute assignment on a fetched row.  The lemmas here are generic and are collected in
  \<open>table_simps\<close> so that the component proofs can use them by name.
\<close>

section \<open>Types shared by the components\<close>

type_synonym time = int  \<comment> \<open>seconds since the epoch, as \<open>datetime.utcnow()\<close> read at one-second granularity\<close>
type_synonym uid = nat   \<comment> \<open>an integer primary key\<close>

text \<open>
  \<open>HTTPException(status_code=s, detail=d)\<close>; \<open>AuthenticationError(d)\<close> of
  \<open>auth/dependencies.py\<close> is the 401 case.
\<close>

datatype http_error = HTTPError nat string

type_synonym 'a response = "http_error + 'a"

abbreviation auth_error :: "string \<Rightarrow> http_error" where
  "auth_error d \<equiv> HTTPError 401 d"

named_theorems table_simps "characteristic equations of the table helpers"

section \<open>Strings\<close>

definition lower_char :: "char \<Rightarrow> char" where
  "lower_char c = (let n = of_char c in if 65 \<le> n \<and> n \<le> (90::nat) then char_of (n + 32) else c)"

definition lower_str :: "string \<Rightarrow> string" where
  "lower_str s = map lower_char s"

text \<open>Python's \<open>a.startswith(p)\<close> and \<open>p in a\<close> on strings.\<close>

fun starts_with :: "string \<Rightarrow> string \<Rightarrow> bool" where
  "starts_with s [] = True"
| "starts_with [] (c # cs) = False"
| "starts_with (d # ds) (c # cs) = (d = c \<and> starts_with ds cs)"

fun has_infix :: "string \<Rightarrow> string \<Rightarrow> bool" where
  "has_infix [] p = (p = [])"
| "has_infix (c # cs) p = (starts_with (c # cs) p \<or> has_infix cs p)"

text \<open>\<open>str(n)\<close> for a natural number.\<close>

fun string_of_nat :: "nat \<Rightarrow> string" where
  "string_of_nat n =
     (if n < 10 then [char_of (48 + n)] else string_of_nat (n div 10) @ [char_of (48 + n mod 10)])"

declare string_of_nat.simps [simp del]

text \<open>\<open>str(n)\<close> for an integer.\<close>

definition string_of_int :: "int \<Rightarrow> string" where
  "string_of_int n = (if n < 0 then ''-'' @ string_of_nat (nat (- n)) else string_of_nat (nat n))"

lemmas string_eval = lower_str_def lower_char_def char_of_eq_iff

section \<open>Tables\<close>

text \<open>
  A table is the list of its rows in insertion order; \<open>filter(P).first()\<close> is
  \<open>find P\<close>, \<open>filter(P).count()\<close> is \<open>length (filter P rows)\<close>, and an assignment to
  the attributes of the row with primary key \<open>k\<close> is \<open>update_where\<close> with the
  predicate "has key \<open>k\<close>".
\<close>

definition update_where :: "('a \<Rightarrow> bool) \<Rightarrow> ('a \<Rightarrow> 'a) \<Rightarrow> 'a list \<Rightarrow> 'a list" where
  "update_where P f xs = map (\<lambda>x. if P x then f x else x) xs"

lemma update_where_Nil [simp, table_simps]: "update_where P f [] = []"
  by (simp add: update_where_def)

lemma update_where_Cons [simp, table_simps]:
  "update_where P f (x # xs) = (if P x then f x else x) # update_where P f xs"
  by (simp add: update_where_def)

lemma length_update_where [simp, table_simps]: "length (update_where P f xs) = length xs"
  by (simp add: update_where_def)

lemma set_update_whereD:
  "y \<in> set (update_where P f xs) \<Longrightarrow> \<exists>x \<in> set xs. y = (if P x then f x else x)"
  by (auto simp: update_where_def)

lemma update_where_id [simp]: "\<forall>x \<in> set xs. \<not> P x \<Longrightarrow> update_where P f xs = xs"
  by (induction xs) auto

lemma map_update_where_other:
  "(\<And>x. P x \<Longrightarrow> g (f x) = g x) \<Longrightarrow> map g (update_where P f xs) = map g xs"
  by (induction xs) auto

lemma filter_update_where_other:
  "(\<And>x. P x \<Longrightarrow> Q (f x) = Q x) \<Longrightarrow>
   filter Q (update_where P f xs) = update_where P f (filter Q xs)"
  by (induction xs) auto

lemma find_update_where_same:
  "find Q xs = Some x \<Longrightarrow> (\<And>y. P y \<Longrightarrow> Q y = Q (f y)) \<Longrightarrow>
   find Q (update_where P f xs) = Some (if P x then f x else x)"
  by (induction xs) (auto split: if_splits)

lemma update_where_idem:
  "(\<And>x. P x \<Longrightarrow> P (f x) \<and> f (f x) = f x) \<Longrightarrow>
   update_where P f (update_where P f xs) = update_where P f xs"
  by (induction xs) auto

lemma distinct_map_other:
  assumes "distinct (map f xs)" and "2 \<le> length xs"
  shows "\<exists>y \<in> set xs. f y \<noteq> a"
proof -
  obtain x1 x2 rest where xs: "xs = x1 # x2 # rest"
    using assms(2) by (cases xs; cases "tl xs") auto
  with assms(1) have "f x1 \<noteq> f x2" by auto
  then show ?thesis using xs by (cases "f x1 = a") auto
qed

lemma find_SomeD [dest]: "find P xs = Some x \<Longrightarrow> P x \<and> x \<in> set xs"
  by (auto simp: find_Some_iff dest: nth_mem)

lemma find_None_iff2 [table_simps]: "(find P xs = None) = (\<forall>x \<in> set xs. \<not> P x)"
  by (induction xs) auto

lemma find_filter [table_simps]: "find P (filter Q xs) = find (\<lambda>x. Q x \<and> P x) xs"
  by (induction xs) auto

lemma find_append_None [table_simps]:
  "find P xs = None \<Longrightarrow> find P (xs @ ys) = find P ys"
  by (induction xs) auto

lemma length_filter_update_where_le:
  "(\<And>x. P x \<Longrightarrow> Q (f x) \<Longrightarrow> Q x) \<Longrightarrow>
   length (filter Q (update_where P f xs)) \<le> length (filter Q xs)"
  by (induction xs) auto

lemma find_snoc:
  "find P (xs @ [x]) = (case find P xs of None \<Rightarrow> if P x then Some x else None | Some y \<Rightarrow> Some y)"
  by (induction xs) auto

lemma sum_filter_nonneg:
  "\<forall>r \<in> set rs. 0 \<le> (f r :: int) \<Longrightarrow> 0 \<le> sum_list (map f (filter P rs))"
  by (induction rs) auto

lemma sum_filter_mono:
  assumes "\<forall>r \<in> set rs. 0 \<le> (f r :: int)" and "\<And>r. P r \<Longrightarrow> Q r"
  shows "sum_list (map f (filter P rs)) \<le> sum_list (map f (filter Q rs))"
  using assms
proof (induction rs)
  case Nil
  then show ?case by simp
next
  case (Cons x rs)
  then have "sum_list (map f (filter P rs)) \<le> sum_list (map f (filter Q rs))" "0 \<le> f x" by auto
  with Cons.prems(2) [of x] show ?case by auto
qed

lemma member_le_sum_filter:
  assumes "\<forall>r \<in> set rs. 0 \<le> (f r :: int)" and "x \<in> set rs" and "P x"
  shows "f x \<le> sum_list (map f (filter P rs))"
  using assms
proof (induction rs)
  case Nil
  then show ?case by simp
next
  case (Cons y rs)
  have "0 \<le> sum_list (map f (filter P rs))" "0 \<le> f y"
    using Cons.prems(1) sum_filter_nonneg [of rs f P] by auto
  with Cons show ?case by (cases "x = y") auto
qed

lemma find_update_where_map:
  "(\<And>y. P y \<Longrightarrow> Q (f y) = Q y) \<Longrightarrow>
   find Q (update_where P f xs) = map_option (\<lambda>x. if P x then f x else x) (find Q xs)"
  by (induction xs) auto

lemma map_filter_memI: "x \<in> set xs \<Longrightarrow> f x = Some e \<Longrightarrow> e \<in> set (List.map_filter f xs)"
  by (induction xs) (auto split: option.split)

lemma map_filter_distinct_eq:
  "distinct (List.map_filter f xs) \<Longrightarrow> a \<in> set xs \<Longrightarrow> b \<in> set xs \<Longrightarrow>
   f a = Some e \<Longrightarrow> f b = Some e \<Longrightarrow> a = b"
  by (induction xs) (auto split: option.splits dest: map_filter_memI)

lemma sum_list_update_where_key:
  fixes h :: "'a \<Rightarrow> 'b::ab_group_add"
  shows "distinct (map k xs) \<Longrightarrow> r \<in> set xs \<Longrightarrow>
         sum_list (map h (update_where (\<lambda>x. k x = k r) f xs)) = sum_list (map h xs) + (h (f r) - h r)"
proof (induction xs)
  case (Cons x xs)
  show ?case
  proof (cases "k x = k r")
    case True
    have nk: "\<forall>y \<in> set xs. k y \<noteq> k r" using Cons.prems(1) True by (auto simp: image_iff)
    then have rx: "r = x" using Cons.prems(2) by auto
    have "update_where (\<lambda>y. k y = k r) f xs = xs"
      unfolding update_where_def using nk by (intro map_idI) auto
    then show ?thesis using True unfolding rx by (simp add: algebra_simps)
  next
    case False
    then show ?thesis using Cons by (auto simp: algebra_simps)
  qed
qed simp

lemma update_where_fixed: "list_all (\<lambda>x. P x \<longrightarrow> f x = x) xs \<Longrightarrow> update_where P f xs = xs"
  by (induction xs) auto


lemma starts_with_append [simp]: "starts_with (p @ s) p"
  by (induction p) auto

lemma has_infix_append: "has_infix (xs @ p @ ys) p"
proof (induction xs)
  case Nil
  then show ?case by (cases "p @ ys") (auto simp flip: append_Cons dest: sym)
next
  case (Cons x xs)
  then show ?case by simp
qed

lemma find_key_distinct:
  "distinct (map k xs) \<Longrightarrow> x \<in> set xs \<Longrightarrow> find (\<lambda>y. k y = k x) xs = Some x"
  by (induction xs) (auto simp: image_iff)


lemma has_infix_split: "s = A @ p @ B \<Longrightarrow> has_infix s p"
  using has_infix_append by simp

end
