(* ===== verification/Settings.thy ===== *)
theory Settings
  imports Prelude
begin

text \<open>
  The authentication configuration of \<open>src/backend/auth/settings.py\<close>: the pydantic
  models \<open>JWTSettings\<close>, \<open>SessionSettings\<close>, \<open>LocalAuthSettings\<close>,
  \<open>DispatcharrAuthSettings\<close> and \<open>AuthSettings\<close> as records with the source's defaults,
  and the module-level cache \<open>_cached_auth_settings\<close> together with the JSON file
  \<open>auth_settings.json\<close> as an explicit store that \<open>load_auth_settings\<close>,
  \<open>save_auth_settings\<close>, \<open>clear_auth_settings_cache\<close>, \<open>get_jwt_secret_key\<close> and
  \<open>mark_setup_complete\<close> pass along.  The randomness of \<open>_generate_secret_key\<close>
  (\<open>secrets.token_urlsafe(32)\<close>) is the argument \<open>fresh\<close>; whether
  \<open>CONFIG_DIR.mkdir\<close> and \<open>write_text\<close> succeed are fields of the store.
  JSON serialisation is the identity on the model (\<open>AuthSettings(**model_dump())\<close>
  gives back the same values); a file that does not parse is \<open>FileCorrupt\<close>.
\<close>

section \<open>The configuration records\<close>

record jwt_settings =
  secret_key :: string
  algorithm :: string
  access_token_expire_minutes :: int
  refresh_token_expire_days :: int

record session_settings =
  max_sessions_per_user :: int
  inactivity_timeout_minutes :: int
  extend_on_activity :: bool

record local_auth_settings =
  local_enabled :: bool
  min_password_length :: int
  require_uppercase :: bool
  require_lowercase :: bool
  require_number :: bool
  require_special :: bool

record dispatcharr_auth_settings =
  dispatcharr_enabled :: bool
  use_dispatcharr_auth :: bool
  auto_create_users :: bool

record auth_settings =
  setup_complete :: bool
  primary_auth_mode :: string
  require_auth :: bool
  jwt_cfg :: jwt_settings
  session_cfg :: session_settings
  local_cfg :: local_auth_settings
  dispatcharr_cfg :: dispatcharr_auth_settings

definition default_jwt_settings :: jwt_settings where
  "default_jwt_settings =
     \<lparr>secret_key = [], algorithm = ''HS256'', access_token_expire_minutes = 30,
      refresh_token_expire_days = 7\<rparr>"

definition default_session_settings :: session_settings where
  "default_session_settings =
     \<lparr>max_sessions_per_user = 5, inactivity_timeout_minutes = 0, extend_on_activity = True\<rparr>"

definition default_local_auth_settings :: local_auth_settings where
  "default_local_auth_settings =
     \<lparr>local_enabled = True, min_password_length = 8, require_uppercase = True,
      require_lowercase = True, require_number = True, require_special = False\<rparr>"

definition default_dispatcharr_auth_settings :: dispatcharr_auth_settings where
  "default_dispatcharr_auth_settings =
     \<lparr>dispatcharr_enabled = False, use_dispatcharr_auth = False, auto_create_users = True\<rparr>"

definition default_auth_settings :: auth_settings where
  "default_auth_settings =
     \<lparr>setup_complete = False, primary_auth_mode = ''local'', require_auth = True,
      jwt_cfg = default_jwt_settings, session_cfg = default_session_settings,
      local_cfg = default_local_auth_settings, dispatcharr_cfg = default_dispatcharr_auth_settings\<rparr>"

definition is_setup_required :: "auth_settings \<Rightarrow> bool" where
  "is_setup_required s = (\<not> setup_complete s)"

definition get_enabled_providers :: "auth_settings \<Rightarrow> string list" where
  "get_enabled_providers s =
     (if local_enabled (local_cfg s) then [''local''] else [])
     @ (if dispatcharr_enabled (dispatcharr_cfg s) then [''dispatcharr''] else [])"

definition with_secret :: "string \<Rightarrow> auth_settings \<Rightarrow> auth_settings" where
  "with_secret k s = s\<lparr>jwt_cfg := (jwt_cfg s)\<lparr>secret_key := k\<rparr>\<rparr>"

section \<open>The cache and the configuration file\<close>

datatype config_file = NoFile | FileOk auth_settings | FileCorrupt

record settings_store =
  cached :: "auth_settings option"
  config_file :: config_file
  dir_writable :: bool   \<comment> \<open>\<open>_ensure_config_dir()\<close> returns True\<close>
  file_writable :: bool  \<comment> \<open>\<open>AUTH_CONFIG_FILE.write_text\<close> raises no \<open>OSError\<close>\<close>

text \<open>
  \<open>save_auth_settings\<close>: the settings are cached in every branch; the file is written
  only when the directory exists and the write succeeds.  The boolean is the function's
  return value.
\<close>

definition save_auth_settings :: "auth_settings \<Rightarrow> settings_store \<Rightarrow> bool \<times> settings_store" where
  "save_auth_settings s st =
     (if \<not> dir_writable st then (False, st\<lparr>cached := Some s\<rparr>)
      else if file_writable st then (True, st\<lparr>config_file := FileOk s, cached := Some s\<rparr>)
      else (False, st\<lparr>cached := Some s\<rparr>))"

text \<open>
  \<open>load_auth_settings\<close>: the cached value if there is one; otherwise the file's
  settings (with a secret generated and saved if the file had none); otherwise, when the
  file is missing or does not parse, the defaults with a fresh secret, saved.
\<close>

definition load_auth_settings :: "string \<Rightarrow> settings_store \<Rightarrow> auth_settings \<times> settings_store" where
  "load_auth_settings fresh st =
     (case cached st of
        Some s \<Rightarrow> (s, st)
      | None \<Rightarrow>
          (case config_file st of
             FileOk s \<Rightarrow>
               (if secret_key (jwt_cfg s) = []
                then let s' = with_secret fresh s
                     in (s', snd (save_auth_settings s' (st\<lparr>cached := Some s\<rparr>)))
                else (s, st\<lparr>cached := Some s\<rparr>))
           | _ \<Rightarrow>
               let s' = with_secret fresh default_auth_settings
               in (s', snd (save_auth_settings s' st))))"

definition clear_auth_settings_cache :: "settings_store \<Rightarrow> settings_store" where
  "clear_auth_settings_cache st = st\<lparr>cached := None\<rparr>"

abbreviation get_auth_settings :: "string \<Rightarrow> settings_store \<Rightarrow> auth_settings \<times> settings_store" where
  "get_auth_settings \<equiv> load_auth_settings"

definition get_jwt_secret_key :: "string \<Rightarrow> settings_store \<Rightarrow> string \<times> settings_store" where
  "get_jwt_secret_key fresh st =
     (let (s, st1) = get_auth_settings fresh st
      in if secret_key (jwt_cfg s) = []
         then let s' = with_secret fresh s in (fresh, snd (save_auth_settings s' st1))
         else (secret_key (jwt_cfg s), st1))"

definition mark_setup_complete :: "string \<Rightarrow> settings_store \<Rightarrow> settings_store" where
  "mark_setup_complete fresh st =
     (let (s, st1) = get_auth_settings fresh st
      in snd (save_auth_settings (s\<lparr>setup_complete := True\<rparr>) st1))"

section \<open>Properties\<close>

text \<open>The invariant of the cache: whatever is cached carries a signing secret.\<close>

definition cache_has_secret :: "settings_store \<Rightarrow> bool" where
  "cache_has_secret st = (case cached st of None \<Rightarrow> True | Some s \<Rightarrow> secret_key (jwt_cfg s) \<noteq> [])"

lemmas settings_defaults = default_auth_settings_def default_jwt_settings_def
  default_session_settings_def default_local_auth_settings_def default_dispatcharr_auth_settings_def
  with_secret_def

lemma secret_with_secret [simp]: "secret_key (jwt_cfg (with_secret k s)) = k"
  by (simp add: with_secret_def)

lemma setup_with_secret [simp]: "setup_complete (with_secret k s) = setup_complete s"
  by (simp add: with_secret_def)

lemma save_cached [simp]: "cached (snd (save_auth_settings s st)) = Some s"
  by (simp add: save_auth_settings_def)

lemma save_flags [simp]:
  "dir_writable (snd (save_auth_settings s st)) = dir_writable st"
  "file_writable (snd (save_auth_settings s st)) = file_writable st"
  by (simp_all add: save_auth_settings_def)

lemma save_config_file:
  "config_file (snd (save_auth_settings s st)) =
     (if dir_writable st \<and> file_writable st then FileOk s else config_file st)"
  by (simp add: save_auth_settings_def)

lemma load_cached_result:
  "load_auth_settings fresh st = (s, st') \<Longrightarrow> cached st' = Some s"
  by (auto simp: load_auth_settings_def Let_def split: option.splits config_file.splits if_splits)

lemma load_secret_nonempty:
  assumes "fresh \<noteq> []" and "cache_has_secret st"
    and "load_auth_settings fresh st = (s, st')"
  shows "secret_key (jwt_cfg s) \<noteq> []"
  using assms
  by (auto simp: load_auth_settings_def cache_has_secret_def Let_def
           split: option.splits config_file.splits if_splits)

lemma load_keeps_invariant:
  assumes "fresh \<noteq> []" and "cache_has_secret st"
    and "load_auth_settings fresh st = (s, st')"
  shows "cache_has_secret st'"
  using load_cached_result [OF assms(3)] load_secret_nonempty [OF assms]
  by (simp add: cache_has_secret_def)

end
