(* ===== verification/Password.thy ===== *)
theory Password
  imports Settings
begin

text \<open>
  \<open>auth/password.py\<close> (\<open>hash_password\<close>, \<open>verify_password\<close>,
  \<open>validate_password\<close>) is imported by \<open>auth/routes.py\<close> but its file is not part of
  the sources; it is modelled from the specification (sections 4.1 and 4.2) and from the
  unit tests \<open>tests/unit/test_password_security.py\<close>.

  Hashing is ideal: a bcrypt hash is the constructor \<open>Bcrypt salt p\<close>, which no
  operation of the model inverts except \<open>verify_password\<close>; the random salt of each
  call is the argument \<open>salt\<close>.  A stored hash string that bcrypt cannot parse is
  \<open>MalformedHash\<close>.  The strength rules read the \<open>LocalAuthSettings\<close> toggles and a
  deny-list of common passwords, checked case-insensitively as substrings.
\<close>

section \<open>Hashing\<close>

datatype pwhash = Bcrypt nat string | MalformedHash string

definition hash_password :: "nat \<Rightarrow> string \<Rightarrow> pwhash" where
  "hash_password salt p = Bcrypt salt p"

definition verify_password :: "string \<Rightarrow> pwhash \<Rightarrow> bool" where
  "verify_password p h =
     (p \<noteq> [] \<and> (case h of Bcrypt _ q \<Rightarrow> q = p | MalformedHash _ \<Rightarrow> False))"

section \<open>Strength rules\<close>

datatype password_rule_error =
    TooShort int | NoUppercase | NoLowercase | NoNumber | NoSpecial
  | TooCommon | ContainsUsername

definition is_upper :: "char \<Rightarrow> bool" where
  "is_upper c = (let n = of_char c in 65 \<le> n \<and> n \<le> (90::nat))"

definition is_lower :: "char \<Rightarrow> bool" where
  "is_lower c = (let n = of_char c in 97 \<le> n \<and> n \<le> (122::nat))"

definition is_digit :: "char \<Rightarrow> bool" where
  "is_digit c = (let n = of_char c in 48 \<le> n \<and> n \<le> (57::nat))"

definition is_special :: "char \<Rightarrow> bool" where
  "is_special c = (\<not> is_upper c \<and> \<not> is_lower c \<and> \<not> is_digit c)"

definition is_common :: "string list \<Rightarrow> string \<Rightarrow> bool" where
  "is_common common p = (\<exists>c \<in> set common. has_infix (lower_str p) c)"

text \<open>
  \<open>validate_password(password, username=None)\<close>: the first failing rule, in the order
  of the specification; \<open>None\<close> is \<open>valid=True, error=None\<close>.
\<close>

definition validate_password ::
  "local_auth_settings \<Rightarrow> string list \<Rightarrow> string \<Rightarrow> string option \<Rightarrow> password_rule_error option" where
  "validate_password cfg common p username =
     (if int (length p) < min_password_length cfg then Some (TooShort (min_password_length cfg))
      else if require_uppercase cfg \<and> \<not> (\<exists>c \<in> set p. is_upper c) then Some NoUppercase
      else if require_lowercase cfg \<and> \<not> (\<exists>c \<in> set p. is_lower c) then Some NoLowercase
      else if require_number cfg \<and> \<not> (\<exists>c \<in> set p. is_digit c) then Some NoNumber
      else if require_special cfg \<and> \<not> (\<exists>c \<in> set p. is_special c) then Some NoSpecial
      else if is_common common p then Some TooCommon
      else (case username of
              Some u \<Rightarrow> if u \<noteq> [] \<and> has_infix (lower_str p) (lower_str u)
                        then Some ContainsUsername else None
            | None \<Rightarrow> None))"

text \<open>The \<open>error\<close> string of \<open>PasswordValidationResult\<close>.\<close>

fun password_error_message :: "password_rule_error \<Rightarrow> string" where
  "password_error_message (TooShort n) =
     ''Password must be at least '' @ string_of_nat (nat n) @ '' characters long''"
| "password_error_message NoUppercase = ''Password must contain at least one uppercase letter''"
| "password_error_message NoLowercase = ''Password must contain at least one lowercase letter''"
| "password_error_message NoNumber = ''Password must contain at least one number''"
| "password_error_message NoSpecial = ''Password must contain at least one special character''"
| "password_error_message TooCommon = ''Password is too common''"
| "password_error_message ContainsUsername = ''Password cannot contain your username''"

text \<open>
  A deny-list with which the unit tests of the module pass (\<open>Password123!\<close> and its
  kin are common, \<open>ValidPass123!\<close> is not); the witnesses use it.
\<close>

definition sample_common_passwords :: "string list" where
  "sample_common_passwords =
     [''password123'', ''qwerty123'', ''admin123'', ''welcome123'', ''letmein123'', ''123456'']"

section \<open>Lemmas\<close>

lemmas policy_unfold = validate_password_def is_upper_def is_lower_def is_digit_def is_special_def
  is_common_def lower_str_def lower_char_def

lemma verify_malformed [simp]: "\<not> verify_password p (MalformedHash m)"
  by (simp add: verify_password_def)

lemma verify_empty [simp]: "\<not> verify_password [] h"
  by (simp add: verify_password_def)

lemma verify_hash_iff: "verify_password p (hash_password salt q) = (p \<noteq> [] \<and> p = q)"
  by (auto simp: verify_password_def hash_password_def)

lemma hash_password_inject: "hash_password s p = hash_password s' q \<longleftrightarrow> s = s' \<and> p = q"
  by (simp add: hash_password_def)

text \<open>What a successful validation guarantees, rule by rule.\<close>

lemma validate_None_length:
  "validate_password cfg common p u = None \<Longrightarrow> min_password_length cfg \<le> int (length p)"
  by (simp add: validate_password_def split: if_splits)

lemma validate_None_classes:
  assumes "validate_password cfg common p u = None"
  shows "require_uppercase cfg \<longrightarrow> (\<exists>c \<in> set p. is_upper c)"
    and "require_lowercase cfg \<longrightarrow> (\<exists>c \<in> set p. is_lower c)"
    and "require_number cfg \<longrightarrow> (\<exists>c \<in> set p. is_digit c)"
    and "require_special cfg \<longrightarrow> (\<exists>c \<in> set p. is_special c)"
  using assms by (simp_all add: validate_password_def split: if_splits)

lemma validate_None_not_common:
  "validate_password cfg common p u = None \<Longrightarrow> \<not> is_common common p"
  by (simp add: validate_password_def split: if_splits)

lemma validate_None_username:
  "validate_password cfg common p (Some u) = None \<Longrightarrow> u \<noteq> [] \<Longrightarrow>
   \<not> has_infix (lower_str p) (lower_str u)"
  by (simp add: validate_password_def split: if_splits)

end
