(* ===== verification/Tokens.thy ===== *)
theory Tokens
  imports Settings
begin

text \<open>
  \<open>auth/tokens.py\<close> (\<open>create_access_token\<close>, \<open>create_refresh_token\<close>,
  \<open>decode_token\<close>, \<open>rotate_refresh_token\<close>, \<open>hash_token\<close> and the three token
  errors) is imported by \<open>auth/routes.py\<close> and \<open>auth/__init__.py\<close> but its file is
  not part of the sources: it is modelled from the specification (sections 4.3 and 6) and
  \<open>tests/unit/test_jwt_tokens.py\<close>.

  Cryptography is symbolic, as in protocol verification: a signed token is
  \<open>JWT alg claims (HMAC key claims)\<close>, where \<open>HMAC\<close> is a free constructor, so a
  signature verifies for exactly the key and payload it was made from; a string that is
  not three well-formed segments is \<open>Garbage\<close>; \<open>hash_token\<close> (SHA-256 of the raw
  token) is the injective constructor \<open>SHA256\<close>.  The claims are those of the
  specification: \<open>sub\<close>, \<open>username\<close> (access tokens only), \<open>type\<close>
  (\<open>"refresh"\<close> on refresh tokens only), \<open>iat\<close> and \<open>exp\<close>, in whole seconds.
  Lifetimes and the signing key come from \<open>JWTSettings\<close>.  A refresh token also carries
  a random identifier (\<open>jti\<close>, an argument of its creation): the repository's test
  \<open>test_refresh_token_rotation_creates_new_refresh_token\<close> requires a token rotated in
  the second it was issued to differ from it, which the other claims alone do not
  ensure.
\<close>

section \<open>Tokens and claims\<close>

record claims =
  sub :: uid
  c_username :: "string option"
  c_type :: "string option"
  iat :: time
  exp :: time
  jti :: "nat option"

datatype mac = HMAC string claims

datatype token = JWT string claims mac | Garbage string

datatype digest = SHA256 token

datatype token_error = TokenExpiredError | InvalidTokenError string | TokenRevokedError

definition hash_token :: "token \<Rightarrow> digest" where
  "hash_token t = SHA256 t"

definition sign :: "jwt_settings \<Rightarrow> claims \<Rightarrow> token" where
  "sign cfg c = JWT (algorithm cfg) c (HMAC (secret_key cfg) c)"

definition create_access_token :: "jwt_settings \<Rightarrow> time \<Rightarrow> uid \<Rightarrow> string \<Rightarrow> token" where
  "create_access_token cfg now user_id name =
     sign cfg \<lparr>sub = user_id, c_username = Some name, c_type = None, iat = now,
               exp = now + access_token_expire_minutes cfg * 60, jti = None\<rparr>"

definition create_refresh_token :: "jwt_settings \<Rightarrow> time \<Rightarrow> uid \<Rightarrow> nat \<Rightarrow> token" where
  "create_refresh_token cfg now user_id r =
     sign cfg \<lparr>sub = user_id, c_username = None, c_type = Some ''refresh'', iat = now,
               exp = now + refresh_token_expire_days cfg * 86400, jti = Some r\<rparr>"

text \<open>
  \<open>decode_token\<close>: structure and signature first (\<open>InvalidTokenError\<close>), then expiry
  (\<open>TokenExpiredError\<close> once \<open>exp\<close> has passed).
\<close>

definition decode_token :: "jwt_settings \<Rightarrow> time \<Rightarrow> token \<Rightarrow> token_error + claims" where
  "decode_token cfg now t =
     (case t of
        Garbage _ \<Rightarrow> Inl (InvalidTokenError ''Not enough segments'')
      | JWT alg c m \<Rightarrow>
          if alg \<noteq> algorithm cfg then Inl (InvalidTokenError ''The specified alg value is not allowed'')
          else if m \<noteq> HMAC (secret_key cfg) c then Inl (InvalidTokenError ''Signature verification failed'')
          else if exp c < now then Inl TokenExpiredError
          else Inr c)"

definition is_refresh :: "claims \<Rightarrow> bool" where
  "is_refresh c = (c_type c = Some ''refresh'')"

text \<open>
  \<open>rotate_refresh_token(refresh_token) -> (access, refresh)\<close>: decodes, requires
  \<open>type == "refresh"\<close>, issues a new pair for the same subject.  The refresh claims
  carry no username, so the new access token carries none either.
\<close>

definition rotate_refresh_token ::
  "jwt_settings \<Rightarrow> time \<Rightarrow> nat \<Rightarrow> token \<Rightarrow> token_error + token \<times> token" where
  "rotate_refresh_token cfg now r t =
     (case decode_token cfg now t of
        Inl e \<Rightarrow> Inl e
      | Inr c \<Rightarrow>
          if \<not> is_refresh c then Inl (InvalidTokenError ''Invalid token type'')
          else Inr (sign cfg \<lparr>sub = sub c, c_username = None, c_type = None, iat = now,
                              exp = now + access_token_expire_minutes cfg * 60, jti = None\<rparr>,
                    create_refresh_token cfg now (sub c) r))"

section \<open>Lemmas\<close>

lemma hash_token_inject [simp]: "hash_token a = hash_token b \<longleftrightarrow> a = b"
  by (simp add: hash_token_def)

lemma decode_sign:
  "decode_token cfg now (sign cfg c) = (if exp c < now then Inl TokenExpiredError else Inr c)"
  by (simp add: decode_token_def sign_def)

lemma decode_Inr_signed:
  "decode_token cfg now t = Inr c \<Longrightarrow> t = sign cfg c \<and> now \<le> exp c"
  by (auto simp: decode_token_def sign_def split: token.splits if_splits)

lemma sign_inject [simp]: "sign cfg c = sign cfg c' \<longleftrightarrow> c = c'"
  by (simp add: sign_def)

lemma refresh_claims [simp]:
  "is_refresh \<lparr>sub = u, c_username = n, c_type = ty, iat = a, exp = b, jti = j\<rparr> = (ty = Some ''refresh'')"
  by (simp add: is_refresh_def)

lemma create_refresh_iat:
  "create_refresh_token cfg t u r = create_refresh_token cfg t' u' r' \<longleftrightarrow> t = t' \<and> u = u' \<and> r = r'"
  by (auto simp: create_refresh_token_def)

lemma rotate_Inr:
  "rotate_refresh_token cfg now j t = Inr (a, r) \<Longrightarrow>
   \<exists>c. decode_token cfg now t = Inr c \<and> is_refresh c \<and> r = create_refresh_token cfg now (sub c) j"
  by (auto simp: rotate_refresh_token_def split: sum.splits if_splits)

end
