(* ===== verification/Store.thy ===== *)
theory Store
  imports Password Tokens
begin

text \<open>
  The relational store that \<open>auth/routes.py\<close> reads and writes through its SQLAlchemy
  session: the tables \<open>users\<close>, \<open>user_identities\<close>, \<open>user_sessions\<close> and
  \<open>password_reset_tokens\<close> of the ORM classes \<open>User\<close>, \<open>UserIdentity\<close>,
  \<open>UserSession\<close> and \<open>PasswordResetToken\<close>.  These classes live in a \<open>models\<close>
  module that is not part of the sources (the \<open>models.py\<close> that is holds only the journal
  and bandwidth tables), so their columns are taken from section 3 of the specification
  and from the attributes the routes use.  Each table is a list of rows in insertion
  order, so that \<open>.first()\<close> is \<open>find\<close>; each has its own autoincrement counter.
  A handler's changes reach the store only at \<open>session.commit()\<close>: a handler that
  raises before committing returns the store it was given.
\<close>

section \<open>Rows\<close>

record user =
  u_id :: uid
  username :: string
  email :: "string option"
  password_hash :: "pwhash option"
  display_name :: "string option"
  is_admin :: bool
  is_active :: bool
  auth_provider :: string
  external_id :: "string option"
  created_at :: time
  updated_at :: time
  last_login_at :: "time option"

record user_identity =
  ident_id :: nat
  ident_user :: uid
  provider :: string
  ident_external_id :: "string option"
  ident_identifier :: string
  linked_at :: time
  ident_last_used :: "time option"

record user_session =
  sess_id :: nat
  sess_user :: uid
  refresh_token_hash :: digest
  ip_address :: "string option"
  user_agent :: string
  is_revoked :: bool
  sess_expires :: time
  sess_last_used :: "time option"

record reset_token =
  rt_id :: nat
  rt_user :: uid
  token_hash :: pwhash
  rt_expires :: time
  used_at :: "time option"

record db =
  users :: "user list"
  identities :: "user_identity list"
  sessions :: "user_session list"
  reset_tokens :: "reset_token list"
  next_user_id :: nat
  next_identity_id :: nat
  next_session_id :: nat
  next_reset_id :: nat

text \<open>What a request brings besides its body: the clock, \<open>request.client.host\<close>, the
  \<open>User-Agent\<close> header, and the random identifier the token module draws for a refresh
  token the request issues.\<close>

record request =
  now :: time
  client_host :: "string option"
  ua_header :: "string option"
  token_jti :: nat

definition empty_db :: db where
  "empty_db = \<lparr>users = [], identities = [], sessions = [], reset_tokens = [],
               next_user_id = 1, next_identity_id = 1, next_session_id = 1, next_reset_id = 1\<rparr>"

section \<open>Queries and row updates\<close>

definition find_user :: "db \<Rightarrow> uid \<Rightarrow> user option" where
  "find_user d i = find (\<lambda>u. u_id u = i) (users d)"

definition update_user :: "uid \<Rightarrow> (user \<Rightarrow> user) \<Rightarrow> db \<Rightarrow> db" where
  "update_user i f d = d\<lparr>users := update_where (\<lambda>u. u_id u = i) f (users d)\<rparr>"

definition update_identity :: "nat \<Rightarrow> (user_identity \<Rightarrow> user_identity) \<Rightarrow> db \<Rightarrow> db" where
  "update_identity i f d = d\<lparr>identities := update_where (\<lambda>x. ident_id x = i) f (identities d)\<rparr>"

definition update_session :: "nat \<Rightarrow> (user_session \<Rightarrow> user_session) \<Rightarrow> db \<Rightarrow> db" where
  "update_session i f d = d\<lparr>sessions := update_where (\<lambda>x. sess_id x = i) f (sessions d)\<rparr>"

definition update_reset_token :: "nat \<Rightarrow> (reset_token \<Rightarrow> reset_token) \<Rightarrow> db \<Rightarrow> db" where
  "update_reset_token i f d = d\<lparr>reset_tokens := update_where (\<lambda>x. rt_id x = i) f (reset_tokens d)\<rparr>"

text \<open>\<open>session.add(UserSession(...))\<close> followed by the flush that assigns its id.\<close>

definition add_session ::
  "uid \<Rightarrow> digest \<Rightarrow> string option \<Rightarrow> string \<Rightarrow> time \<Rightarrow> db \<Rightarrow> db" where
  "add_session u h ip ua expires d =
     d\<lparr>sessions := sessions d @ [\<lparr>sess_id = next_session_id d, sess_user = u, refresh_token_hash = h,
                                   ip_address = ip, user_agent = ua, is_revoked = False,
                                   sess_expires = expires, sess_last_used = None\<rparr>],
       next_session_id := Suc (next_session_id d)\<rparr>"

definition user_identities :: "db \<Rightarrow> uid \<Rightarrow> user_identity list" where
  "user_identities d u = filter (\<lambda>x. ident_user x = u) (identities d)"

text \<open>The sessions a presented refresh token can still use: a row with its hash that is
  not revoked.\<close>

definition live_sessions_for :: "db \<Rightarrow> digest \<Rightarrow> user_session list" where
  "live_sessions_for d h = filter (\<lambda>s. refresh_token_hash s = h \<and> \<not> is_revoked s) (sessions d)"

section \<open>Constraints and cascades of the database\<close>

text \<open>
  The \<open>User\<close> table of the specification (section 3) has a unique \<open>username\<close> and an
  \<open>email\<close> that is unique when set.  The database refuses a flush or commit that would
  break them (\<open>IntegrityError\<close>); no handler catches it, so the request answers 500 and
  the transaction is rolled back: the store is unchanged.  \<open>users_checked d x\<close> is
  \<open>x\<close> when the users of \<open>d\<close> meet the constraints and that error otherwise.
\<close>

definition users_constraints_ok :: "db \<Rightarrow> bool" where
  "users_constraints_ok d \<longleftrightarrow>
     distinct (map username (users d)) \<and> distinct (List.map_filter email (users d))"

definition integrity_error :: http_error where
  "integrity_error = HTTPError 500 ''Internal Server Error''"

definition users_checked :: "db \<Rightarrow> 'a \<Rightarrow> 'a response" where
  "users_checked d x = (if users_constraints_ok d then Inr x else Inl integrity_error)"

text \<open>
  \<open>session.delete(user)\<close>: the rows a user owns are deleted with it (section 3: no orphan
  rows); of those, the handlers delete sessions and reset tokens themselves, so the
  cascade that remains is the one of the identity rows.
\<close>

definition delete_user_row :: "uid \<Rightarrow> db \<Rightarrow> db" where
  "delete_user_row i d =
     d\<lparr>identities := filter (\<lambda>x. ident_user x \<noteq> i) (identities d),
       users := filter (\<lambda>x. u_id x \<noteq> i) (users d)\<rparr>"

section \<open>The user as the API returns it\<close>

text \<open>\<open>UserResponse.model_validate(user)\<close>: the columns the response model declares.\<close>

record user_response =
  ur_id :: uid
  ur_username :: string
  ur_email :: "string option"
  ur_display_name :: "string option"
  ur_is_admin :: bool
  ur_is_active :: bool
  ur_auth_provider :: string
  ur_external_id :: "string option"

definition to_user_response :: "user \<Rightarrow> user_response" where
  "to_user_response u =
     \<lparr>ur_id = u_id u, ur_username = username u, ur_email = email u,
      ur_display_name = display_name u, ur_is_admin = is_admin u, ur_is_active = is_active u,
      ur_auth_provider = auth_provider u, ur_external_id = external_id u\<rparr>"

section \<open>Sample data\<close>

text \<open>
  A small store used by the scenario theorems: the settings with the source's defaults and
  signing key \<open>k\<close>, an active local administrator \<open>admin\<close> whose password is
  \<open>validpassword123\<close> (the scenario of section 8 of the specification) with its local
  identity, and a request at a given second with no client host and no user agent.
\<close>

definition sample_settings :: auth_settings where
  "sample_settings = with_secret ''k'' default_auth_settings"

definition sample_admin :: user where
  "sample_admin =
     \<lparr>u_id = 1, username = ''admin'', email = Some ''admin@example.com'',
      password_hash = Some (hash_password 7 ''validpassword123''), display_name = None,
      is_admin = True, is_active = True, auth_provider = ''local'', external_id = None,
      created_at = 0, updated_at = 0, last_login_at = None\<rparr>"

definition sample_db :: db where
  "sample_db =
     empty_db\<lparr>users := [sample_admin],
              identities := [\<lparr>ident_id = 1, ident_user = 1, provider = ''local'',
                              ident_external_id = None, ident_identifier = ''admin'',
                              linked_at = 0, ident_last_used = None\<rparr>],
              next_user_id := 2, next_identity_id := 2\<rparr>"

definition at_time :: "time \<Rightarrow> request" where
  "at_time t = \<lparr>now = t, client_host = None, ua_header = None, token_jti = 0\<rparr>"

lemmas sample_defs = sample_settings_def sample_admin_def sample_db_def at_time_def empty_db_def

section \<open>Well-formedness of the store\<close>

text \<open>Primary keys are unique and below their counters.\<close>

definition keys_ok :: "('a \<Rightarrow> nat) \<Rightarrow> 'a list \<Rightarrow> nat \<Rightarrow> bool" where
  "keys_ok k xs n = (distinct (map k xs) \<and> (\<forall>x \<in> set xs. k x < n))"

definition db_wf :: "db \<Rightarrow> bool" where
  "db_wf d = (keys_ok u_id (users d) (next_user_id d)
              \<and> keys_ok ident_id (identities d) (next_identity_id d)
              \<and> keys_ok sess_id (sessions d) (next_session_id d)
              \<and> keys_ok rt_id (reset_tokens d) (next_reset_id d))"

lemmas store_defs = find_user_def update_user_def update_identity_def update_session_def
  update_reset_token_def add_session_def user_identities_def live_sessions_for_def

lemma keys_ok_update_where [table_simps]:
  "(\<And>x. k (f x) = k x) \<Longrightarrow> keys_ok k (update_where P f xs) n = keys_ok k xs n"
proof -
  assume k: "\<And>x. k (f x) = k x"
  have m: "map k (update_where P f xs) = map k xs"
    using k by (simp add: map_update_where_other)
  have b: "(\<forall>x\<in>set ys. k x < n) = (\<forall>y\<in>set (map k ys). y < n)" for ys :: "'a list"
    by simp
  show ?thesis unfolding keys_ok_def b m ..
qed

lemma keys_ok_snoc [table_simps]:
  "keys_ok k xs n \<Longrightarrow> keys_ok k (xs @ [x]) (Suc n) \<longleftrightarrow> k x \<le> n \<and> (k x < n \<longrightarrow> k x \<notin> k ` set xs)"
  by (auto simp: keys_ok_def)

lemma keys_ok_fresh [table_simps]:
  "keys_ok k xs n \<Longrightarrow> k x = n \<Longrightarrow> keys_ok k (xs @ [x]) (Suc n)"
  by (auto simp: keys_ok_def)

lemma keys_ok_filter [table_simps]: "keys_ok k xs n \<Longrightarrow> keys_ok k (filter P xs) n"
  by (auto simp: keys_ok_def distinct_map_filter)

lemma db_wf_update_session [intro]:
  "(\<And>x. sess_id (f x) = sess_id x) \<Longrightarrow> db_wf d \<Longrightarrow> db_wf (update_session i f d)"
  by (simp add: db_wf_def update_session_def keys_ok_update_where)

lemma db_wf_add_session [intro]: "db_wf d \<Longrightarrow> db_wf (add_session u h ip ua e d)"
  by (simp add: db_wf_def add_session_def keys_ok_fresh)

lemma db_wf_update_user [intro]:
  "(\<And>x. u_id (f x) = u_id x) \<Longrightarrow> db_wf d \<Longrightarrow> db_wf (update_user i f d)"
  by (simp add: db_wf_def update_user_def keys_ok_update_where)

lemma db_wf_update_identity [intro]:
  "(\<And>x. ident_id (f x) = ident_id x) \<Longrightarrow> db_wf d \<Longrightarrow> db_wf (update_identity i f d)"
  by (simp add: db_wf_def update_identity_def keys_ok_update_where)

lemma db_wf_update_reset_token [intro]:
  "(\<And>x. rt_id (f x) = rt_id x) \<Longrightarrow> db_wf d \<Longrightarrow> db_wf (update_reset_token i f d)"
  by (simp add: db_wf_def update_reset_token_def keys_ok_update_where)

lemma live_sessions_for_update_other:
  "(\<And>s. sess_id s = i \<Longrightarrow> (refresh_token_hash (f s) = h \<and> \<not> is_revoked (f s)) =
                          (refresh_token_hash s = h \<and> \<not> is_revoked s)) \<Longrightarrow>
   live_sessions_for (update_session i f d) h = update_where (\<lambda>x. sess_id x = i) f (live_sessions_for d h)"
  by (simp add: live_sessions_for_def update_session_def filter_update_where_other)

lemma find_user_update_user:
  "find_user d i = Some x \<Longrightarrow> (\<And>y. u_id (f y) = u_id y) \<Longrightarrow>
   find_user (update_user j f d) i = Some (if u_id x = j then f x else x)"
  unfolding find_user_def update_user_def
  by (drule find_update_where_same [where P = "\<lambda>u. u_id u = j" and f = f]) auto

lemma find_user_same: "find_user d i = Some x \<Longrightarrow> u_id x = i"
  by (auto simp: find_user_def)


lemma sample_db_wf: "db_wf sample_db"
  by (simp add: db_wf_def keys_ok_def sample_defs)


text \<open>The response never depends on the password hash, so no endpoint that answers with a
  \<open>UserResponse\<close> discloses it.\<close>

lemma user_response_hides_hash:
  "to_user_response (u\<lparr>password_hash := h, created_at := c, updated_at := m, last_login_at := l\<rparr>) =
   to_user_response u"
  by (simp add: to_user_response_def)


lemma users_checked_Inr [simp]: "users_checked d x = Inr y \<longleftrightarrow> users_constraints_ok d \<and> y = x"
  by (auto simp: users_checked_def)

lemma users_checked_Inl [simp]: "users_checked d x = Inl e \<longleftrightarrow> \<not> users_constraints_ok d \<and> e = integrity_error"
  by (auto simp: users_checked_def)

text \<open>The constraints read only the usernames and the e-mail addresses.\<close>

lemma users_constraints_cong:
  assumes "map username (users d') = map username (users d)" and "map email (users d') = map email (users d)"
  shows "users_constraints_ok d' = users_constraints_ok d"
proof -
  have "List.map_filter email xs = List.map_filter id (map email xs)" for xs :: "user list"
    by (induction xs) (simp_all split: option.split)
  then show ?thesis using assms by (simp add: users_constraints_ok_def)
qed

end
