(* ===== verification/Sessions.thy ===== *)
theory Sessions
  imports Store
begin

text \<open>
  The session lifecycle of \<open>auth/routes.py\<close>: \<open>login\<close> (POST \<open>/api/auth/login\<close>)
  issues an access and a refresh token and stores a \<open>UserSession\<close> row holding the hash
  of the refresh token; \<open>refresh_tokens\<close> (POST \<open>/api/auth/refresh\<close>) checks the
  presented refresh token against the non-revoked rows and rotates the row to the hash of
  a new refresh token; \<open>logout\<close> (POST \<open>/api/auth/logout\<close>) marks the row of the
  presented token revoked.  Each handler is a function from the store to an error or the
  new store with what the handler returns (the user view and the cookies it sets).
  The settings are the value \<open>get_auth_settings()\<close> returned for the request.
\<close>

section \<open>Login\<close>

definition local_identity_for :: "db \<Rightarrow> string \<Rightarrow> user_identity option" where
  "local_identity_for d name =
     find (\<lambda>i. provider i = ''local'' \<and> ident_identifier i = name) (identities d)"

definition has_local_identity :: "db \<Rightarrow> uid \<Rightarrow> bool" where
  "has_local_identity d u = (\<exists>i \<in> set (identities d). ident_user i = u \<and> provider i = ''local'')"

definition password_matches :: "user \<Rightarrow> string \<Rightarrow> bool" where
  "password_matches u pw = (case password_hash u of None \<Rightarrow> False | Some h \<Rightarrow> verify_password pw h)"

definition refresh_expiry :: "auth_settings \<Rightarrow> time \<Rightarrow> time" where
  "refresh_expiry s t = t + refresh_token_expire_days (jwt_cfg s) * 86400"

text \<open>
  Token issuance and the new session row, shared by the local and the delegated login:
  \<open>create_access_token\<close>, \<open>create_refresh_token\<close>, \<open>UserSession(...)\<close> with the
  client host and the first 500 characters of the \<open>User-Agent\<close> header, and
  \<open>user.last_login_at = utcnow()\<close>.
\<close>

definition issue_session ::
  "auth_settings \<Rightarrow> request \<Rightarrow> user \<Rightarrow> db \<Rightarrow> db \<times> user \<times> token \<times> token" where
  "issue_session s rq u d =
     (let at = create_access_token (jwt_cfg s) (now rq) (u_id u) (username u);
          rt = create_refresh_token (jwt_cfg s) (now rq) (u_id u) (token_jti rq);
          d1 = add_session (u_id u) (hash_token rt) (client_host rq)
                 (take 500 (case ua_header rq of None \<Rightarrow> [] | Some h \<Rightarrow> h))
                 (refresh_expiry s (now rq)) d;
          d2 = update_user (u_id u) (\<lambda>x. x\<lparr>last_login_at := Some (now rq)\<rparr>) d1
      in (d2, u\<lparr>last_login_at := Some (now rq)\<rparr>, at, rt))"

text \<open>
  \<open>login\<close>: the local identity first, the \<open>users.username\<close> column as the legacy
  fallback; an identity whose user row is gone yields no user.  The checks in the
  source's order: no user, no local identity on a non-local account, password, active
  flag.  The \<open>last_used_at\<close> of the identity is written before the active check, but a
  handler that raises does not commit, so only a successful login stores it.
\<close>

definition login ::
  "auth_settings \<Rightarrow> request \<Rightarrow> string \<Rightarrow> string \<Rightarrow> db \<Rightarrow> (db \<times> user \<times> token \<times> token) response" where
  "login s rq name pw d =
     (let identity = local_identity_for d name;
          found = (case identity of
                     Some i \<Rightarrow> find_user d (ident_user i)
                   | None \<Rightarrow> find (\<lambda>u. username u = name) (users d))
      in case found of
           None \<Rightarrow> Inl (auth_error ''Invalid username or password'')
         | Some u \<Rightarrow>
             if \<not> has_local_identity d (u_id u) \<and> auth_provider u \<noteq> ''local''
             then Inl (auth_error ''Please use your configured authentication provider to log in'')
             else if \<not> password_matches u pw
             then Inl (auth_error ''Invalid username or password'')
             else if \<not> is_active u
             then Inl (auth_error ''User account is disabled'')
             else
               let d1 = (case identity of
                           None \<Rightarrow> d
                         | Some i \<Rightarrow> update_identity (ident_id i)
                                       (\<lambda>x. x\<lparr>ident_last_used := Some (now rq)\<rparr>) d)
               in Inr (issue_session s rq u d1))"

section \<open>Refresh\<close>

text \<open>The \<open>except\<close> clauses of \<open>refresh_tokens\<close>.\<close>

fun refresh_token_error :: "token_error \<Rightarrow> http_error" where
  "refresh_token_error TokenExpiredError = auth_error ''Refresh token expired''"
| "refresh_token_error TokenRevokedError = auth_error ''Refresh token revoked''"
| "refresh_token_error (InvalidTokenError m) = auth_error (''Invalid refresh token: '' @ m)"

definition find_live_session :: "db \<Rightarrow> token \<Rightarrow> user_session option" where
  "find_live_session d t =
     find (\<lambda>x. refresh_token_hash x = hash_token t \<and> \<not> is_revoked x) (sessions d)"

text \<open>
  \<open>refresh_tokens\<close>: the cookie (\<open>None\<close> when absent or empty), \<open>decode_token\<close>,
  the \<open>type\<close> claim, the non-revoked row with the token's hash, its expiry, the active
  user of \<open>sub\<close>, then \<open>rotate_refresh_token\<close> and the update of the row: new hash,
  \<open>last_used_at\<close>, \<open>expires_at\<close> extended by the refresh lifetime.
\<close>

definition refresh_tokens ::
  "auth_settings \<Rightarrow> request \<Rightarrow> token option \<Rightarrow> db \<Rightarrow> (db \<times> token \<times> token) response" where
  "refresh_tokens s rq tok d =
     (case tok of
        None \<Rightarrow> Inl (auth_error ''No refresh token provided'')
      | Some t \<Rightarrow>
          (case decode_token (jwt_cfg s) (now rq) t of
             Inl e \<Rightarrow> Inl (refresh_token_error e)
           | Inr c \<Rightarrow>
               if \<not> is_refresh c then Inl (auth_error ''Invalid token type'')
               else (case find_live_session d t of
                       None \<Rightarrow> Inl (auth_error ''Session not found or revoked'')
                     | Some us \<Rightarrow>
                         if sess_expires us < now rq then Inl (auth_error ''Session expired'')
                         else (case find_user d (sub c) of
                                 None \<Rightarrow> Inl (auth_error ''User not found or disabled'')
                               | Some u \<Rightarrow>
                                   if \<not> is_active u then Inl (auth_error ''User not found or disabled'')
                                   else (case rotate_refresh_token (jwt_cfg s) (now rq) (token_jti rq) t of
                                           Inl e \<Rightarrow> Inl (refresh_token_error e)
                                         | Inr (na, nr) \<Rightarrow>
                                             Inr (update_session (sess_id us)
                                                    (\<lambda>x. x\<lparr>refresh_token_hash := hash_token nr,
                                                          sess_last_used := Some (now rq),
                                                          sess_expires := refresh_expiry s (now rq)\<rparr>) d,
                                                  na, nr))))))"

section \<open>Logout\<close>

text \<open>
  \<open>logout\<close>: the first row with the token's hash, revoked or not, is marked revoked;
  the response is a success in every case (the cookies are cleared).
\<close>

definition logout :: "token option \<Rightarrow> db \<Rightarrow> db" where
  "logout tok d =
     (case tok of
        None \<Rightarrow> d
      | Some t \<Rightarrow>
          (case find (\<lambda>x. refresh_token_hash x = hash_token t) (sessions d) of
             None \<Rightarrow> d
           | Some us \<Rightarrow> update_session (sess_id us) (\<lambda>x. x\<lparr>is_revoked := True\<rparr>) d))"

section \<open>Invariants of the session table\<close>

text \<open>
  \<open>sessions_unique\<close>: no two non-revoked rows hold the same refresh-token hash, so a
  presented token selects at most one live session.  \<open>session_hashes_distinct\<close>: the
  same over all rows, revoked ones included (\<open>logout\<close> looks a token up among all
  rows).
\<close>

definition sessions_unique :: "db \<Rightarrow> bool" where
  "sessions_unique d = distinct (map refresh_token_hash (filter (\<lambda>x. \<not> is_revoked x) (sessions d)))"

definition session_hashes_distinct :: "db \<Rightarrow> bool" where
  "session_hashes_distinct d = distinct (map refresh_token_hash (sessions d))"

definition sample_refresh :: token where
  "sample_refresh = create_refresh_token (jwt_cfg sample_settings) 100 1 0"

text \<open>The sample store after \<open>admin\<close> logged in at second 100.\<close>

definition sample_session_db :: db where
  "sample_session_db =
     sample_db\<lparr>sessions := [\<lparr>sess_id = 1, sess_user = 1, refresh_token_hash = hash_token sample_refresh,
                             ip_address = None, user_agent = [], is_revoked = False,
                             sess_expires = 100 + 7 * 86400, sess_last_used = None\<rparr>],
               next_session_id := 2\<rparr>"

text \<open>A store with an account created by the delegated provider: no local identity.\<close>

definition sample_sso_db :: db where
  "sample_sso_db =
     sample_db\<lparr>users := users sample_db @
                 [sample_admin\<lparr>u_id := 2, username := ''bob'', password_hash := None, is_admin := False,
                              auth_provider := ''dispatcharr'', external_id := Some ''42''\<rparr>],
               next_user_id := 3\<rparr>"

section \<open>Lemmas on the handlers\<close>

lemma live_same_hash_eq:
  assumes "sessions_unique d" "x \<in> set (sessions d)" "y \<in> set (sessions d)"
    "\<not> is_revoked x" "\<not> is_revoked y" "refresh_token_hash x = refresh_token_hash y"
  shows "x = y"
proof -
  have "inj_on refresh_token_hash (set (filter (\<lambda>x. \<not> is_revoked x) (sessions d)))"
    using assms(1) by (simp add: sessions_unique_def distinct_map)
  then show ?thesis using assms(2-6) by (auto dest: inj_onD)
qed

lemma find_live_after_rotate:
  assumes "sessions_unique d" "find_live_session d t = Some us" "h \<noteq> hash_token t"
  shows "find_live_session
           (update_session (sess_id us)
              (\<lambda>x. x\<lparr>refresh_token_hash := h, sess_last_used := l, sess_expires := e\<rparr>) d) t = None"
proof -
  from assms(2) have us: "us \<in> set (sessions d)" "refresh_token_hash us = hash_token t" "\<not> is_revoked us"
    by (auto simp: find_live_session_def)
  { fix x assume x: "x \<in> set (sessions d)" "sess_id x \<noteq> sess_id us"
       "refresh_token_hash x = hash_token t" "\<not> is_revoked x"
    with us have "x = us" using live_same_hash_eq [OF assms(1)] by metis
    with x(2) have False by simp }
  then show ?thesis using assms(3)
    by (auto simp: find_live_session_def update_session_def find_None_iff2
             split: if_splits dest!: set_update_whereD) blast
qed

lemma refresh_Inr:
  assumes "refresh_tokens s rq (Some t) d = Inr (d', na, nr)"
  shows "\<exists>c us. decode_token (jwt_cfg s) (now rq) t = Inr c \<and> is_refresh c \<and>
     find_live_session d t = Some us \<and> nr = create_refresh_token (jwt_cfg s) (now rq) (sub c) (token_jti rq) \<and>
     d' = update_session (sess_id us) (\<lambda>x. x\<lparr>refresh_token_hash := hash_token nr,
             sess_last_used := Some (now rq), sess_expires := refresh_expiry s (now rq)\<rparr>) d"
  using assms
  by (auto simp: refresh_tokens_def rotate_refresh_token_def split: sum.splits if_splits option.splits)

lemma refresh_fails_without_live_session:
  "find_live_session d t = None \<Longrightarrow> \<exists>e. refresh_tokens s rq (Some t) d = Inl e"
  by (auto simp: refresh_tokens_def split: sum.splits option.splits)

lemma logout_Some_found:
  "find (\<lambda>x. refresh_token_hash x = hash_token t) (sessions d) = Some us \<Longrightarrow>
   logout (Some t) d = update_session (sess_id us) (\<lambda>x. x\<lparr>is_revoked := True\<rparr>) d"
  by (simp add: logout_def)

lemma logout_Some_none:
  "find (\<lambda>x. refresh_token_hash x = hash_token t) (sessions d) = None \<Longrightarrow> logout (Some t) d = d"
  by (simp add: logout_def)

lemma login_Inr:
  assumes "login s rq name pw d = Inr (d', u', at, rt)"
  shows "\<exists>u d1. u \<in> set (users d) \<and> password_matches u pw \<and> is_active u \<and>
           issue_session s rq u d1 = (d', u', at, rt) \<and>
           (d1 = d \<or> (\<exists>i f. d1 = update_identity i f d \<and> (\<forall>x. ident_id (f x) = ident_id x)))"
  using assms
  by (fastforce simp: login_def Let_def find_user_def split: option.splits if_splits dest: find_SomeD)

lemma find_snoc_hit: "P x \<Longrightarrow> \<exists>y. find P (xs @ [x]) = Some y"
  by (induction xs) auto

lemma issue_session_live:
  assumes "issue_session s rq u d = (d', u', at, rt)"
  shows "rt = create_refresh_token (jwt_cfg s) (now rq) (u_id u) (token_jti rq) \<and> u_id u' = u_id u
         \<and> find_live_session d' rt \<noteq> None"
  using assms
  by (auto simp: issue_session_def Let_def find_live_session_def add_session_def update_user_def
           intro!: find_snoc_hit)

lemma issue_session_wf:
  "db_wf d \<Longrightarrow> issue_session s rq u d = (d', u', at, rt) \<Longrightarrow> db_wf d'"
  by (auto simp: issue_session_def Let_def)

lemma issue_session_tables [simp]:
  "users (fst (issue_session s rq u d)) =
     update_where (\<lambda>x. u_id x = u_id u) (\<lambda>x. x\<lparr>last_login_at := Some (now rq)\<rparr>) (users d)"
  "identities (fst (issue_session s rq u d)) = identities d"
  "fst (snd (issue_session s rq u d)) = u\<lparr>last_login_at := Some (now rq)\<rparr>"
  by (simp_all add: issue_session_def Let_def add_session_def update_user_def)

lemma issue_session_shape:
  "issue_session s rq u d = (d', u', at, rt) \<Longrightarrow> u_id u' = u_id u \<and> length (users d') = length (users d)"
  by (auto simp: issue_session_def Let_def add_session_def update_user_def)

lemma issue_session_fst: "issue_session s rq u d0 = (d1, u1, a1, t1) \<Longrightarrow> d1 = fst (issue_session s rq u d0)"
  by simp

lemmas login_unfold = login_def local_identity_for_def find_user_def has_local_identity_def
  password_matches_def verify_hash_iff issue_session_def Let_def

section \<open>Properties of the session lifecycle\<close>

text \<open>
  C1. Anti-replay of refresh tokens: when no two live sessions share a hash and a refresh
  token issued at an earlier second has been rotated once, presenting the same token again
  is rejected, whatever the time of the second attempt.
\<close>

theorem refresh_replay_rejected:
  assumes "sessions_unique d"
    and "t = create_refresh_token (jwt_cfg s) t0 u j" and "t0 < now rq"
    and "refresh_tokens s rq (Some t) d = Inr (d', na, nr)"
  shows "\<exists>e. refresh_tokens s rq' (Some t) d' = Inl e"
proof -
  obtain c us where "decode_token (jwt_cfg s) (now rq) t = Inr c" and "is_refresh c"
    and us: "find_live_session d t = Some us"
    and nr: "nr = create_refresh_token (jwt_cfg s) (now rq) (sub c) (token_jti rq)"
    and d': "d' = update_session (sess_id us) (\<lambda>x. x\<lparr>refresh_token_hash := hash_token nr,
             sess_last_used := Some (now rq), sess_expires := refresh_expiry s (now rq)\<rparr>) d"
    using refresh_Inr [OF assms(4)] by (elim exE conjE) (rule that)
  have "nr \<noteq> t" using assms(2,3) nr by (simp add: create_refresh_iat)
  then have "find_live_session d' t = None"
    using find_live_after_rotate [OF assms(1) us] d' by simp
  then show ?thesis by (rule refresh_fails_without_live_session)
qed

theorem refresh_replay_rejected_witness:
  "case refresh_tokens sample_settings (at_time 200) (Some sample_refresh) sample_session_db of
     Inl _ \<Rightarrow> False
   | Inr (d', _, _) \<Rightarrow> \<exists>e. refresh_tokens sample_settings (at_time 300) (Some sample_refresh) d' = Inl e"
proof -
  have u: "sessions_unique sample_session_db"
    by (simp add: sessions_unique_def sample_session_db_def sample_defs)
  have "\<not> isl (refresh_tokens sample_settings (at_time 200) (Some sample_refresh) sample_session_db)"
    by code_simp
  then obtain d' na nr where
    r: "refresh_tokens sample_settings (at_time 200) (Some sample_refresh) sample_session_db = Inr (d', na, nr)"
    by (cases "refresh_tokens sample_settings (at_time 200) (Some sample_refresh) sample_session_db") auto
  have t: "sample_refresh = create_refresh_token (jwt_cfg sample_settings) 100 1 0"
    by (simp add: sample_refresh_def)
  have lt: "(100::int) < now (at_time 200)"
    by (simp add: at_time_def)
  have "\<exists>e. refresh_tokens sample_settings (at_time 300) (Some sample_refresh) d' = Inl e"
    by (rule refresh_replay_rejected [OF u t lt r])
  then show ?thesis using r by simp
qed

text \<open>
  Logout is idempotent: a second logout with the same cookie changes nothing.
\<close>

theorem logout_idempotent: "logout tok (logout tok d) = logout tok d"
proof (cases tok)
  case None
  then show ?thesis by (simp add: logout_def)
next
  case (Some t)
  show ?thesis
  proof (cases "find (\<lambda>x. refresh_token_hash x = hash_token t) (sessions d)")
    case None
    with Some show ?thesis by (simp add: logout_Some_none)
  next
    case (Some us)
    let ?d1 = "update_session (sess_id us) (\<lambda>x. x\<lparr>is_revoked := True\<rparr>) d"
    have "find (\<lambda>x. refresh_token_hash x = hash_token t) (sessions ?d1) = Some (us\<lparr>is_revoked := True\<rparr>)"
      using find_update_where_same [OF Some] by (simp add: update_session_def)
    then have "logout (Some t) ?d1 = update_session (sess_id us) (\<lambda>x. x\<lparr>is_revoked := True\<rparr>) ?d1"
      by (simp add: logout_Some_found)
    also have "\<dots> = ?d1"
      by (simp add: update_session_def update_where_idem)
    finally show ?thesis using Some \<open>tok = Some t\<close> by (simp add: logout_Some_found)
  qed
qed

text \<open>
  C2. Logout revokes: when every session row has its own hash, a refresh with the token
  that was just logged out is rejected.
\<close>

theorem logout_then_refresh_rejected:
  assumes "session_hashes_distinct d"
  shows "\<exists>e. refresh_tokens s rq (Some t) (logout (Some t) d) = Inl e"
proof (cases "find (\<lambda>x. refresh_token_hash x = hash_token t) (sessions d)")
  case None
  then have "find_live_session (logout (Some t) d) t = None"
    by (simp add: logout_Some_none find_live_session_def find_None_iff2)
  then show ?thesis by (rule refresh_fails_without_live_session)
next
  case (Some us)
  have inj: "inj_on refresh_token_hash (set (sessions d))"
    using assms by (simp add: session_hashes_distinct_def distinct_map)
  from Some have us: "us \<in> set (sessions d)" "refresh_token_hash us = hash_token t" by auto
  have "x = us" if "x \<in> set (sessions d)" "refresh_token_hash x = hash_token t" for x
    using inj that us by (metis inj_onD)
  then have "find_live_session (logout (Some t) d) t = None"
    using Some by (auto simp: logout_Some_found find_live_session_def update_session_def
                        find_None_iff2 split: if_splits dest!: set_update_whereD)
  then show ?thesis by (rule refresh_fails_without_live_session)
qed

theorem logout_then_refresh_rejected_witness:
  "session_hashes_distinct sample_session_db \<and>
   (\<exists>e. refresh_tokens sample_settings (at_time 200) (Some sample_refresh)
          (logout (Some sample_refresh) sample_session_db) = Inl e)"
proof -
  have h: "session_hashes_distinct sample_session_db"
    by (simp add: session_hashes_distinct_def sample_session_db_def)
  show ?thesis using h logout_then_refresh_rejected [OF h] by blast
qed

text \<open>
  The login scenario of the specification: \<open>admin\<close> with the password it was
  created with logs in and gets its own user view back; with a wrong password the answer
  is the generic \<open>Invalid username or password\<close>.
\<close>

theorem login_admin_scenario:
  "(case login sample_settings (at_time 100) ''admin'' ''validpassword123'' sample_db of
      Inr (_, u, _, _) \<Rightarrow> username u = ''admin'' | Inl _ \<Rightarrow> False)
   \<and> login sample_settings (at_time 100) ''admin'' ''wrongpassword'' sample_db
       = Inl (auth_error ''Invalid username or password'')"
  by (simp add: login_unfold sample_defs)

text \<open>
  C3. A successful login authenticates: the account it answers for is a stored, active
  user whose stored hash verifies the presented password, and the refresh cookie it sets
  is a refresh token for that account with a live session row in the new store.
\<close>

theorem login_authenticates:
  assumes "login s rq name pw d = Inr (d', u', at, rt)"
  shows "\<exists>u \<in> set (users d). u_id u' = u_id u \<and> password_matches u pw \<and> is_active u
           \<and> rt = create_refresh_token (jwt_cfg s) (now rq) (u_id u) (token_jti rq)
           \<and> find_live_session d' rt \<noteq> None"
proof -
  obtain u d1 where u: "u \<in> set (users d)" "password_matches u pw" "is_active u"
    and iss: "issue_session s rq u d1 = (d', u', at, rt)"
    using login_Inr [OF assms] by blast
  show ?thesis using u issue_session_live [OF iss] by blast
qed

theorem login_authenticates_witness:
  "case login sample_settings (at_time 100) ''admin'' ''validpassword123'' sample_db of
     Inl _ \<Rightarrow> False
   | Inr (d', u', at, rt) \<Rightarrow> (\<exists>u \<in> set (users sample_db). u_id u' = u_id u
        \<and> password_matches u ''validpassword123'' \<and> is_active u
        \<and> rt = create_refresh_token (jwt_cfg sample_settings) 100 (u_id u) 0
        \<and> find_live_session d' rt \<noteq> None)"
proof -
  obtain r where r: "login sample_settings (at_time 100) ''admin'' ''validpassword123'' sample_db = Inr r"
    by (simp add: login_unfold sample_defs)
  obtain d' u' at rt where "r = (d', u', at, rt)" by (cases r) auto
  with r login_authenticates [of sample_settings "at_time 100" "''admin''" "''validpassword123''" sample_db]
  show ?thesis by (simp add: at_time_def)
qed

text \<open>
  C4. Login does not keep the specification's anti-enumeration promise: for an account
  created by the delegated provider the local login answers \<open>Please use your configured
  authentication provider\<close> whatever the password, while for a name with no account it
  answers \<open>Invalid username or password\<close>, so the two are told apart.
\<close>

theorem login_distinguishes_sso_accounts:
  "login sample_settings (at_time 100) ''bob'' ''anything'' sample_sso_db
     = Inl (auth_error ''Please use your configured authentication provider to log in'')
   \<and> login sample_settings (at_time 100) ''nobody'' ''anything'' sample_sso_db
     = Inl (auth_error ''Invalid username or password'')"
  by (simp add: login_unfold sample_sso_db_def sample_defs)

text \<open>
  Login keeps the store well formed: primary keys stay unique and below their
  counters.
\<close>

theorem login_preserves_wf:
  assumes "db_wf d" and "login s rq name pw d = Inr (d', u', at, rt)"
  shows "db_wf d'"
proof -
  obtain u d1 where iss: "issue_session s rq u d1 = (d', u', at, rt)"
    and d1: "d1 = d \<or> (\<exists>i f. d1 = update_identity i f d \<and> (\<forall>x. ident_id (f x) = ident_id x))"
    using login_Inr [OF assms(2)] by blast
  from d1 assms(1) have "db_wf d1" by auto
  then show ?thesis using issue_session_wf iss by blast
qed

theorem login_preserves_wf_witness:
  "db_wf sample_db \<and>
   (case login sample_settings (at_time 100) ''admin'' ''validpassword123'' sample_db of
      Inl _ \<Rightarrow> False | Inr (d', _) \<Rightarrow> db_wf d')"
proof -
  have w: "db_wf sample_db" by (rule sample_db_wf)
  obtain r where r: "login sample_settings (at_time 100) ''admin'' ''validpassword123'' sample_db = Inr r"
    by (simp add: login_unfold sample_defs)
  obtain d' u' at rt where "r = (d', u', at, rt)" by (cases r) auto
  with r w login_preserves_wf [OF w] show ?thesis by simp
qed

end
