(* ===== verification/Reset.thy ===== *)
theory Reset
  imports Sessions
begin

text \<open>
  Password management in \<open>auth/routes.py\<close>: \<open>change_password\<close>
  (POST \<open>/api/auth/change-password\<close>), \<open>forgot_password\<close>
  (POST \<open>/api/auth/forgot-password\<close>) and \<open>reset_password\<close>
  (POST \<open>/api/auth/reset-password\<close>).  Reset tokens are stored as bcrypt hashes of a
  random raw token, so redemption scans the unused rows and verifies the presented token
  against each.  The random values (\<open>secrets.token_urlsafe(32)\<close> and bcrypt's salts),
  the outcome of \<open>send_password_reset_email\<close> and the deny-list of the password policy
  are arguments; the log lines the handlers write that matter to the specification are
  returned as events.
\<close>

section \<open>Operations\<close>

datatype log_event = ResetEmailSent string | ResetEmailFailed string string

text \<open>
  \<open>change_password\<close>: the current password must verify against the stored hash (401),
  the new one must pass the policy with the username (422); then the hash and
  \<open>updated_at\<close> are written.  \<open>u\<close> is the user that \<open>get_current_user\<close> resolved.
\<close>

definition change_password ::
  "auth_settings \<Rightarrow> string list \<Rightarrow> request \<Rightarrow> user \<Rightarrow> string \<Rightarrow> string \<Rightarrow> nat \<Rightarrow> db \<Rightarrow> db response" where
  "change_password s common rq u current new salt d =
     (if \<not> password_matches u current
      then Inl (HTTPError 401 ''Current password is incorrect'')
      else (case validate_password (local_cfg s) common new (Some (username u)) of
              Some e \<Rightarrow> Inl (HTTPError 422 (password_error_message e))
            | None \<Rightarrow> Inr (update_user (u_id u)
                        (\<lambda>x. x\<lparr>password_hash := Some (hash_password salt new), updated_at := now rq\<rparr>) d)))"

text \<open>
  \<open>forgot_password\<close>: the first user with the e-mail address; only an active account
  whose \<open>auth_provider\<close> is \<open>local\<close> gets a token row (expiring one hour later) and
  an e-mail.  When the e-mail fails the source logs the raw token.  The answer is the same
  success in every case.
\<close>

definition forgot_password ::
  "request \<Rightarrow> string \<Rightarrow> string \<Rightarrow> nat \<Rightarrow> bool \<Rightarrow> db \<Rightarrow> db \<times> log_event list" where
  "forgot_password rq addr raw salt email_sent d =
     (case find (\<lambda>u. email u = Some addr) (users d) of
        None \<Rightarrow> (d, [])
      | Some u \<Rightarrow>
          if is_active u \<and> auth_provider u = ''local''
          then (d\<lparr>reset_tokens := reset_tokens d @
                   [\<lparr>rt_id = next_reset_id d, rt_user = u_id u, token_hash = hash_password salt raw,
                     rt_expires = now rq + 3600, used_at = None\<rparr>],
                  next_reset_id := Suc (next_reset_id d)\<rparr>,
                if email_sent then [ResetEmailSent addr] else [ResetEmailFailed addr raw])
          else (d, []))"

text \<open>The loop of \<open>reset_password\<close> over the rows with \<open>used_at IS NULL\<close>.\<close>

definition find_reset_token :: "db \<Rightarrow> string \<Rightarrow> reset_token option" where
  "find_reset_token d raw =
     find (\<lambda>t. verify_password raw (token_hash t)) (filter (\<lambda>t. used_at t = None) (reset_tokens d))"

definition reset_password ::
  "auth_settings \<Rightarrow> string list \<Rightarrow> request \<Rightarrow> string \<Rightarrow> string \<Rightarrow> nat \<Rightarrow> db \<Rightarrow> db response" where
  "reset_password s common rq raw new salt d =
     (case find_reset_token d raw of
        None \<Rightarrow> Inl (HTTPError 400 ''Invalid or expired reset token'')
      | Some tk \<Rightarrow>
          if rt_expires tk < now rq then Inl (HTTPError 400 ''Reset token has expired'')
          else (case find_user d (rt_user tk) of
                  None \<Rightarrow> Inl (HTTPError 400 ''Invalid or expired reset token'')
                | Some u \<Rightarrow>
                    if \<not> is_active u then Inl (HTTPError 400 ''Invalid or expired reset token'')
                    else (case validate_password (local_cfg s) common new (Some (username u)) of
                            Some e \<Rightarrow> Inl (HTTPError 422 (password_error_message e))
                          | None \<Rightarrow>
                              Inr (update_reset_token (rt_id tk) (\<lambda>x. x\<lparr>used_at := Some (now rq)\<rparr>)
                                     (update_user (u_id u)
                                        (\<lambda>x. x\<lparr>password_hash := Some (hash_password salt new),
                                              updated_at := now rq\<rparr>) d)))))"

text \<open>How many unused rows a raw token opens.\<close>

definition matching_unused :: "db \<Rightarrow> string \<Rightarrow> reset_token list" where
  "matching_unused d raw =
     filter (\<lambda>t. used_at t = None \<and> verify_password raw (token_hash t)) (reset_tokens d)"

text \<open>The sample store after \<open>admin\<close> asked for a reset at second 0 with raw token
  \<open>r4nd0m\<close>.\<close>

definition sample_reset_db :: db where
  "sample_reset_db = fst (forgot_password (at_time 0) ''admin@example.com'' ''r4nd0m'' 3 True sample_db)"

section \<open>Lemmas\<close>

lemmas reset_unfold = reset_password_def find_reset_token_def sample_reset_db_def forgot_password_def
  sample_defs verify_hash_iff find_user_def

lemma two_le_length: "x \<in> set xs \<Longrightarrow> y \<in> set xs \<Longrightarrow> x \<noteq> y \<Longrightarrow> 2 \<le> length xs"
proof -
  assume a: "x \<in> set xs" "y \<in> set xs" "x \<noteq> y"
  then have "card {x, y} \<le> card (set xs)" by (intro card_mono) auto
  also have "\<dots> \<le> length xs" by (rule card_length)
  finally show ?thesis using a(3) by simp
qed

lemma find_reset_token_Some:
  "find_reset_token d raw = Some tk \<Longrightarrow>
   tk \<in> set (reset_tokens d) \<and> used_at tk = None \<and> verify_password raw (token_hash tk)"
  by (auto simp: find_reset_token_def)

lemma find_reset_token_None:
  "matching_unused d raw = [] \<Longrightarrow> find_reset_token d raw = None"
  by (auto simp: find_reset_token_def matching_unused_def find_None_iff2 filter_empty_conv)

lemma reset_Inr:
  assumes "reset_password s common rq raw new salt d = Inr d'"
  shows "\<exists>tk u. find_reset_token d raw = Some tk \<and> now rq \<le> rt_expires tk \<and>
           find_user d (rt_user tk) = Some u \<and> is_active u \<and>
           validate_password (local_cfg s) common new (Some (username u)) = None \<and>
           d' = update_reset_token (rt_id tk) (\<lambda>x. x\<lparr>used_at := Some (now rq)\<rparr>)
                  (update_user (u_id u)
                     (\<lambda>x. x\<lparr>password_hash := Some (hash_password salt new), updated_at := now rq\<rparr>) d)"
  using assms
  by (auto simp: reset_password_def split: option.splits if_splits)

lemma reset_tokens_after_reset:
  "reset_tokens (update_reset_token i f (update_user j g d)) =
   update_where (\<lambda>x. rt_id x = i) f (reset_tokens d)"
  by (simp add: update_reset_token_def update_user_def)

lemma matching_unused_after_use:
  assumes "length (matching_unused d raw) \<le> 1" and "tk \<in> set (matching_unused d raw)"
  shows "matching_unused (update_reset_token (rt_id tk) (\<lambda>x. x\<lparr>used_at := Some n\<rparr>) (update_user j g d)) raw = []"
proof -
  have "False" if t: "t \<in> set (reset_tokens d)" "rt_id t \<noteq> rt_id tk" "used_at t = None"
      "verify_password raw (token_hash t)" for t
  proof -
    have tm: "t \<in> set (matching_unused d raw)" using t by (simp add: matching_unused_def)
    have "t \<noteq> tk" using t(2) by auto
    with tm assms(2) have "2 \<le> length (matching_unused d raw)"
      by (rule two_le_length)
    with assms(1) show False by simp
  qed
  note other = this
  show ?thesis
    unfolding matching_unused_def reset_tokens_after_reset filter_empty_conv
  proof (intro ballI notI)
    fix y assume y: "y \<in> set (update_where (\<lambda>x. rt_id x = rt_id tk) (\<lambda>x. x\<lparr>used_at := Some n\<rparr>) (reset_tokens d))"
      and m: "used_at y = None \<and> verify_password raw (token_hash y)"
    from set_update_whereD [OF y] obtain x where x: "x \<in> set (reset_tokens d)"
      and yx: "y = (if rt_id x = rt_id tk then x\<lparr>used_at := Some n\<rparr> else x)" by blast
    show False
    proof (cases "rt_id x = rt_id tk")
      case True
      with yx m show False by simp
    next
      case False
      with yx m have "used_at x = None" "verify_password raw (token_hash x)" by simp_all
      with x False show False by (rule other)
    qed
  qed
qed

section \<open>Properties of password reset and change\<close>

text \<open>
  C7. A reset token is single-use: when the presented raw token opens at most one unused
  row and a reset with it succeeded, every later reset with the same raw token fails with
  \<open>Invalid or expired reset token\<close>.
\<close>

theorem reset_token_single_use:
  assumes "length (matching_unused d raw) \<le> 1"
    and "reset_password s common rq raw new salt d = Inr d'"
  shows "reset_password s common' rq' raw new' salt' d' = Inl (HTTPError 400 ''Invalid or expired reset token'')"
proof -
  obtain tk u where tk: "find_reset_token d raw = Some tk" and "now rq \<le> rt_expires tk"
    and "find_user d (rt_user tk) = Some u" and "is_active u"
    and "validate_password (local_cfg s) common new (Some (username u)) = None"
    and d': "d' = update_reset_token (rt_id tk) (\<lambda>x. x\<lparr>used_at := Some (now rq)\<rparr>)
                  (update_user (u_id u)
                     (\<lambda>x. x\<lparr>password_hash := Some (hash_password salt new), updated_at := now rq\<rparr>) d)"
    using reset_Inr [OF assms(2)] by (elim exE conjE) (rule that)
  have "tk \<in> set (matching_unused d raw)"
    using find_reset_token_Some [OF tk] by (simp add: matching_unused_def)
  from matching_unused_after_use [OF assms(1) this] have "matching_unused d' raw = []"
    by (simp only: d')
  then have "find_reset_token d' raw = None" by (rule find_reset_token_None)
  then show ?thesis by (simp add: reset_password_def)
qed

theorem reset_token_single_use_witness:
  "case reset_password sample_settings sample_common_passwords (at_time 1800) ''r4nd0m'' ''NewSecret123!'' 5
          sample_reset_db of
     Inl _ \<Rightarrow> False
   | Inr d' \<Rightarrow> reset_password sample_settings sample_common_passwords (at_time 1900) ''r4nd0m''
                 ''OtherSecret456!'' 6 d' = Inl (HTTPError 400 ''Invalid or expired reset token'')"
proof -
  have m: "length (matching_unused sample_reset_db ''r4nd0m'') \<le> 1"
    by (simp add: matching_unused_def reset_unfold)
  have "\<not> isl (reset_password sample_settings sample_common_passwords (at_time 1800) ''r4nd0m''
                 ''NewSecret123!'' 5 sample_reset_db)"
    by (simp add: reset_unfold policy_unfold settings_defaults sample_common_passwords_def)
  then obtain d' where r: "reset_password sample_settings sample_common_passwords (at_time 1800) ''r4nd0m''
                 ''NewSecret123!'' 5 sample_reset_db = Inr d'"
    by (cases "reset_password sample_settings sample_common_passwords (at_time 1800) ''r4nd0m''
                 ''NewSecret123!'' 5 sample_reset_db") auto
  have "reset_password sample_settings sample_common_passwords (at_time 1900) ''r4nd0m''
          ''OtherSecret456!'' 6 d' = Inl (HTTPError 400 ''Invalid or expired reset token'')"
    by (rule reset_token_single_use [OF m r])
  then show ?thesis by (simp only: r sum.case prod.case)
qed

text \<open>
  The expiry scenario of the specification: a token issued at second 0 expires one
  hour later; redeeming it two hours later fails citing expiry, redeeming it after thirty
  minutes succeeds.
\<close>

theorem reset_expiry_scenario:
  "reset_password sample_settings sample_common_passwords (at_time 7200) ''r4nd0m'' ''NewSecret123!'' 5
     sample_reset_db = Inl (HTTPError 400 ''Reset token has expired'')
   \<and> \<not> isl (reset_password sample_settings sample_common_passwords (at_time 1800) ''r4nd0m''
              ''NewSecret123!'' 5 sample_reset_db)"
  by (simp add: reset_unfold policy_unfold settings_defaults sample_common_passwords_def)

text \<open>
  C8. A successful reset is authorised and effective: it needed an unused, unexpired token
  row that verifies the presented raw token, owned by an active user, and a new password
  that passes the policy; afterwards that user's stored hash is the hash of the new
  password and the row is marked used.
\<close>

theorem reset_password_sound:
  assumes "reset_password s common rq raw new salt d = Inr d'"
  shows "\<exists>tk u. tk \<in> set (reset_tokens d) \<and> used_at tk = None \<and> verify_password raw (token_hash tk)
           \<and> now rq \<le> rt_expires tk \<and> u \<in> set (users d) \<and> u_id u = rt_user tk \<and> is_active u
           \<and> validate_password (local_cfg s) common new (Some (username u)) = None
           \<and> (\<forall>x \<in> set (users d'). u_id x = u_id u \<longrightarrow> password_hash x = Some (hash_password salt new))
           \<and> (\<forall>x \<in> set (reset_tokens d'). rt_id x = rt_id tk \<longrightarrow> used_at x = Some (now rq))"
proof -
  obtain tk u where tk: "find_reset_token d raw = Some tk" and e: "now rq \<le> rt_expires tk"
    and u: "find_user d (rt_user tk) = Some u" and a: "is_active u"
    and v: "validate_password (local_cfg s) common new (Some (username u)) = None"
    and d': "d' = update_reset_token (rt_id tk) (\<lambda>x. x\<lparr>used_at := Some (now rq)\<rparr>)
                  (update_user (u_id u)
                     (\<lambda>x. x\<lparr>password_hash := Some (hash_password salt new), updated_at := now rq\<rparr>) d)"
    using reset_Inr [OF assms] by (elim exE conjE) (rule that)
  have u': "u \<in> set (users d)" "u_id u = rt_user tk"
    using u by (auto simp: find_user_def)
  have "\<forall>x \<in> set (users d'). u_id x = u_id u \<longrightarrow> password_hash x = Some (hash_password salt new)"
    using d' by (auto simp: update_reset_token_def update_user_def split: if_splits dest!: set_update_whereD)
  moreover have "\<forall>x \<in> set (reset_tokens d'). rt_id x = rt_id tk \<longrightarrow> used_at x = Some (now rq)"
    using d' by (auto simp: reset_tokens_after_reset split: if_splits dest!: set_update_whereD)
  ultimately show ?thesis
    using find_reset_token_Some [OF tk] e u' a v by blast
qed

theorem reset_password_sound_witness:
  "case reset_password sample_settings sample_common_passwords (at_time 1800) ''r4nd0m'' ''NewSecret123!'' 5
          sample_reset_db of
     Inl _ \<Rightarrow> False
   | Inr d' \<Rightarrow> (\<forall>x \<in> set (users d'). u_id x = 1 \<longrightarrow> password_hash x = Some (hash_password 5 ''NewSecret123!''))"
proof -
  have "\<not> isl (reset_password sample_settings sample_common_passwords (at_time 1800) ''r4nd0m''
                 ''NewSecret123!'' 5 sample_reset_db)"
    by (simp add: reset_unfold policy_unfold settings_defaults sample_common_passwords_def)
  then obtain d' where r: "reset_password sample_settings sample_common_passwords (at_time 1800) ''r4nd0m''
                 ''NewSecret123!'' 5 sample_reset_db = Inr d'"
    by (cases "reset_password sample_settings sample_common_passwords (at_time 1800) ''r4nd0m''
                 ''NewSecret123!'' 5 sample_reset_db") auto
  have one: "\<forall>tk \<in> set (reset_tokens sample_reset_db). rt_user tk = 1"
    by (simp add: reset_unfold)
  show ?thesis
    using reset_password_sound [OF r] one r by auto
qed

text \<open>
  C9. Changing the password requires the current one: a successful change means the
  stored hash verified the presented current password and the new password passed the
  policy; the account's hash is then the hash of the new password.
\<close>

theorem change_password_requires_current:
  assumes "change_password s common rq u current new salt d = Inr d'"
  shows "password_matches u current \<and> validate_password (local_cfg s) common new (Some (username u)) = None
         \<and> (\<forall>x \<in> set (users d'). u_id x = u_id u \<longrightarrow> password_hash x = Some (hash_password salt new))"
  using assms
  by (auto simp: change_password_def update_user_def split: if_splits option.splits dest!: set_update_whereD)

theorem change_password_requires_current_witness:
  "case change_password sample_settings sample_common_passwords (at_time 10) sample_admin ''validpassword123''
          ''NewSecret123!'' 5 sample_db of
     Inl _ \<Rightarrow> False
   | Inr d' \<Rightarrow> password_matches sample_admin ''validpassword123''"
proof -
  have "\<not> isl (change_password sample_settings sample_common_passwords (at_time 10) sample_admin
                ''validpassword123'' ''NewSecret123!'' 5 sample_db)"
    by (simp add: change_password_def password_matches_def sample_defs verify_hash_iff policy_unfold
                  settings_defaults sample_common_passwords_def)
  then obtain d' where r: "change_password sample_settings sample_common_passwords (at_time 10) sample_admin
                ''validpassword123'' ''NewSecret123!'' 5 sample_db = Inr d'"
    by (cases "change_password sample_settings sample_common_passwords (at_time 10) sample_admin
                ''validpassword123'' ''NewSecret123!'' 5 sample_db") auto
  show ?thesis using r change_password_requires_current [OF r] by simp
qed

text \<open>
  C10. The raw reset token reaches the log: when the reset e-mail to an eligible account
  cannot be sent, \<open>forgot_password\<close> logs the raw token it just issued, although the
  specification says the raw token is never logged.
\<close>

theorem forgot_password_logs_raw_token:
  assumes "find (\<lambda>u. email u = Some addr) (users d) = Some u"
    and "is_active u" and "auth_provider u = ''local''"
  shows "snd (forgot_password rq addr raw salt False d) = [ResetEmailFailed addr raw]"
  using assms by (simp add: forgot_password_def)

theorem forgot_password_logs_raw_token_witness:
  "snd (forgot_password (at_time 0) ''admin@example.com'' ''r4nd0m'' 3 False sample_db)
     = [ResetEmailFailed ''admin@example.com'' ''r4nd0m'']"
proof -
  have f: "find (\<lambda>u. email u = Some ''admin@example.com'') (users sample_db) = Some sample_admin"
    by (simp add: sample_defs)
  have "is_active sample_admin" "auth_provider sample_admin = ''local''"
    by (simp_all add: sample_admin_def)
  then show ?thesis by (rule forgot_password_logs_raw_token [OF f])
qed

end
