(* ===== verification/Alerts.thy ===== *)
theory Alerts
  imports Prelude "HOL-Library.AList"
begin

text \<open>
  The alert framework of \<open>src/backend/alert_methods.py\<close> and the e-mail method of
  \<open>src/backend/alert_methods_smtp.py\<close>: \<open>AlertMessage\<close>, the base class's
  \<open>validate_config\<close> and \<open>format_message\<close>, the registry (\<open>register_method\<close>,
  \<open>create_method\<close>), the \<open>AlertMethodManager\<close> with \<open>load_methods\<close>,
  \<open>reload_method\<close> and \<open>send_alert\<close>, the lazily created global manager, and of the
  SMTP method its type labels, \<open>_build_plain_message\<close>, \<open>_build_html_message\<close>,
  the decisions \<open>send\<close> takes before and around the SMTP conversation, and
  \<open>test_connection\<close>.  The \<open>AlertMethod\<close> table of the
  \<open>models\<close> module (not in the sources) is a list of rows with the columns the code
  reads.  A method's \<open>send\<close> is an interface: its result for each method id is the
  argument \<open>outcome\<close> (sent, not sent, or raised).  JSON configurations are parsed
  values or \<open>ConfigBad\<close> when \<open>json.loads\<close> raises.  The clock \<open>datetime.utcnow()\<close>
  is the argument \<open>now\<close> in seconds, and the formatted timestamp of a message is a
  string field.
\<close>

section \<open>Messages\<close>

text \<open>A metadata value: the types that \<open>isinstance(value, (str, int, float, bool))\<close>
  admits, a float with its \<open>str()\<close>, and anything else.\<close>

datatype meta_value = MStr string | MInt int | MFloat string | MBool bool | MOther

record alert_message =
  title :: string
  message :: string
  notification_type :: string
  source :: "string option"
  metadata :: "(string \<times> meta_value) list"
  timestamp_text :: string   \<comment> \<open>\<open>timestamp.strftime('%Y-%m-%d %H:%M:%S UTC')\<close>\<close>

definition nl :: string where
  "nl = [CHR 0x0A]"

definition join_lines :: "string list \<Rightarrow> string" where
  "join_lines parts = concat (splice parts (replicate (length parts - 1) nl))"

text \<open>\<open>format_message\<close>: the bold title when there is one, the message, the source.\<close>

definition format_message :: "alert_message \<Rightarrow> string" where
  "format_message m =
     join_lines ((if title m = [] then [] else [''**'' @ title m @ ''**'']) @ [message m] @
                 (case source m of None \<Rightarrow> [] | Some s \<Rightarrow> if s = [] then [] else [''Source: '' @ s]))"

section \<open>Configurations and the registry\<close>

datatype config_value = CStr string | CInt int | CBool bool | CList "string list" | CNone

fun falsy :: "config_value \<Rightarrow> bool" where
  "falsy (CStr s) = (s = [])"
| "falsy (CInt n) = (n = 0)"
| "falsy (CBool b) = (\<not> b)"
| "falsy (CList xs) = (xs = [])"
| "falsy CNone = True"

type_synonym config = "(string \<times> config_value) list"

definition comma_join :: "string list \<Rightarrow> string" where
  "comma_join xs = concat (splice xs (replicate (length xs - 1) '', ''))"

definition validate_config :: "string list \<Rightarrow> config \<Rightarrow> bool \<times> string" where
  "validate_config required cfg =
     (let missing = filter (\<lambda>f. case map_of cfg f of None \<Rightarrow> True | Some v \<Rightarrow> falsy v) required
      in if missing \<noteq> [] then (False, ''Missing required fields: '' @ comma_join missing)
         else (True, []))"

text \<open>An alert method class: its type, display name, required fields and optional
  fields with their defaults.\<close>

record method_class =
  mc_type :: string
  mc_display_name :: string
  mc_required :: "string list"
  mc_optional :: "(string \<times> config_value) list"

type_synonym registry = "(string \<times> method_class) list"

definition register_method :: "method_class \<Rightarrow> registry \<Rightarrow> string + registry" where
  "register_method cls reg =
     (if mc_type cls = [] then Inl ''Method class must define method_type''
      else Inr (AList.update (mc_type cls) cls reg))"

record alert_method =
  m_id :: nat
  m_name :: string
  m_class :: method_class
  m_config :: config

definition create_method :: "registry \<Rightarrow> string \<Rightarrow> nat \<Rightarrow> string \<Rightarrow> config \<Rightarrow> alert_method option" where
  "create_method reg ty mid name cfg =
     (case map_of reg ty of
        None \<Rightarrow> None
      | Some cls \<Rightarrow> Some \<lparr>m_id = mid, m_name = name, m_class = cls, m_config = cfg\<rparr>)"

text \<open>\<open>get_method_types\<close>: the metadata of every registered class, in registration
  order.\<close>

record method_type_info =
  mt_type :: string
  mt_display_name :: string
  mt_required_fields :: "string list"
  mt_optional_fields :: "(string \<times> config_value) list"

definition get_method_types :: "registry \<Rightarrow> method_type_info list" where
  "get_method_types reg =
     map (\<lambda>(_, cls). \<lparr>mt_type = mc_type cls, mt_display_name = mc_display_name cls,
                      mt_required_fields = mc_required cls,
                      mt_optional_fields = mc_optional cls\<rparr>) reg"

section \<open>The manager\<close>

datatype config_json = NoConfig | ConfigOk config | ConfigBad

record method_row =
  row_id :: nat
  row_name :: string
  row_type :: string
  row_config :: config_json
  row_enabled :: bool
  notify_info :: bool
  notify_success :: bool
  notify_warning :: bool
  notify_error :: bool
  last_sent_at :: "int option"
  min_interval_seconds :: int

fun parse_config :: "config_json \<Rightarrow> config option" where
  "parse_config NoConfig = Some []"
| "parse_config (ConfigOk c) = Some c"
| "parse_config ConfigBad = None"

type_synonym manager = "(nat \<times> alert_method) list"

text \<open>\<open>load_methods\<close>: the manager's dictionary is cleared and refilled from the
  enabled rows; a row whose configuration does not parse (the exception is logged) or
  whose type is not registered is skipped.\<close>

fun load_rows :: "registry \<Rightarrow> method_row list \<Rightarrow> manager \<Rightarrow> manager" where
  "load_rows reg [] mgr = mgr"
| "load_rows reg (r # rs) mgr =
     load_rows reg rs
       (case parse_config (row_config r) of
          None \<Rightarrow> mgr
        | Some cfg \<Rightarrow>
            (case create_method reg (row_type r) (row_id r) (row_name r) cfg of
               None \<Rightarrow> mgr
             | Some m \<Rightarrow> AList.update (row_id r) m mgr))"

definition load_methods :: "registry \<Rightarrow> method_row list \<Rightarrow> manager" where
  "load_methods reg rows = load_rows reg (filter row_enabled rows) []"

text \<open>\<open>reload_method\<close>: a missing or disabled row is dropped from the manager; a row
  whose configuration does not parse raises out of the method (there is no
  \<open>except\<close>).\<close>

definition reload_method :: "registry \<Rightarrow> nat \<Rightarrow> method_row list \<Rightarrow> manager \<Rightarrow> string + manager" where
  "reload_method reg mid rows mgr =
     (case find (\<lambda>r. row_id r = mid) rows of
        None \<Rightarrow> Inr (AList.delete mid mgr)
      | Some r \<Rightarrow>
          if \<not> row_enabled r then Inr (AList.delete mid mgr)
          else case parse_config (row_config r) of
                 None \<Rightarrow> Inl ''JSONDecodeError''
               | Some cfg \<Rightarrow>
                   (case create_method reg (row_type r) (row_id r) (row_name r) cfg of
                      None \<Rightarrow> Inr mgr
                    | Some m \<Rightarrow> Inr (AList.update mid m mgr)))"

text \<open>The notification-type filter of a row; an unknown type is off.\<close>

definition type_enabled :: "method_row \<Rightarrow> string \<Rightarrow> bool" where
  "type_enabled r ty =
     (if ty = ''info'' then notify_info r
      else if ty = ''success'' then notify_success r
      else if ty = ''warning'' then notify_warning r
      else if ty = ''error'' then notify_error r
      else False)"

definition rate_limited :: "int \<Rightarrow> method_row \<Rightarrow> bool" where
  "rate_limited now r =
     (case last_sent_at r of None \<Rightarrow> False | Some t \<Rightarrow> now - t < min_interval_seconds r)"

datatype send_outcome = SendTrue | SendFalse | SendRaised

text \<open>
  \<open>send_alert\<close>: for each method of the manager, in order, the row with its id is read;
  a method without a row, with the type switched off, or sent to less than
  \<open>min_interval_seconds\<close> ago is skipped; otherwise its \<open>send\<close> runs, its result is
  recorded (an exception records \<open>False\<close>), and a success stores the time of sending.
\<close>

fun send_loop ::
  "int \<Rightarrow> string \<Rightarrow> (nat \<Rightarrow> send_outcome) \<Rightarrow> manager \<Rightarrow> method_row list \<Rightarrow> (nat \<times> bool) list \<Rightarrow>
   (nat \<times> bool) list \<times> method_row list" where
  "send_loop now ty outcome [] rows res = (res, rows)"
| "send_loop now ty outcome ((mid, m) # ms) rows res =
     (case find (\<lambda>r. row_id r = mid) rows of
        None \<Rightarrow> send_loop now ty outcome ms rows res
      | Some r \<Rightarrow>
          if \<not> type_enabled r ty \<or> rate_limited now r
          then send_loop now ty outcome ms rows res
          else (case outcome mid of
                  SendTrue \<Rightarrow>
                    send_loop now ty outcome ms
                      (update_where (\<lambda>x. row_id x = mid) (\<lambda>x. x\<lparr>last_sent_at := Some now\<rparr>) rows)
                      (AList.update mid True res)
                | SendFalse \<Rightarrow> send_loop now ty outcome ms rows (AList.update mid False res)
                | SendRaised \<Rightarrow> send_loop now ty outcome ms rows (AList.update mid False res)))"

definition send_alert ::
  "int \<Rightarrow> string \<Rightarrow> (nat \<Rightarrow> send_outcome) \<Rightarrow> manager \<Rightarrow> method_row list \<Rightarrow>
   (nat \<times> bool) list \<times> method_row list" where
  "send_alert now ty outcome mgr rows = send_loop now ty outcome mgr rows []"

text \<open>\<open>get_alert_manager\<close>: the global manager is created and loaded on first use.\<close>

definition get_alert_manager :: "registry \<Rightarrow> method_row list \<Rightarrow> manager option \<Rightarrow> manager" where
  "get_alert_manager reg rows g = (case g of None \<Rightarrow> load_methods reg rows | Some mgr \<Rightarrow> mgr)"

text \<open>The module-level \<open>send_alert\<close>: the global manager (created on first use and kept
  afterwards) sends the alert; the result is the manager's, with the new global.\<close>

definition send_alert_global ::
  "registry \<Rightarrow> manager option \<Rightarrow> int \<Rightarrow> string \<Rightarrow> (nat \<Rightarrow> send_outcome) \<Rightarrow> method_row list \<Rightarrow>
   ((nat \<times> bool) list \<times> method_row list) \<times> manager option" where
  "send_alert_global reg g now ty outcome rows =
     (let mgr = get_alert_manager reg rows g in (send_alert now ty outcome mgr rows, Some mgr))"

section \<open>The SMTP method\<close>

definition smtp_class :: method_class where
  "smtp_class = \<lparr>mc_type = ''smtp'', mc_display_name = ''Email (SMTP)'',
                 mc_required = [''smtp_host'', ''smtp_port'', ''from_email'', ''to_emails''],
                 mc_optional = [(''smtp_user'', CStr []), (''smtp_password'', CStr []),
                                (''use_tls'', CBool True), (''use_ssl'', CBool False),
                                (''from_name'', CStr ''ECM Alerts'')]\<rparr>"

definition type_label :: "string \<Rightarrow> string option" where
  "type_label ty =
     (if ty = ''info'' then Some ''[INFO]'' else if ty = ''success'' then Some ''[SUCCESS]''
      else if ty = ''warning'' then Some ''[WARNING]'' else if ty = ''error'' then Some ''[ERROR]''
      else None)"

text \<open>\<open>key.replace("_", " ").title()\<close> on ASCII keys: a letter after a non-letter is
  upper-cased, any other letter lower-cased.\<close>

definition is_alpha :: "char \<Rightarrow> bool" where
  "is_alpha c = (let n = of_char c in (65 \<le> n \<and> n \<le> (90::nat)) \<or> (97 \<le> n \<and> n \<le> 122))"

definition to_upper :: "char \<Rightarrow> char" where
  "to_upper c = (let n = of_char c in if 97 \<le> n \<and> n \<le> (122::nat) then char_of (n - 32) else c)"

fun title_case :: "bool \<Rightarrow> string \<Rightarrow> string" where
  "title_case prev [] = []"
| "title_case prev (c # cs) =
     (if is_alpha c then (if prev then lower_char c else to_upper c) # title_case True cs
      else c # title_case False cs)"

definition meta_key :: "string \<Rightarrow> string" where
  "meta_key k = title_case False (map (\<lambda>c. if c = CHR ''_'' then CHR '' '' else c) k)"

fun meta_text :: "meta_value \<Rightarrow> string option" where
  "meta_text (MStr s) = Some s"
| "meta_text (MInt n) = Some (string_of_int n)"
| "meta_text (MFloat s) = Some s"
| "meta_text (MBool b) = Some (if b then ''True'' else ''False'')"
| "meta_text MOther = None"

definition rule40 :: string where
  "rule40 = replicate 40 (CHR ''-'')"

definition build_plain_message :: "alert_message \<Rightarrow> string" where
  "build_plain_message m =
     join_lines
       ([(case type_label (notification_type m) of None \<Rightarrow> ''[NOTIFICATION]'' | Some l \<Rightarrow> l) @ '' '' @
           (if title m = [] then ''Notification'' else title m), [], message m]
        @ (if metadata m = [] then []
           else [[], rule40] @
                List.map_filter (\<lambda>(k, v). map_option (\<lambda>t. meta_key k @ '': '' @ t) (meta_text v)) (metadata m))
        @ [[], rule40,
           ''Sent from Enhanced Channel Manager'' @
             (case source m of None \<Rightarrow> [] | Some s \<Rightarrow> if s = [] then [] else '' - '' @ s),
           ''Time: '' @ timestamp_text m])"

text \<open>
  The recipients of \<open>to_emails\<close> given as a string: split at commas, stripped, empty
  entries dropped.
\<close>

function split_commas :: "string \<Rightarrow> string list" where
  "split_commas s =
     (case dropWhile (\<lambda>c. c \<noteq> CHR '','') s of
        [] \<Rightarrow> [s]
      | _ # rest \<Rightarrow> takeWhile (\<lambda>c. c \<noteq> CHR '','') s # split_commas rest)"
  by pat_completeness auto
termination
proof (relation "measure length")
  fix s :: string and x rest
  assume "dropWhile (\<lambda>c. c \<noteq> CHR '','') s = x # rest"
  then have "length (x # rest) \<le> length s" by (metis length_dropWhile_le)
  then show "(rest, s) \<in> measure length" by simp
qed simp

definition is_space :: "char \<Rightarrow> bool" where
  "is_space c = (c \<in> set '' '' \<or> of_char c \<in> {9, 10, 11, 12, 13::nat})"

definition strip :: "string \<Rightarrow> string" where
  "strip s = rev (dropWhile is_space (rev (dropWhile is_space s)))"

definition recipients :: "config_value \<Rightarrow> string list" where
  "recipients v =
     (case v of
        CStr s \<Rightarrow> filter (\<lambda>e. e \<noteq> []) (map strip (split_commas s))
      | CList xs \<Rightarrow> xs
      | _ \<Rightarrow> [])"

text \<open>
  What \<open>SMTPMethod.send\<close> does with a configuration: \<open>None\<close> when it gives up before
  connecting (a required value missing or falsy, or no recipient), otherwise the plan of
  the conversation: SSL or plain, \<open>STARTTLS\<close> or not, login or not, and the recipients.
\<close>

record smtp_plan =
  plan_ssl :: bool
  plan_starttls :: bool
  plan_login :: bool
  plan_to :: "string list"

definition cfg_get :: "config \<Rightarrow> string \<Rightarrow> config_value \<Rightarrow> config_value" where
  "cfg_get cfg k dflt = (case map_of cfg k of None \<Rightarrow> dflt | Some v \<Rightarrow> v)"

definition truthy :: "config_value \<Rightarrow> bool" where
  "truthy v = (\<not> falsy v)"

definition smtp_send_plan :: "config \<Rightarrow> smtp_plan option" where
  "smtp_send_plan cfg =
     (let host = cfg_get cfg ''smtp_host'' CNone;
          from_addr = cfg_get cfg ''from_email'' CNone;
          to = cfg_get cfg ''to_emails'' CNone
      in if falsy host \<or> falsy from_addr \<or> falsy to then None
         else let rcpts = recipients to
              in if rcpts = [] then None
                 else let ssl = truthy (cfg_get cfg ''use_ssl'' (CBool False));
                          tls = truthy (cfg_get cfg ''use_tls'' (CBool True))
                      in Some \<lparr>plan_ssl = ssl, plan_starttls = tls \<and> \<not> ssl,
                               plan_login = truthy (cfg_get cfg ''smtp_user'' CNone)
                                            \<and> truthy (cfg_get cfg ''smtp_password'' CNone),
                               plan_to = rcpts\<rparr>)"

text \<open>The result of \<open>send\<close>: the plan, then the outcome of the conversation (any
  \<open>SMTPException\<close> or other exception is \<open>False\<close>).\<close>

definition smtp_send :: "config \<Rightarrow> bool \<Rightarrow> bool" where
  "smtp_send cfg conversation_ok = (case smtp_send_plan cfg of None \<Rightarrow> False | Some _ \<Rightarrow> conversation_ok)"

section \<open>The SMTP method's HTML body\<close>

text \<open>\<open>_build_html_message\<close>: the colour of the notification type, the emoji (an
  argument: \<open>get_emoji\<close> is a display table of non-ASCII symbols), the title or
  \<open>Notification\<close>, the message with newlines as \<open><br>\<close>, the metadata items whose value is
  a string, number or boolean, and the footer.  Nothing is HTML-escaped.\<close>

definition type_color :: "string \<Rightarrow> string" where
  "type_color ty =
     (if ty = ''info'' then ''#3B82F6'' else if ty = ''success'' then ''#22C55E''
      else if ty = ''warning'' then ''#F59E0B'' else if ty = ''error'' then ''#EF4444''
      else ''#808080'')"

definition html_lines :: "string list \<Rightarrow> string" where
  "html_lines ls = concat (map (\<lambda>l. l @ nl) ls)"

definition html_head :: "string \<Rightarrow> string" where
  \<open>html_head color =
     nl @ html_lines
       [''        <html>'', ''        <head>'', ''            <style>'',
        ''                body { font-family: -apple-system, BlinkMacSystemFont, 'Segoe UI', Roboto, sans-serif; }'',
        ''                .container { max-width: 600px; margin: 0 auto; padding: 20px; }'',
        ''                .header { background-color: '' @ color @
          ''; color: white; padding: 15px; border-radius: 8px 8px 0 0; }'',
        ''                .header h2 { margin: 0; font-size: 18px; }'',
        ''                .body { background-color: #f8f9fa; padding: 20px; border: 1px solid #e9ecef; border-top: none; }'',
        ''                .message { color: #333; line-height: 1.6; }'',
        ''                .metadata { margin-top: 15px; padding-top: 15px; border-top: 1px solid #e9ecef; }'',
        ''                .metadata-item { font-size: 13px; color: #666; margin: 5px 0; }'',
        ''                .footer { font-size: 12px; color: #999; margin-top: 15px; padding-top: 15px; border-top: 1px solid #e9ecef; }'',
        ''            </style>'', ''        </head>'', ''        <body>'',
        ''            <div class="container">'', ''                <div class="header">'']\<close>

definition replace_nl :: "string \<Rightarrow> string" where
  "replace_nl s = concat (map (\<lambda>c. if c = CHR 0x0A then ''<br>'' else [c]) s)"

definition html_metadata :: "(string \<times> meta_value) list \<Rightarrow> string" where
  \<open>html_metadata md =
     (if md = [] then []
      else ''<div class="metadata">'' @
           concat (List.map_filter (\<lambda>(k, v). map_option (\<lambda>t.
             ''<div class="metadata-item"><strong>'' @ meta_key k @ '':</strong> '' @ t @ ''</div>'')
             (meta_text v)) md) @
           ''</div>'')\<close>

definition build_html_message :: "string \<Rightarrow> alert_message \<Rightarrow> string" where
  \<open>build_html_message emoji m =
     html_head (type_color (notification_type m)) @
     ''                    <h2>'' @ emoji @ '' '' @ (if title m = [] then ''Notification'' else title m) @
     ''</h2>'' @ nl @
     html_lines [''                </div>'', ''                <div class="body">''] @
     ''                    <div class="message">'' @ replace_nl (message m) @ ''</div>'' @ nl @
     ''        '' @ html_metadata (metadata m) @
     nl @ html_lines
       [''                    <div class="footer">'',
        ''                        Sent from Enhanced Channel Manager'' @
          (case source m of None \<Rightarrow> [] | Some s \<Rightarrow> if s = [] then [] else '' - '' @ s) @ ''<br>'',
        ''                        '' @ timestamp_text m,
        ''                    </div>'', ''                </div>'', ''            </div>'',
        ''        </body>'', ''        </html>''] @ ''        ''\<close>

section \<open>The SMTP method's connection test\<close>

text \<open>\<open>int(...)\<close> on a configuration value: an integer, a boolean, or a string of
  decimal digits with an optional sign and surrounding white space (Python also accepts
  digit-separating underscores, which the model does not).\<close>

definition is_digit_chr :: "char \<Rightarrow> bool" where
  "is_digit_chr c \<longleftrightarrow> (48::nat) \<le> of_char c \<and> of_char c \<le> (57::nat)"

definition digits_value :: "string \<Rightarrow> int" where
  "digits_value ds = foldl (\<lambda>acc c. 10 * acc + int (of_char c - 48)) 0 ds"

definition parse_int :: "string \<Rightarrow> int option" where
  "parse_int s =
     (let t = strip s in
      case t of
        [] \<Rightarrow> None
      | c # ds \<Rightarrow>
          if (c = CHR ''-'' \<or> c = CHR ''+'') then
            (if ds \<noteq> [] \<and> list_all is_digit_chr ds
             then Some (if c = CHR ''-'' then - digits_value ds else digits_value ds) else None)
          else if list_all is_digit_chr t then Some (digits_value t) else None)"

fun py_int :: "config_value \<Rightarrow> int option" where
  "py_int (CInt n) = Some n"
| "py_int (CBool b) = Some (if b then 1 else 0)"
| "py_int (CStr s) = parse_int s"
| "py_int (CList _) = None"
| "py_int CNone = None"

text \<open>\<open>str(v)\<close> of a configuration value in an f-string.\<close>

fun config_text :: "config_value \<Rightarrow> string" where
  "config_text (CStr s) = s"
| "config_text (CInt n) = string_of_int n"
| "config_text (CBool b) = (if b then ''True'' else ''False'')"
| "config_text (CList xs) = ''['' @ comma_join (map (\<lambda>x. ''@ x @ '') xs) @ '']''"
| "config_text CNone = ''None''"

text \<open>How the test connection ends: connected, or one of the exceptions the method
  catches (\<open>SMTPAuthenticationError\<close>, \<open>SMTPConnectError\<close>, \<open>TimeoutError\<close>, any
  other with its text).\<close>

datatype smtp_connect =
    SmtpConnected
  | SmtpAuthFailed
  | SmtpConnectFailed
  | SmtpTimedOut
  | SmtpOtherError string

text \<open>\<open>SMTPMethod.test_connection\<close>: the port is converted before the \<open>try\<close>, so a bad
  port raises out of the method (\<open>Inl\<close>); then the three configuration checks; then the
  connection, and on success the test message sent with \<open>send\<close>, whose SMTP
  conversation's outcome is \<open>send_ok\<close>.\<close>

definition smtp_test_connection :: "config \<Rightarrow> smtp_connect \<Rightarrow> bool \<Rightarrow> string + bool \<times> string" where
  "smtp_test_connection cfg conn send_ok =
     (let host = cfg_get cfg ''smtp_host'' CNone;
          from_addr = cfg_get cfg ''from_email'' CNone;
          to = cfg_get cfg ''to_emails'' CNone
      in case py_int (cfg_get cfg ''smtp_port'' (CInt 587)) of
           None \<Rightarrow> Inl ''ValueError''
         | Some port \<Rightarrow>
             if falsy host then Inr (False, ''SMTP host not configured'')
             else if falsy from_addr then Inr (False, ''From email not configured'')
             else if falsy to then Inr (False, ''No recipients configured'')
             else case conn of
               SmtpConnected \<Rightarrow>
                 if smtp_send cfg send_ok then Inr (True, ''Test email sent successfully'')
                 else Inr (False, ''Connected but failed to send test email'')
             | SmtpAuthFailed \<Rightarrow> Inr (False, ''Authentication failed - check username and password'')
             | SmtpConnectFailed \<Rightarrow>
                 Inr (False, ''Could not connect to '' @ config_text host @ '':'' @ string_of_int port)
             | SmtpTimedOut \<Rightarrow>
                 Inr (False, ''Connection timed out to '' @ config_text host @ '':'' @ string_of_int port)
             | SmtpOtherError e \<Rightarrow> Inr (False, ''Error: '' @ e))"

section \<open>Invariants\<close>

definition rows_wf :: "method_row list \<Rightarrow> bool" where
  "rows_wf rows = distinct (map row_id rows)"

text \<open>The row of a method id, as \<open>send_alert\<close> reads it.\<close>

definition row_of :: "nat \<Rightarrow> method_row list \<Rightarrow> method_row option" where
  "row_of mid rows = find (\<lambda>r. row_id r = mid) rows"

section \<open>Sample data\<close>

text \<open>A registry holding the SMTP class, one enabled SMTP method subscribed to warnings
  and errors with a five-minute interval, and the manager loaded from it.\<close>

definition sample_registry :: registry where
  "sample_registry = [(''smtp'', smtp_class)]"

definition sample_row :: method_row where
  "sample_row =
     \<lparr>row_id = 1, row_name = ''ops mail'', row_type = ''smtp'',
      row_config = ConfigOk [(''smtp_host'', CStr ''mail.example.com''), (''smtp_port'', CInt 587),
                             (''from_email'', CStr ''ecm@example.com''),
                             (''to_emails'', CStr ''ops@example.com, ,admin@example.com'')],
      row_enabled = True, notify_info = False, notify_success = False, notify_warning = True,
      notify_error = True, last_sent_at = None, min_interval_seconds = 300\<rparr>"

definition sample_manager :: manager where
  "sample_manager = load_methods sample_registry [sample_row]"

section \<open>Lemmas\<close>

lemma row_of_stamp:
  "row_of mid (update_where (\<lambda>x. row_id x = mid') (\<lambda>x. x\<lparr>last_sent_at := Some t\<rparr>) rows) =
   map_option (\<lambda>x. if row_id x = mid' then x\<lparr>last_sent_at := Some t\<rparr> else x) (row_of mid rows)"
  by (simp add: row_of_def find_update_where_map)

lemma row_of_id: "row_of mid rows = Some r \<Longrightarrow> row_id r = mid"
  by (auto simp: row_of_def)

lemma send_loop_skips:
  assumes "row_of mid rows = Some r" and "rate_limited now r"
    and "send_loop now ty outcome ms rows res = (res', rows')"
  shows "map_of res' mid = map_of res mid"
  using assms
proof (induction now ty outcome ms rows res arbitrary: r rule: send_loop.induct)
  case (1 now ty outcome rows res)
  then show ?case by simp
next
  case (2 now ty outcome mid' m ms rows res)
  show ?case
  proof (cases "mid' = mid")
    case True
    with 2 show ?thesis by (auto simp: row_of_def)
  next
    case False
    have keep: "row_of mid (update_where (\<lambda>x. row_id x = mid') (\<lambda>x. x\<lparr>last_sent_at := Some now\<rparr>) rows) = Some r"
      using "2.prems"(1) False row_of_id [OF "2.prems"(1)] by (simp add: row_of_stamp)
    from 2 False keep show ?thesis
      by (auto simp: row_of_def [symmetric] update_conv' split: option.splits if_splits send_outcome.splits)
  qed
qed

lemma unstamp_stamp [simp]:
  "(if b then x\<lparr>last_sent_at := Some t\<rparr> else x)\<lparr>last_sent_at := None\<rparr> = x\<lparr>last_sent_at := None\<rparr>"
  by simp

lemma send_loop_rows:
  "send_loop now ty outcome ms rows res = (res', rows') \<Longrightarrow>
   map_option (\<lambda>x. x\<lparr>last_sent_at := None\<rparr>) (row_of mid rows') =
   map_option (\<lambda>x. x\<lparr>last_sent_at := None\<rparr>) (row_of mid rows)"
proof (induction now ty outcome ms rows res rule: send_loop.induct)
  case (1 now ty outcome rows res)
  then show ?case by simp
next
  case (2 now ty outcome mid' m ms rows res)
  then show ?case
    by (auto simp: row_of_stamp option.map_comp comp_def row_of_def [symmetric]
             split: option.splits if_splits send_outcome.splits)
qed

lemma send_loop_stamps:
  "send_loop now ty outcome ms rows res = (res', rows') \<Longrightarrow>
   (map_of res mid = Some True \<longrightarrow> map_option last_sent_at (row_of mid rows) = Some (Some now)) \<Longrightarrow>
   map_of res' mid = Some True \<longrightarrow> map_option last_sent_at (row_of mid rows') = Some (Some now)"
proof (induction now ty outcome ms rows res rule: send_loop.induct)
  case (1 now ty outcome rows res)
  then show ?case by simp
next
  case (2 now ty outcome mid' m ms rows res)
  show ?case
  proof (cases "mid' = mid")
    case True
    with 2 show ?thesis
      by (auto simp: row_of_stamp row_of_def [symmetric] update_conv'
               split: option.splits if_splits send_outcome.splits dest: row_of_id)
  next
    case False
    with 2 show ?thesis
      by (auto simp: row_of_stamp row_of_def [symmetric] update_conv'
               split: option.splits if_splits send_outcome.splits)
  qed
qed

lemma type_enabled_stamp [simp]:
  "type_enabled (x\<lparr>last_sent_at := t\<rparr>) ty = type_enabled x ty"
  by (simp add: type_enabled_def)

lemma send_loop_filter:
  "send_loop now ty outcome ms rows res = (res', rows') \<Longrightarrow> map_of res' mid \<noteq> None \<Longrightarrow>
   map_of res mid \<noteq> None \<or> (\<exists>r. row_of mid rows = Some r \<and> type_enabled r ty)"
proof (induction now ty outcome ms rows res rule: send_loop.induct)
  case (1 now ty outcome rows res)
  then show ?case by simp
next
  case (2 now ty outcome mid' m ms rows res)
  show ?case
  proof (cases "mid' = mid")
    case True
    with 2 show ?thesis
      by (auto simp: row_of_def [symmetric] split: option.splits if_splits send_outcome.splits)
  next
    case False
    with 2 show ?thesis
      by (auto simp: row_of_stamp row_of_def [symmetric] update_conv'
               split: option.splits if_splits send_outcome.splits)
  qed
qed

lemma sample_send:
  "send_alert 1000 ''error'' (\<lambda>_. SendTrue) sample_manager [sample_row] =
     ([(1, True)], [sample_row\<lparr>last_sent_at := Some 1000\<rparr>])"
  by (simp add: send_alert_def sample_manager_def load_methods_def sample_registry_def sample_row_def
                create_method_def type_enabled_def rate_limited_def update_where_def)

section \<open>Properties\<close>

text \<open>
  C32. Rate limiting holds across calls of \<open>send_alert\<close>: when a method was sent to successfully at time \<open>t1\<close>, a later call at a time less than its \<open>min_interval_seconds\<close> after \<open>t1\<close> does not attempt that method at all.
\<close>

theorem send_alert_rate_limit:
  assumes "send_alert t1 ty1 o1 mgr rows = (res1, rows1)" and "map_of res1 mid = Some True"
    and "row_of mid rows = Some r" and "t2 - t1 < min_interval_seconds r"
    and "send_alert t2 ty2 o2 mgr rows1 = (res2, rows2)"
  shows "map_of res2 mid = None"
proof -
  have st: "map_option last_sent_at (row_of mid rows1) = Some (Some t1)"
    using send_loop_stamps [OF assms(1) [unfolded send_alert_def]] assms(2) by simp
  then obtain r1 where r1: "row_of mid rows1 = Some r1" "last_sent_at r1 = Some t1" by auto
  have "map_option (\<lambda>x. x\<lparr>last_sent_at := None\<rparr>) (row_of mid rows1) =
        map_option (\<lambda>x. x\<lparr>last_sent_at := None\<rparr>) (row_of mid rows)"
    by (rule send_loop_rows [OF assms(1) [unfolded send_alert_def]])
  then have "min_interval_seconds r1 = min_interval_seconds r"
    using r1(1) assms(3) by (metis (no_types, lifting) method_row.ext_inject method_row.surjective
                                   method_row.update_convs(10) option.inject option.simps(9))
  then have "rate_limited t2 r1" using r1(2) assms(4) by (simp add: rate_limited_def)
  from send_loop_skips [OF r1(1) this assms(5) [unfolded send_alert_def]] show ?thesis by simp
qed

theorem send_alert_rate_limit_witness:
  "map_of (fst (send_alert 1100 ''error'' (\<lambda>_. SendTrue) sample_manager
                  [sample_row\<lparr>last_sent_at := Some 1000\<rparr>])) 1 = None"
proof -
  have r: "row_of 1 [sample_row] = Some sample_row" by (simp add: row_of_def sample_row_def)
  have lt: "(1100::int) - 1000 < min_interval_seconds sample_row" by (simp add: sample_row_def)
  obtain res2 rows2 where e: "send_alert 1100 ''error'' (\<lambda>_. SendTrue) sample_manager
                  [sample_row\<lparr>last_sent_at := Some 1000\<rparr>] = (res2, rows2)" by fastforce
  from send_alert_rate_limit [OF sample_send _ r lt e] e show ?thesis by simp
qed

text \<open>
  C33. A method is only attempted for notification types it subscribed to: every method id in the result of \<open>send_alert\<close> has a row whose flag for the type is on (an unknown type reaches no method).
\<close>

theorem send_alert_type_filter:
  assumes "send_alert now ty outcome mgr rows = (res, rows')" and "map_of res mid = Some b"
  shows "\<exists>r. row_of mid rows = Some r \<and> type_enabled r ty"
  using send_loop_filter [OF assms(1) [unfolded send_alert_def]] assms(2) by simp

theorem send_alert_type_filter_witness:
  "\<exists>r. row_of 1 [sample_row] = Some r \<and> type_enabled r ''error''"
  using send_alert_type_filter [OF sample_send, of 1 True] by simp

text \<open>The SMTP plan for the sample configuration: plain connection with STARTTLS,
  no login, and the two non-empty recipients of the comma-separated list.\<close>

theorem smtp_sample_plan:
  "smtp_send_plan (case row_config sample_row of ConfigOk c \<Rightarrow> c | _ \<Rightarrow> []) =
     Some \<lparr>plan_ssl = False, plan_starttls = True, plan_login = False,
           plan_to = [''ops@example.com'', ''admin@example.com'']\<rparr>"
  by (simp add: smtp_send_plan_def sample_row_def cfg_get_def recipients_def strip_def is_space_def truthy_def)


section \<open>The HTML body and the connection test\<close>

lemma replace_nl_id: "CHR 0x0A \<notin> set s \<Longrightarrow> replace_nl s = s"
  by (induction s) (auto simp: replace_nl_def)

lemma html_title_unescaped:
  assumes t: "title m \<noteq> []" and n: "CHR 0x0A \<notin> set (message m)"
  shows "has_infix (build_html_message emoji m) (title m) \<and>
         has_infix (build_html_message emoji m) (message m)"
proof
  have "\<exists>B. build_html_message emoji m =
      (html_head (type_color (notification_type m)) @ ''                    <h2>'' @ emoji @ '' '') @
      title m @ B"
    using t by (simp add: build_html_message_def)
  then show "has_infix (build_html_message emoji m) (title m)"
    using has_infix_split by blast
next
  have \<open>\<exists>B. build_html_message emoji m =
      (html_head (type_color (notification_type m)) @ ''                    <h2>'' @ emoji @ '' '' @
       title m @ ''</h2>'' @ nl @
       html_lines [''                </div>'', ''                <div class="body">''] @
       ''                    <div class="message">'') @ message m @ B\<close>
    using t n by (simp add: build_html_message_def replace_nl_id)
  then show "has_infix (build_html_message emoji m) (message m)"
    using has_infix_split by blast
qed

lemma test_connection_ok:
  "(\<exists>msg. smtp_test_connection cfg conn ok = Inr (True, msg)) \<longleftrightarrow>
   py_int (cfg_get cfg ''smtp_port'' (CInt 587)) \<noteq> None \<and> conn = SmtpConnected \<and>
   smtp_send_plan cfg \<noteq> None \<and> ok"
  by (auto simp: smtp_test_connection_def smtp_send_def smtp_send_plan_def Let_def
           split: option.splits smtp_connect.splits if_splits)

lemma test_connection_blank_recipients:
  "smtp_test_connection
     [(''smtp_host'', CStr ''smtp.example.org''), (''from_email'', CStr ''ecm@example.org''),
      (''to_emails'', CStr '' , '')] SmtpConnected True =
   Inr (False, ''Connected but failed to send test email'')"
  by (simp add: smtp_test_connection_def smtp_send_def smtp_send_plan_def cfg_get_def recipients_def
                strip_def is_space_def parse_int_def)

end
