(* ===== verification/ResetEmail.thy ===== *)
theory ResetEmail
  imports Reset Alerts
begin

text \<open>
  Delivery of the password-reset e-mail, \<open>send_password_reset_email\<close> of
  \<open>src/backend/auth/routes.py\<close>, and the part of the \<open>forgot_password\<close> route that
  builds the link's base URL from the request and hands the raw token to it.  The
  application's SMTP settings come from \<open>config.get_settings()\<close>, which is not part of
  the sources: they are a record, with the result of \<open>is_smtp_configured()\<close> as a field.
  The message is the one handed to the SMTP server (subject, sender, recipient, plain-text
  body and the connection plan); the HTML alternative carries the same link and is not
  modelled.  The outcome of the SMTP conversation is an argument.
\<close>

section \<open>Settings and message\<close>

record app_settings =
  smtp_configured :: bool
  smtp_host :: string
  smtp_port :: int
  smtp_user :: string
  smtp_password :: string
  smtp_from_email :: string
  smtp_from_name :: string
  smtp_use_tls :: bool
  smtp_use_ssl :: bool

definition reset_url :: "string \<Rightarrow> string \<Rightarrow> string" where
  "reset_url base tok = base @ ''/reset-password?token='' @ tok"

definition reset_plain_text :: "string \<Rightarrow> string" where
  "reset_plain_text url =
     join_lines [''Password Reset Request'', '''',
       ''You requested to reset your password for Enhanced Channel Manager.'', '''',
       ''Click the link below to reset your password:'', url, '''',
       ''This link will expire in 1 hour.'', '''',
       ''If you didn't request this, you can safely ignore this email.'', '''',
       ''---'', ''Enhanced Channel Manager'', '''']"

record reset_mail =
  rm_subject :: string
  rm_from :: string
  rm_to :: string
  rm_plain :: string
  rm_ssl :: bool
  rm_starttls :: bool
  rm_login :: bool

text \<open>\<open>send_password_reset_email(to_email, reset_token, base_url)\<close>: the result and the
  messages the SMTP server accepted (none when SMTP is not configured or the conversation
  raised).\<close>

definition send_password_reset_email ::
  "app_settings \<Rightarrow> string \<Rightarrow> string \<Rightarrow> string \<Rightarrow> bool \<Rightarrow> bool \<times> reset_mail list" where
  "send_password_reset_email a to tok base conversation_ok =
     (if \<not> smtp_configured a then (False, [])
      else let from_name = (if smtp_from_name a = [] then ''Enhanced Channel Manager''
                            else smtp_from_name a);
               m = \<lparr>rm_subject = ''Password Reset Request'',
                    rm_from = from_name @ '' <'' @ smtp_from_email a @ ''>'',
                    rm_to = to, rm_plain = reset_plain_text (reset_url base tok),
                    rm_ssl = smtp_use_ssl a, rm_starttls = smtp_use_tls a \<and> \<not> smtp_use_ssl a,
                    rm_login = smtp_user a \<noteq> [] \<and> smtp_password a \<noteq> []\<rparr>
           in if conversation_ok then (True, [m]) else (False, []))"

section \<open>The request's origin\<close>

text \<open>The request as \<open>forgot_password\<close> reads it: its headers (Starlette compares
  header names without case; the model keeps them in lower case) and its URL's scheme and
  host.\<close>

record http_request =
  req_headers :: "(string \<times> string) list"
  url_scheme :: string
  url_netloc :: string

definition header_get :: "(string \<times> string) list \<Rightarrow> string \<Rightarrow> string \<Rightarrow> string" where
  "header_get hs k dflt = (case map_of hs (lower_str k) of None \<Rightarrow> dflt | Some v \<Rightarrow> v)"

definition forwarded_base_url :: "http_request \<Rightarrow> string" where
  "forwarded_base_url r =
     header_get (req_headers r) ''X-Forwarded-Proto'' (url_scheme r) @ ''://'' @
     header_get (req_headers r) ''X-Forwarded-Host'' (url_netloc r)"

section \<open>The route\<close>

text \<open>The account \<open>forgot_password\<close> acts on: the first user with the address, when it
  is active and local.\<close>

definition reset_target :: "db \<Rightarrow> string \<Rightarrow> user option" where
  "reset_target d addr =
     (case find (\<lambda>u. email u = Some addr) (users d) of
        None \<Rightarrow> None
      | Some u \<Rightarrow> if is_active u \<and> auth_provider u = ''local'' then Some u else None)"

text \<open>The whole route: the token row of \<open>Reset.forgot_password\<close>, the e-mail sent to the
  account's address with the base URL of the request, and the log lines.\<close>

definition forgot_password_handler ::
  "app_settings \<Rightarrow> http_request \<Rightarrow> request \<Rightarrow> string \<Rightarrow> string \<Rightarrow> nat \<Rightarrow> bool \<Rightarrow> db \<Rightarrow>
   db \<times> log_event list \<times> reset_mail list" where
  "forgot_password_handler a hr rq addr raw salt conversation_ok d =
     (let (ok, outbox) =
            (case reset_target d addr of
               None \<Rightarrow> (False, [])
             | Some u \<Rightarrow> send_password_reset_email a addr raw (forwarded_base_url hr) conversation_ok);
          (d', logs) = forgot_password rq addr raw salt ok d
      in (d', logs, outbox))"

section \<open>Samples\<close>

definition sample_app_settings :: app_settings where
  "sample_app_settings =
     \<lparr>smtp_configured = True, smtp_host = ''smtp.example.org'', smtp_port = 587,
      smtp_user = ''ecm'', smtp_password = ''s3cret'', smtp_from_email = ''ecm@example.org'',
      smtp_from_name = [], smtp_use_tls = True, smtp_use_ssl = False\<rparr>"

text \<open>A request that reached the application directly (no proxy) with a forged
  \<open>X-Forwarded-Host\<close> header.\<close>

definition sample_forged_request :: http_request where
  "sample_forged_request =
     \<lparr>req_headers = [(''x-forwarded-host'', ''attacker.example'')],
      url_scheme = ''https'', url_netloc = ''ecm.example.org''\<rparr>"

section \<open>Lemmas\<close>

lemma reset_plain_text_url: "\<exists>P Q. reset_plain_text url = P @ url @ Q"
proof -
  have "reset_plain_text url =
     (''Password Reset Request'' @ nl @ nl @
      ''You requested to reset your password for Enhanced Channel Manager.'' @ nl @ nl @
      ''Click the link below to reset your password:'' @ nl) @ url @
     (nl @ nl @ ''This link will expire in 1 hour.'' @ nl @ nl @
      ''If you didn't request this, you can safely ignore this email.'' @ nl @ nl @
      ''---'' @ nl @ ''Enhanced Channel Manager'' @ nl)"
    by (simp add: reset_plain_text_def join_lines_def numeral_eq_Suc)
  then show ?thesis by blast
qed

lemma reset_target_Some:
  "reset_target d addr = Some u \<Longrightarrow>
   find (\<lambda>u. email u = Some addr) (users d) = Some u \<and> is_active u \<and> auth_provider u = ''local''"
  by (auto simp: reset_target_def split: option.splits if_splits)

lemma forgot_password_eligible:
  assumes "reset_target d addr = Some u"
  shows "fst (forgot_password rq addr raw salt b d) =
           d\<lparr>reset_tokens := reset_tokens d @
                [\<lparr>rt_id = next_reset_id d, rt_user = u_id u, token_hash = hash_password salt raw,
                  rt_expires = now rq + 3600, used_at = None\<rparr>],
             next_reset_id := Suc (next_reset_id d)\<rparr>"
  using reset_target_Some [OF assms] by (simp add: forgot_password_def)

lemma handler_db:
  "fst (forgot_password_handler a hr rq addr raw salt ok d) =
   fst (forgot_password rq addr raw salt
          (case reset_target d addr of None \<Rightarrow> False
           | Some u \<Rightarrow> fst (send_password_reset_email a addr raw (forwarded_base_url hr) ok)) d)"
  by (simp add: forgot_password_handler_def split: option.split prod.split)

lemma sample_reset_target: "reset_target sample_db ''admin@example.com'' = Some sample_admin"
  by (simp add: reset_target_def sample_defs)

section \<open>Properties\<close>

text \<open>
  C11. The reset link is built from the request's \<open>X-Forwarded-Host\<close> header, which the
  client controls when no proxy overwrites it: for an eligible account, the one e-mail
  sent goes to the account's address and its body contains the client-chosen host followed
  by \<open>/reset-password?token=\<close> and the raw token, so whoever controls that host receives
  a working reset token when the link is opened.
\<close>

theorem reset_link_uses_forwarded_host:
  assumes "reset_target d addr = Some u" and "smtp_configured a"
    and "map_of (req_headers hr) ''x-forwarded-host'' = Some h"
  shows "\<exists>m. snd (snd (forgot_password_handler a hr rq addr raw salt True d)) = [m] \<and>
             rm_to m = addr \<and> has_infix (rm_plain m) (h @ ''/reset-password?token='' @ raw)"
proof -
  define p where "p = header_get (req_headers hr) ''X-Forwarded-Proto'' (url_scheme hr)"
  have "lower_str ''X-Forwarded-Host'' = ''x-forwarded-host''" by code_simp
  then have base: "forwarded_base_url hr = p @ ''://'' @ h"
    using assms(3) by (simp add: forwarded_base_url_def header_get_def p_def)
  obtain P Q where pq: "reset_plain_text (reset_url (p @ ''://'' @ h) raw) =
      P @ reset_url (p @ ''://'' @ h) raw @ Q"
    using reset_plain_text_url by blast
  have "has_infix (reset_plain_text (reset_url (p @ ''://'' @ h) raw)) (h @ ''/reset-password?token='' @ raw)"
  proof -
    have e: "P @ reset_url (p @ ''://'' @ h) raw @ Q =
        (P @ p @ ''://'') @ (h @ ''/reset-password?token='' @ raw) @ Q"
      by (simp add: reset_url_def)
    show ?thesis unfolding pq e by (rule has_infix_append)
  qed
  with assms(1,2) base show ?thesis
    by (simp add: forgot_password_handler_def send_password_reset_email_def Let_def
             split: prod.split)
qed

theorem reset_link_uses_forwarded_host_witness:
  "\<exists>m. snd (snd (forgot_password_handler sample_app_settings sample_forged_request (at_time 0)
                    ''admin@example.com'' ''r4nd0m'' 3 True sample_db)) = [m] \<and>
       rm_to m = ''admin@example.com'' \<and>
       has_infix (rm_plain m) (''attacker.example'' @ ''/reset-password?token='' @ ''r4nd0m'')"
  using reset_link_uses_forwarded_host [OF sample_reset_target, of sample_app_settings
          sample_forged_request "''attacker.example''" "at_time 0" "''r4nd0m''" 3]
  by (simp add: sample_app_settings_def sample_forged_request_def)

text \<open>
  C12. The e-mailed token redeems: after \<open>forgot_password\<close> for an active local account
  of a well-formed store, with a raw token that opens no earlier unused row, a reset with
  that token within the hour and a password the policy accepts succeeds and stores the
  new password's hash for the account.
\<close>

theorem emailed_token_redeems:
  assumes target: "reset_target d addr = Some u" and wf: "db_wf d"
    and fresh: "matching_unused d raw = []" and raw: "raw \<noteq> []"
    and due: "now rq' \<le> now rq + 3600"
    and policy: "validate_password (local_cfg s) common new (Some (username u)) = None"
  shows "\<exists>d''. reset_password s common rq' raw new salt'
                 (fst (forgot_password_handler a hr rq addr raw salt ok d)) = Inr d'' \<and>
               (\<exists>u''. find_user d'' (u_id u) = Some u'' \<and>
                      password_hash u'' = Some (hash_password salt' new))"
proof -
  define tk where "tk = \<lparr>rt_id = next_reset_id d, rt_user = u_id u, token_hash = hash_password salt raw,
                         rt_expires = now rq + 3600, used_at = None\<rparr>"
  define d' where "d' = fst (forgot_password_handler a hr rq addr raw salt ok d)"
  have d': "d' = d\<lparr>reset_tokens := reset_tokens d @ [tk], next_reset_id := Suc (next_reset_id d)\<rparr>"
    unfolding d'_def handler_db forgot_password_eligible [OF target] tk_def ..
  have u: "u \<in> set (users d)" "is_active u"
    using reset_target_Some [OF target] by auto
  have none: "find (\<lambda>t. used_at t = None \<and> verify_password raw (token_hash t)) (reset_tokens d) = None"
    using fresh by (simp add: matching_unused_def find_None_iff2 filter_empty_conv)
  have found: "find_reset_token d' raw = Some tk"
    using none raw by (simp add: d' find_reset_token_def find_filter find_snoc tk_def verify_hash_iff)
  have user: "find_user d' (u_id u) = Some u"
    using wf u(1) by (simp add: d' find_user_def db_wf_def keys_ok_def find_key_distinct)
  let ?d'' = "update_reset_token (rt_id tk) (\<lambda>x. x\<lparr>used_at := Some (now rq')\<rparr>)
                (update_user (u_id u)
                   (\<lambda>x. x\<lparr>password_hash := Some (hash_password salt' new), updated_at := now rq'\<rparr>) d')"
  have "reset_password s common rq' raw new salt' d' = Inr ?d''"
    using found user u(2) due policy by (simp add: reset_password_def tk_def)
  moreover have "find_user ?d'' (u_id u) =
      Some (u\<lparr>password_hash := Some (hash_password salt' new), updated_at := now rq'\<rparr>)"
    using find_user_update_user [OF user, of "\<lambda>x. x\<lparr>password_hash := Some (hash_password salt' new),
              updated_at := now rq'\<rparr>" "u_id u"]
    by (simp add: update_reset_token_def find_user_def update_user_def)
  ultimately show ?thesis unfolding d'_def by auto
qed

theorem emailed_token_redeems_witness:
  "\<exists>d''. reset_password sample_settings sample_common_passwords (at_time 1800) ''r4nd0m''
            ''NewSecret123!'' 5
            (fst (forgot_password_handler sample_app_settings sample_forged_request (at_time 0)
                    ''admin@example.com'' ''r4nd0m'' 3 True sample_db)) = Inr d'' \<and>
         (\<exists>u''. find_user d'' 1 = Some u'' \<and> password_hash u'' = Some (hash_password 5 ''NewSecret123!''))"
proof -
  have "validate_password (local_cfg sample_settings) sample_common_passwords ''NewSecret123!''
          (Some (username sample_admin)) = None"
    by (simp add: policy_unfold settings_defaults sample_defs sample_common_passwords_def)
  moreover have "matching_unused sample_db ''r4nd0m'' = []"
    by (simp add: matching_unused_def sample_defs)
  ultimately show ?thesis
    using emailed_token_redeems [OF sample_reset_target sample_db_wf, of "''r4nd0m''" "at_time 1800"
            "at_time 0" sample_settings sample_common_passwords "''NewSecret123!''" 5
            sample_app_settings sample_forged_request 3 True]
    by (simp add: at_time_def sample_admin_def)
qed

end
