(* ===== verification/Identities.thy ===== *)
theory Identities
  imports Sessions
begin

text \<open>
  Account linking in \<open>auth/routes.py\<close>: the helpers \<open>get_user_identities\<close>,
  \<open>find_user_by_identity\<close>, \<open>find_user_by_identifier\<close>, \<open>add_user_identity\<close>,
  \<open>update_identity_last_used\<close> and \<open>remove_user_identity\<close>, and the endpoints
  \<open>link_identity\<close> (POST \<open>/api/auth/identities/link\<close>) and \<open>unlink_identity\<close>
  (DELETE \<open>/api/auth/identities/{identity_id}\<close>).  The delegated provider's client
  (\<open>DispatcharrClient.authenticate\<close>, in \<open>auth/providers/dispatcharr.py\<close>, not part
  of the sources) is an interface: its outcome for the request is an argument of type
  \<open>provider_outcome\<close>, one constructor per way the call returns or raises.
\<close>

section \<open>The delegated provider's interface\<close>

text \<open>\<open>DispatcharrAuthResult\<close> and the exceptions of \<open>authenticate\<close>.\<close>

record provider_identity =
  ext_user_id :: string
  ext_username :: string
  ext_email :: "string option"
  ext_display_name :: "string option"

datatype provider_outcome =
    ProviderOk provider_identity
  | ProviderAuthFailed string     \<comment> \<open>\<open>DispatcharrAuthenticationError\<close>\<close>
  | ProviderTimeout               \<comment> \<open>\<open>TimeoutError\<close>\<close>
  | ProviderUnreachable string    \<comment> \<open>\<open>DispatcharrConnectionError\<close>\<close>
  | ProviderCrashed string        \<comment> \<open>any other exception\<close>

section \<open>Helpers\<close>

definition find_user_by_identity :: "db \<Rightarrow> string \<Rightarrow> string \<Rightarrow> user option" where
  "find_user_by_identity d prov ext =
     (case find (\<lambda>i. provider i = prov \<and> ident_external_id i = Some ext) (identities d) of
        None \<Rightarrow> None
      | Some i \<Rightarrow> find_user d (ident_user i))"

definition find_user_by_identifier :: "db \<Rightarrow> string \<Rightarrow> string \<Rightarrow> user option" where
  "find_user_by_identifier d prov name =
     (case find (\<lambda>i. provider i = prov \<and> ident_identifier i = name) (identities d) of
        None \<Rightarrow> None
      | Some i \<Rightarrow> find_user d (ident_user i))"

text \<open>\<open>add_user_identity\<close>: the new row and its id after the flush; \<open>linked_at\<close> is
  the column default, the time of the request.\<close>

definition add_user_identity ::
  "time \<Rightarrow> uid \<Rightarrow> string \<Rightarrow> string \<Rightarrow> string option \<Rightarrow> db \<Rightarrow> db \<times> user_identity" where
  "add_user_identity t u prov name ext d =
     (let i = \<lparr>ident_id = next_identity_id d, ident_user = u, provider = prov,
               ident_external_id = ext, ident_identifier = name, linked_at = t, ident_last_used = None\<rparr>
      in (d\<lparr>identities := identities d @ [i], next_identity_id := Suc (next_identity_id d)\<rparr>, i))"

definition update_identity_last_used :: "time \<Rightarrow> nat \<Rightarrow> db \<Rightarrow> db" where
  "update_identity_last_used t iid d = update_identity iid (\<lambda>x. x\<lparr>ident_last_used := Some t\<rparr>) d"

text \<open>\<open>session.delete(row)\<close> and \<open>query(...).delete()\<close>: rows go by primary key.\<close>

definition delete_identity :: "nat \<Rightarrow> db \<Rightarrow> db" where
  "delete_identity iid d = d\<lparr>identities := filter (\<lambda>i. ident_id i \<noteq> iid) (identities d)\<rparr>"

definition remove_user_identity :: "nat \<Rightarrow> uid \<Rightarrow> db \<Rightarrow> bool \<times> db" where
  "remove_user_identity iid u d =
     (if length (user_identities d u) \<le> 1 then (False, d)
      else let gone = filter (\<lambda>i. ident_id i = iid \<and> ident_user i = u) (identities d)
           in (gone \<noteq> [],
               d\<lparr>identities := filter (\<lambda>i. \<not> (ident_id i = iid \<and> ident_user i = u)) (identities d)\<rparr>))"

section \<open>Endpoints\<close>

text \<open>
  \<open>link_identity\<close>: the provider name is lower-cased; a second identity for the same
  provider is refused (409).  For \<open>local\<close>: a password is required (400), the
  identifier must be unclaimed by any local identity (409), and the new password's hash is
  stored on the user.  For \<open>dispatcharr\<close>: the provider must be enabled (404), the
  credentials are checked by the provider (401, 503; any other exception escapes as a
  500), and its external id must be unclaimed (409).  Any other provider is a 400.
\<close>

definition link_identity ::
  "auth_settings \<Rightarrow> request \<Rightarrow> user \<Rightarrow> string \<Rightarrow> string \<Rightarrow> string \<Rightarrow> nat \<Rightarrow> provider_outcome \<Rightarrow>
   db \<Rightarrow> (db \<times> user_identity) response" where
  "link_identity s rq u prov name pw salt outcome d =
     (let p = lower_str prov in
      if (\<exists>i \<in> set (identities d). ident_user i = u_id u \<and> provider i = p)
      then Inl (HTTPError 409 (''You already have a '' @ p @ '' identity linked''))
      else if p = ''local'' then
        (if pw = [] then Inl (HTTPError 400 ''Password is required for local linking'')
         else if (\<exists>i \<in> set (identities d). provider i = ''local'' \<and> ident_identifier i = name)
         then Inl (HTTPError 409 ''This local username is already linked to another account'')
         else Inr (add_user_identity (now rq) (u_id u) ''local'' name None
                    (update_user (u_id u) (\<lambda>x. x\<lparr>password_hash := Some (hash_password salt pw)\<rparr>) d)))
      else if p = ''dispatcharr'' then
        (if \<not> dispatcharr_enabled (dispatcharr_cfg s)
         then Inl (HTTPError 404 ''Dispatcharr authentication is not enabled'')
         else (case outcome of
                 ProviderAuthFailed m \<Rightarrow> Inl (HTTPError 401 (''Dispatcharr authentication failed: '' @ m))
               | ProviderTimeout \<Rightarrow> Inl (HTTPError 503 ''Cannot connect to Dispatcharr'')
               | ProviderUnreachable _ \<Rightarrow> Inl (HTTPError 503 ''Cannot connect to Dispatcharr'')
               | ProviderCrashed _ \<Rightarrow> Inl (HTTPError 500 ''Internal Server Error'')
               | ProviderOk r \<Rightarrow>
                   if (\<exists>i \<in> set (identities d). provider i = ''dispatcharr''
                                                \<and> ident_external_id i = Some (ext_user_id r))
                   then Inl (HTTPError 409 ''This Dispatcharr account is already linked to another user'')
                   else Inr (add_user_identity (now rq) (u_id u) ''dispatcharr'' (ext_username r)
                               (Some (ext_user_id r)) d)))
      else Inl (HTTPError 400 (''Linking not supported for provider: '' @ p)))"

text \<open>
  \<open>unlink_identity\<close>: the identity must belong to the current user (404) and must not be
  the user's last one (400); then its row is deleted.
\<close>

definition unlink_identity :: "user \<Rightarrow> nat \<Rightarrow> db \<Rightarrow> db response" where
  "unlink_identity u iid d =
     (case find (\<lambda>i. ident_id i = iid \<and> ident_user i = u_id u) (identities d) of
        None \<Rightarrow> Inl (HTTPError 404 ''Identity not found'')
      | Some i \<Rightarrow>
          if length (user_identities d (u_id u)) \<le> 1
          then Inl (HTTPError 400 ''Cannot unlink your last identity - you would be locked out'')
          else Inr (delete_identity (ident_id i) d))"

section \<open>Invariants of the identity table\<close>

text \<open>
  The uniqueness the specification asks of identities: a local identifier is claimed at
  most once, a provider's external id is claimed at most once, and a user has at most one
  identity per provider.
\<close>

definition local_identifiers_unique :: "db \<Rightarrow> bool" where
  "local_identifiers_unique d =
     distinct (map ident_identifier (filter (\<lambda>i. provider i = ''local'') (identities d)))"

definition external_ids_unique :: "db \<Rightarrow> bool" where
  "external_ids_unique d =
     distinct (map (\<lambda>i. (provider i, ident_external_id i))
                 (filter (\<lambda>i. ident_external_id i \<noteq> None) (identities d)))"

definition one_identity_per_provider :: "db \<Rightarrow> bool" where
  "one_identity_per_provider d = distinct (map (\<lambda>i. (ident_user i, provider i)) (identities d))"

definition identities_wf :: "db \<Rightarrow> bool" where
  "identities_wf d = (local_identifiers_unique d \<and> external_ids_unique d \<and> one_identity_per_provider d)"

section \<open>Sample data\<close>

text \<open>
  The sample store with an active legacy account \<open>carol\<close> that has no identity row
  (created before identities existed) and an account \<open>mallory\<close> created by delegated
  login, with only a \<open>dispatcharr\<close> identity; and the outcome of a successful delegated
  authentication of \<open>admin\<close>'s provider account.
\<close>

definition sample_carol :: user where
  "sample_carol =
     sample_admin\<lparr>u_id := 2, username := ''carol'', email := None, is_admin := False,
                  password_hash := Some (hash_password 9 ''carolpass'')\<rparr>"

definition sample_mallory :: user where
  "sample_mallory =
     sample_admin\<lparr>u_id := 3, username := ''mallory'', email := None, is_admin := False,
                  password_hash := None, auth_provider := ''dispatcharr'', external_id := Some ''77''\<rparr>"

definition sample_legacy_db :: db where
  "sample_legacy_db =
     sample_db\<lparr>users := users sample_db @ [sample_carol, sample_mallory],
               identities := identities sample_db @
                 [\<lparr>ident_id = 2, ident_user = 3, provider = ''dispatcharr'',
                   ident_external_id = Some ''77'', ident_identifier = ''mallory'',
                   linked_at = 0, ident_last_used = None\<rparr>],
               next_user_id := 4, next_identity_id := 3\<rparr>"

definition sample_outcome :: provider_outcome where
  "sample_outcome =
     ProviderOk \<lparr>ext_user_id = ''42'', ext_username = ''admin'', ext_email = None,
                 ext_display_name = Some ''Admin''\<rparr>"

text \<open>\<open>sample_db\<close> after \<open>admin\<close> links the provider account of \<open>sample_outcome\<close>.\<close>

definition sample_linked_db :: db where
  "sample_linked_db =
     sample_db\<lparr>identities := identities sample_db @
                 [\<lparr>ident_id = 2, ident_user = 1, provider = ''dispatcharr'',
                   ident_external_id = Some ''42'', ident_identifier = ''admin'',
                   linked_at = 5, ident_last_used = None\<rparr>],
               next_identity_id := 3\<rparr>"

definition sample_settings_sso :: auth_settings where
  "sample_settings_sso =
     sample_settings\<lparr>dispatcharr_cfg := (dispatcharr_cfg sample_settings)\<lparr>dispatcharr_enabled := True\<rparr>\<rparr>"

section \<open>Lemmas\<close>

lemmas legacy_defs = sample_legacy_db_def sample_carol_def sample_mallory_def

lemmas link_unfold = link_identity_def add_user_identity_def update_user_def Let_def string_eval

lemma unlink_Inr:
  "unlink_identity u iid d = Inr d' \<Longrightarrow>
   \<exists>i. i \<in> set (identities d) \<and> ident_id i = iid \<and> ident_user i = u_id u \<and>
       2 \<le> length (user_identities d (u_id u)) \<and> d' = delete_identity iid d"
  by (auto simp: unlink_identity_def split: option.splits if_splits)

lemma user_identities_delete:
  "user_identities (delete_identity iid d) v = filter (\<lambda>x. ident_id x \<noteq> iid) (user_identities d v)"
  by (simp add: user_identities_def delete_identity_def filter_filter conj_commute)

lemma identities_add [simp]:
  "identities (fst (add_user_identity t u prov name ext d)) =
   identities d @ [snd (add_user_identity t u prov name ext d)]"
  by (simp add: add_user_identity_def Let_def)

lemma identities_update_user [simp]: "identities (update_user i f d) = identities d"
  by (simp add: update_user_def)

lemma users_add [simp]: "users (fst (add_user_identity t u prov name ext d)) = users d"
  by (simp add: add_user_identity_def Let_def)

lemma link_Inr:
  assumes "link_identity s rq u prov name pw salt outcome d = Inr (d', i)"
  shows "\<not> (\<exists>x \<in> set (identities d). ident_user x = u_id u \<and> provider x = provider i)
         \<and> ident_user i = u_id u \<and> identities d' = identities d @ [i]
         \<and> ((provider i = ''local'' \<and> ident_external_id i = None
              \<and> \<not> (\<exists>x \<in> set (identities d). provider x = ''local'' \<and> ident_identifier x = ident_identifier i))
            \<or> (provider i = ''dispatcharr'' \<and> ident_external_id i \<noteq> None
              \<and> \<not> (\<exists>x \<in> set (identities d). provider x = ''dispatcharr''
                                            \<and> ident_external_id x = ident_external_id i)))"
  using assms
  by (auto simp: link_identity_def add_user_identity_def update_user_def Let_def
           split: if_splits provider_outcome.splits)

section \<open>Properties of account linking\<close>

text \<open>
  C13. Unlinking never leaves an account without credentials: in a store with unique
  primary keys, after a successful \<open>unlink_identity\<close> every user that had an identity
  still has one.
\<close>

theorem unlink_keeps_an_identity:
  assumes "db_wf d" and "unlink_identity u iid d = Inr d'"
  shows "\<forall>v. user_identities d v \<noteq> [] \<longrightarrow> user_identities d' v \<noteq> []"
proof (intro allI impI)
  fix v assume ne: "user_identities d v \<noteq> []"
  obtain i where i: "i \<in> set (identities d)" "ident_id i = iid" "ident_user i = u_id u"
    and two: "2 \<le> length (user_identities d (u_id u))" and d': "d' = delete_identity iid d"
    using unlink_Inr [OF assms(2)] by (elim exE conjE) (rule that)
  have dist: "distinct (map ident_id (identities d))"
    using assms(1) by (simp add: db_wf_def keys_ok_def)
  have uniq: "x = i" if "x \<in> set (identities d)" "ident_id x = iid" for x
    using dist that i(1,2) by (metis inj_onD distinct_map)
  from ne obtain x where x: "x \<in> set (user_identities d v)" by (cases "user_identities d v") auto
  show "user_identities d' v \<noteq> []"
  proof (cases "ident_id x = iid")
    case False
    then show ?thesis using x d' by (auto simp: user_identities_delete filter_empty_conv)
  next
    case True
    then have "x = i" using x uniq by (simp add: user_identities_def)
    then have v: "v = u_id u" using x i(3) by (simp add: user_identities_def)
    have "distinct (map ident_id (user_identities d (u_id u)))"
      unfolding user_identities_def using dist by (rule distinct_map_filter)
    from distinct_map_other [OF this two]
    obtain y where "y \<in> set (user_identities d (u_id u))" "ident_id y \<noteq> iid" by blast
    then show ?thesis using v d' by (auto simp: user_identities_delete filter_empty_conv)
  qed
qed

theorem unlink_keeps_an_identity_witness:
  "db_wf sample_linked_db \<and> unlink_identity sample_admin 1 sample_linked_db = Inr (delete_identity 1 sample_linked_db)
   \<and> user_identities (delete_identity 1 sample_linked_db) 1 \<noteq> []"
proof -
  have w: "db_wf sample_linked_db"
    by (simp add: db_wf_def keys_ok_def sample_linked_db_def sample_defs)
  have u: "unlink_identity sample_admin 1 sample_linked_db = Inr (delete_identity 1 sample_linked_db)"
    by (simp add: unlink_identity_def user_identities_def sample_linked_db_def sample_defs)
  have "user_identities sample_linked_db 1 \<noteq> []"
    by (simp add: user_identities_def sample_linked_db_def sample_defs)
  with unlink_keeps_an_identity [OF w u] w u show ?thesis by simp
qed

text \<open>
  The specification's scenario: \<open>admin\<close>, whose only identity is the local one,
  cannot unlink it (400, nothing changes); after linking a second provider, unlinking the
  local identity succeeds and leaves the new one.
\<close>

theorem unlink_last_identity_scenario:
  "unlink_identity sample_admin 1 sample_db =
     Inl (HTTPError 400 ''Cannot unlink your last identity - you would be locked out'') \<and>
   (case link_identity sample_settings_sso (at_time 5) sample_admin ''Dispatcharr'' ''admin'' ''pw'' 0
           sample_outcome sample_db of
      Inl _ \<Rightarrow> False
    | Inr (d', i) \<Rightarrow> d' = sample_linked_db \<and>
        unlink_identity sample_admin 1 d' = Inr (delete_identity 1 d') \<and>
        user_identities (delete_identity 1 d') 1 = [i])"
  by (simp add: unlink_identity_def link_unfold user_identities_def delete_identity_def
                sample_linked_db_def sample_defs sample_outcome_def sample_settings_sso_def settings_defaults)

text \<open>
  C14. Linking keeps the identity table's uniqueness: no local identifier and no
  provider-assigned external id is claimed twice, and no user has two identities of one
  provider.
\<close>

theorem link_preserves_identities_wf:
  assumes "identities_wf d" and "link_identity s rq u prov name pw salt outcome d = Inr (d', i)"
  shows "identities_wf d'"
  using link_Inr [OF assms(2)] assms(1)
  by (auto simp: identities_wf_def local_identifiers_unique_def external_ids_unique_def
                 one_identity_per_provider_def)

theorem link_preserves_identities_wf_witness:
  "identities_wf sample_db \<and>
   (case link_identity sample_settings_sso (at_time 5) sample_admin ''dispatcharr'' ''admin'' ''pw'' 0
           sample_outcome sample_db of Inl _ \<Rightarrow> False | Inr (d', _) \<Rightarrow> identities_wf d')"
proof -
  have w: "identities_wf sample_db"
    by (simp add: identities_wf_def local_identifiers_unique_def external_ids_unique_def
                  one_identity_per_provider_def sample_defs)
  have l: "link_identity sample_settings_sso (at_time 5) sample_admin ''dispatcharr'' ''admin'' ''pw'' 0
             sample_outcome sample_db = Inr (sample_linked_db, last (identities sample_linked_db))"
    by (simp add: link_unfold sample_linked_db_def sample_defs sample_outcome_def
                  sample_settings_sso_def settings_defaults)
  show ?thesis using link_preserves_identities_wf [OF w l] w l by simp
qed

text \<open>
  C15. After a successful delegated link, a lookup of the provider's account id finds the
  linking user: \<open>find_user_by_identity\<close> reads back what \<open>link_identity\<close> wrote.
\<close>

theorem link_finds_linked_user:
  assumes "link_identity s rq u prov name pw salt (ProviderOk r) d = Inr (d', i)"
    and "provider i = ''dispatcharr''"
  shows "find_user_by_identity d' ''dispatcharr'' (ext_user_id r) = find_user d (u_id u)"
  using assms
  by (auto simp: link_identity_def add_user_identity_def find_user_by_identity_def find_user_def
                 Let_def find_None_iff2 find_append_None split: if_splits)

theorem link_finds_linked_user_witness:
  "find_user_by_identity sample_linked_db ''dispatcharr'' ''42'' = Some sample_admin"
proof -
  have l: "link_identity sample_settings_sso (at_time 5) sample_admin ''dispatcharr'' ''admin'' ''pw'' 0
             (ProviderOk \<lparr>ext_user_id = ''42'', ext_username = ''admin'', ext_email = None,
                          ext_display_name = Some ''Admin''\<rparr>) sample_db
           = Inr (sample_linked_db, last (identities sample_linked_db))"
    by (simp add: link_unfold sample_linked_db_def sample_defs sample_settings_sso_def settings_defaults)
  have p: "provider (last (identities sample_linked_db)) = ''dispatcharr''"
    by (simp add: sample_linked_db_def sample_defs)
  show ?thesis using link_finds_linked_user [OF l p]
    by (simp add: find_user_def sample_defs)
qed

text \<open>
  C16. A legacy account can be taken over by linking.  \<open>link_identity\<close> checks a new local
  identifier only against local identity rows, not against \<open>users.username\<close>, while
  \<open>login\<close> falls back to the username for accounts without a local identity.  So
  \<open>mallory\<close>, signed in by delegation, links the local identifier \<open>carol\<close> of the legacy
  account: afterwards \<open>carol\<close>'s own password is refused and \<open>mallory\<close>'s chosen password
  logs in as \<open>mallory\<close> under the name \<open>carol\<close>.
\<close>

theorem link_takes_over_legacy_username:
  "case link_identity sample_settings (at_time 5) sample_mallory ''local'' ''carol'' ''evilpass'' 4
          sample_outcome sample_legacy_db of
     Inl _ \<Rightarrow> False
   | Inr (d', _) \<Rightarrow>
       isl (login sample_settings (at_time 6) ''carol'' ''carolpass'' d') \<and>
       (case login sample_settings (at_time 6) ''carol'' ''evilpass'' d' of
          Inl _ \<Rightarrow> False | Inr (_, u, _, _) \<Rightarrow> u_id u = 3)"
  by (simp add: link_unfold legacy_defs login_unfold sample_defs)

end
