(* ===== verification/Admin.thy ===== *)
theory Admin
  imports Identities "HOL-Library.Multiset"
begin

text \<open>
  First-run setup, the public status endpoints, the profile update of the current user
  and the admin-only endpoints of \<open>auth/routes.py\<close>: \<open>get_auth_status\<close>,
  \<open>check_setup_required\<close>, \<open>initial_setup\<close>, \<open>update_current_user_profile\<close>,
  the dependency \<open>require_admin\<close>, \<open>get_admin_auth_settings\<close>,
  \<open>update_admin_auth_settings\<close>, \<open>list_users\<close>, \<open>get_user\<close>, \<open>update_user\<close>,
  \<open>delete_user\<close> and \<open>get_auth_providers\<close>.  A request body's optional fields are \<open>option\<close>s; a FastAPI
  dependency that raises runs before the body, so a non-admin request reaches neither the
  settings store nor the database.
\<close>

section \<open>Optional fields\<close>

text \<open>\<open>if field is not None: target = field\<close>.\<close>

fun if_given :: "'a option \<Rightarrow> 'a \<Rightarrow> 'a" where
  "if_given None x = x"
| "if_given (Some v) x = v"

section \<open>Status and first-run setup\<close>

record auth_status_response =
  st_setup_complete :: bool
  st_require_auth :: bool
  st_enabled_providers :: "string list"
  st_primary_auth_mode :: string
  st_smtp_configured :: bool

text \<open>
  \<open>get_auth_status\<close>: a stored \<open>setup_complete = False\<close> is repaired (and saved) when
  users exist.  \<open>smtp\<close> is \<open>get_settings().is_smtp_configured()\<close> of the application
  settings, which are not part of the sources.
\<close>

definition get_auth_status ::
  "string \<Rightarrow> bool \<Rightarrow> settings_store \<Rightarrow> db \<Rightarrow> auth_status_response \<times> settings_store" where
  "get_auth_status fresh smtp st d =
     (let (s, st1) = get_auth_settings fresh st;
          fix = (\<not> setup_complete s \<and> users d \<noteq> []);
          st2 = (if fix then snd (save_auth_settings (s\<lparr>setup_complete := True\<rparr>) st1) else st1)
      in (\<lparr>st_setup_complete = (setup_complete s \<or> fix), st_require_auth = require_auth s,
           st_enabled_providers = get_enabled_providers s,
           st_primary_auth_mode = primary_auth_mode s, st_smtp_configured = smtp\<rparr>, st2))"

definition check_setup_required :: "db \<Rightarrow> bool" where
  "check_setup_required d = (users d = [])"

text \<open>
  \<open>initial_setup\<close>: refused once any user exists; the password is checked against the
  policy with the username; the new user is an active admin of provider \<open>local\<close>, and
  a local identity with the username as its identifier is added in the same commit.
\<close>

definition initial_setup ::
  "auth_settings \<Rightarrow> string list \<Rightarrow> request \<Rightarrow> string \<Rightarrow> string option \<Rightarrow> string \<Rightarrow> nat \<Rightarrow>
   db \<Rightarrow> (db \<times> user) response" where
  "initial_setup s common rq name mail pw salt d =
     (if users d \<noteq> [] then Inl (HTTPError 403 ''Setup already completed. Users already exist.'')
      else case validate_password (local_cfg s) common pw (Some name) of
        Some e \<Rightarrow> Inl (HTTPError 422 (password_error_message e))
      | None \<Rightarrow>
          let u = \<lparr>u_id = next_user_id d, username = name, email = mail,
                   password_hash = Some (hash_password salt pw), display_name = None,
                   is_admin = True, is_active = True, auth_provider = ''local'',
                   external_id = None, created_at = now rq, updated_at = now rq,
                   last_login_at = None\<rparr>;
              d1 = d\<lparr>users := users d @ [u], next_user_id := Suc (next_user_id d)\<rparr>
          in Inr (fst (add_user_identity (now rq) (u_id u) ''local'' name None d1), u))"

section \<open>Profile of the current user\<close>

record profile_update =
  pr_display_name :: "string option"
  pr_email :: "string option"

text \<open>
  \<open>update_current_user_profile\<close>: an empty string clears a field; a non-empty e-mail
  already held by another user is a 409.  The display name is assigned to the ORM object
  before the e-mail check, but a 409 does not commit, so nothing is stored then.
\<close>

definition update_current_user_profile ::
  "user \<Rightarrow> profile_update \<Rightarrow> request \<Rightarrow> db \<Rightarrow> (db \<times> user) response" where
  "update_current_user_profile cu r rq d =
     (if (case pr_email r of
            None \<Rightarrow> False
          | Some e \<Rightarrow> e \<noteq> [] \<and> (\<exists>u \<in> set (users d). email u = Some e \<and> u_id u \<noteq> u_id cu))
      then Inl (HTTPError 409 ''Email already in use'')
      else
        let f = (\<lambda>x. x\<lparr>display_name := (case pr_display_name r of
                                           None \<Rightarrow> display_name x
                                         | Some v \<Rightarrow> if v = [] then None else Some v),
                      email := (case pr_email r of
                                  None \<Rightarrow> email x
                                | Some e \<Rightarrow> if e = [] then None else Some e),
                      updated_at := now rq\<rparr>)
        in Inr (update_user (u_id cu) f d, f cu))"

section \<open>Admin endpoints\<close>

definition require_admin :: "user \<Rightarrow> user response" where
  "require_admin u = (if \<not> is_admin u then Inl (HTTPError 403 ''Admin access required'') else Inr u)"

text \<open>\<open>AuthSettingsPublicResponse\<close>: the settings without any secret.\<close>

record auth_settings_public =
  pub_require_auth :: bool
  pub_primary_auth_mode :: string
  pub_local_enabled :: bool
  pub_local_min_password_length :: int
  pub_dispatcharr_enabled :: bool
  pub_dispatcharr_auto_create_users :: bool

definition get_admin_auth_settings ::
  "user \<Rightarrow> string \<Rightarrow> settings_store \<Rightarrow> (auth_settings_public \<times> settings_store) response" where
  "get_admin_auth_settings a fresh st =
     (case require_admin a of
        Inl e \<Rightarrow> Inl e
      | Inr _ \<Rightarrow>
          let (s, st1) = get_auth_settings fresh st
          in Inr (\<lparr>pub_require_auth = require_auth s, pub_primary_auth_mode = primary_auth_mode s,
                   pub_local_enabled = local_enabled (local_cfg s),
                   pub_local_min_password_length = min_password_length (local_cfg s),
                   pub_dispatcharr_enabled = dispatcharr_enabled (dispatcharr_cfg s),
                   pub_dispatcharr_auto_create_users = auto_create_users (dispatcharr_cfg s)\<rparr>, st1))"

record auth_settings_update =
  upd_require_auth :: "bool option"
  upd_primary_auth_mode :: "string option"
  upd_local_enabled :: "bool option"
  upd_local_min_password_length :: "int option"
  upd_dispatcharr_enabled :: "bool option"
  upd_dispatcharr_auto_create_users :: "bool option"

definition apply_settings_update :: "auth_settings_update \<Rightarrow> auth_settings \<Rightarrow> auth_settings" where
  "apply_settings_update r s =
     s\<lparr>require_auth := if_given (upd_require_auth r) (require_auth s),
       primary_auth_mode := if_given (upd_primary_auth_mode r) (primary_auth_mode s),
       local_cfg := (local_cfg s)\<lparr>
         local_enabled := if_given (upd_local_enabled r) (local_enabled (local_cfg s)),
         min_password_length := if_given (upd_local_min_password_length r)
                                  (min_password_length (local_cfg s))\<rparr>,
       dispatcharr_cfg := (dispatcharr_cfg s)\<lparr>
         dispatcharr_enabled := if_given (upd_dispatcharr_enabled r)
                                  (dispatcharr_enabled (dispatcharr_cfg s)),
         auto_create_users := if_given (upd_dispatcharr_auto_create_users r)
                                (auto_create_users (dispatcharr_cfg s))\<rparr>\<rparr>"

definition update_admin_auth_settings ::
  "user \<Rightarrow> auth_settings_update \<Rightarrow> string \<Rightarrow> settings_store \<Rightarrow> settings_store response" where
  "update_admin_auth_settings a r fresh st =
     (case require_admin a of
        Inl e \<Rightarrow> Inl e
      | Inr _ \<Rightarrow>
          let (s, st1) = get_auth_settings fresh st
          in Inr (snd (save_auth_settings (apply_settings_update r s) st1)))"

text \<open>\<open>list_users\<close>: \<open>order_by(User.created_at.desc())\<close>; rows with equal
  timestamps keep their table order.\<close>

definition list_users :: "user \<Rightarrow> db \<Rightarrow> user list response" where
  "list_users a d =
     (case require_admin a of
        Inl e \<Rightarrow> Inl e
      | Inr _ \<Rightarrow> Inr (sort_key (\<lambda>u. - created_at u) (users d)))"

text \<open>\<open>get_user\<close>: the user and its count of unrevoked sessions.\<close>

definition get_user :: "user \<Rightarrow> uid \<Rightarrow> db \<Rightarrow> (user \<times> nat) response" where
  "get_user a uid d =
     (case require_admin a of
        Inl e \<Rightarrow> Inl e
      | Inr _ \<Rightarrow>
          (case find_user d uid of
             None \<Rightarrow> Inl (HTTPError 404 ''User not found'')
           | Some u \<Rightarrow>
               Inr (u, length (filter (\<lambda>x. sess_user x = uid \<and> \<not> is_revoked x) (sessions d)))))"

record user_update_request =
  req_is_admin :: "bool option"
  req_is_active :: "bool option"
  req_display_name :: "string option"
  req_email :: "string option"

text \<open>
  \<open>update_user\<close> (admin): an admin may not clear their own admin flag or deactivate
  themselves; the given fields are assigned as they are, and the commit is refused when
  the new e-mail address is another user's.
\<close>

definition update_user_admin ::
  "user \<Rightarrow> uid \<Rightarrow> user_update_request \<Rightarrow> request \<Rightarrow> db \<Rightarrow> (db \<times> user) response" where
  "update_user_admin a uid r rq d =
     (case require_admin a of
        Inl e \<Rightarrow> Inl e
      | Inr _ \<Rightarrow>
          (case find_user d uid of
             None \<Rightarrow> Inl (HTTPError 404 ''User not found'')
           | Some u \<Rightarrow>
               if req_is_admin r = Some False \<and> u_id u = u_id a
               then Inl (HTTPError 400 ''Cannot remove your own admin status'')
               else if req_is_active r = Some False \<and> u_id u = u_id a
               then Inl (HTTPError 400 ''Cannot deactivate your own account'')
               else
                 let f = (\<lambda>x. x\<lparr>is_admin := if_given (req_is_admin r) (is_admin x),
                               is_active := if_given (req_is_active r) (is_active x),
                               display_name := (case req_display_name r of
                                                  None \<Rightarrow> display_name x | Some v \<Rightarrow> Some v),
                               email := (case req_email r of None \<Rightarrow> email x | Some v \<Rightarrow> Some v),
                               updated_at := now rq\<rparr>)
                 in users_checked (update_user uid f d) (update_user uid f d, f u)))"

text \<open>
  \<open>delete_user\<close>: not oneself; the user's sessions and reset tokens are deleted, then
  the user row, whose identity rows go with it.
\<close>

definition delete_user :: "user \<Rightarrow> uid \<Rightarrow> db \<Rightarrow> db response" where
  "delete_user a uid d =
     (case require_admin a of
        Inl e \<Rightarrow> Inl e
      | Inr _ \<Rightarrow>
          (case find_user d uid of
             None \<Rightarrow> Inl (HTTPError 404 ''User not found'')
           | Some u \<Rightarrow>
               if u_id u = u_id a then Inl (HTTPError 400 ''Cannot delete your own account'')
               else Inr (delete_user_row uid
                           (d\<lparr>sessions := filter (\<lambda>x. sess_user x \<noteq> uid) (sessions d),
                              reset_tokens := filter (\<lambda>x. rt_user x \<noteq> uid) (reset_tokens d)\<rparr>))))"

section \<open>Authentication providers\<close>

datatype auth_provider_info = AuthProviderInfo string string bool

text \<open>The fields \<open>AuthSettings\<close> declares (\<open>auth/settings.py\<close>).  Reading any other
  attribute of the pydantic model raises \<open>AttributeError\<close>, which the framework answers
  with a 500.\<close>

definition auth_settings_fields :: "string list" where
  "auth_settings_fields =
     [''setup_complete'', ''primary_auth_mode'', ''require_auth'', ''jwt'', ''session'', ''local'',
      ''dispatcharr'']"

text \<open>\<open>get_auth_providers\<close>: the local and Dispatcharr entries, then
  \<open>settings.saml\<close> and \<open>settings.ldap\<close>.  Were both fields declared, their entries would
  follow; the model has no values for them, and that branch is not reached.\<close>

definition get_auth_providers :: "auth_settings \<Rightarrow> auth_provider_info list response" where
  "get_auth_providers s =
     (let ps = (if local_enabled (local_cfg s) then [AuthProviderInfo ''local'' ''Local'' True] else []) @
               (if dispatcharr_enabled (dispatcharr_cfg s)
                then [AuthProviderInfo ''dispatcharr'' ''Dispatcharr'' True] else [])
      in if ''saml'' \<notin> set auth_settings_fields \<or> ''ldap'' \<notin> set auth_settings_fields
         then Inl (HTTPError 500 ''Internal Server Error'') else Inr ps)"

section \<open>Invariants\<close>

text \<open>An e-mail address belongs to at most one user.\<close>

definition emails_unique :: "db \<Rightarrow> bool" where
  "emails_unique d =
     (\<forall>u \<in> set (users d). \<forall>v \<in> set (users d).
        email u \<noteq> None \<and> email u = email v \<longrightarrow> u_id u = u_id v)"

text \<open>Every session and reset-token row belongs to an existing user; likewise every
  identity row.\<close>

definition owned_rows_ok :: "db \<Rightarrow> bool" where
  "owned_rows_ok d =
     ((\<forall>x \<in> set (sessions d). \<exists>u \<in> set (users d). u_id u = sess_user x)
      \<and> (\<forall>x \<in> set (reset_tokens d). \<exists>u \<in> set (users d). u_id u = rt_user x))"

definition identity_refs_ok :: "db \<Rightarrow> bool" where
  "identity_refs_ok d = (\<forall>x \<in> set (identities d). \<exists>u \<in> set (users d). u_id u = ident_user x)"

section \<open>Sample data\<close>

definition sample_self_update :: user_update_request where
  "sample_self_update =
     \<lparr>req_is_admin = None, req_is_active = Some True, req_display_name = Some ''Root'', req_email = None\<rparr>"

text \<open>\<open>sample_legacy_db\<close> with a session of \<open>mallory\<close>.\<close>

definition sample_mallory_session_db :: db where
  "sample_mallory_session_db =
     sample_legacy_db\<lparr>sessions := [\<lparr>sess_id = 1, sess_user = 3, refresh_token_hash = SHA256 (Garbage ''t''),
                                    ip_address = None, user_agent = [], is_revoked = False,
                                    sess_expires = 100, sess_last_used = None\<rparr>],
                      next_session_id := 2\<rparr>"

definition sample_profile_update :: profile_update where
  "sample_profile_update = \<lparr>pr_display_name = Some [], pr_email = Some ''carol@example.com''\<rparr>"

text \<open>A settings store whose file holds the sample settings, not yet marked complete.\<close>

definition sample_store :: settings_store where
  "sample_store = \<lparr>cached = None, config_file = FileOk sample_settings, dir_writable = True,
                    file_writable = True\<rparr>"

definition sample_settings_update :: auth_settings_update where
  "sample_settings_update =
     \<lparr>upd_require_auth = None, upd_primary_auth_mode = None, upd_local_enabled = None,
      upd_local_min_password_length = Some 12, upd_dispatcharr_enabled = Some True,
      upd_dispatcharr_auto_create_users = None\<rparr>"

section \<open>Lemmas\<close>

lemma if_given_not_False:
  "v \<noteq> Some False \<Longrightarrow> if_given v True"
  by (cases v) auto

lemma delete_user_Inr:
  "delete_user a uid d = Inr d' \<Longrightarrow>
   d' = delete_user_row uid
          (d\<lparr>sessions := filter (\<lambda>x. sess_user x \<noteq> uid) (sessions d),
             reset_tokens := filter (\<lambda>x. rt_user x \<noteq> uid) (reset_tokens d)\<rparr>)"
  by (auto simp: delete_user_def require_admin_def split: option.splits if_splits)

lemma profile_Inr:
  assumes "update_current_user_profile cu r rq d = Inr (d', u')"
  obtains f where "d' = update_user (u_id cu) f d" and "\<And>x. u_id (f x) = u_id x"
    and "\<And>x. email (f x) = email x \<or> email (f x) = None \<or>
               (\<exists>e. pr_email r = Some e \<and> email (f x) = Some e \<and>
                    \<not> (\<exists>u \<in> set (users d). email u = Some e \<and> u_id u \<noteq> u_id cu))"
  using assms
  by (auto simp: update_current_user_profile_def Let_def intro!: that split: option.splits if_splits)

lemma emails_unique_update_user:
  assumes "emails_unique d" and fid: "\<And>x. u_id (f x) = u_id x"
    and fresh: "\<And>a b. a \<in> set (users d) \<Longrightarrow> b \<in> set (users d) \<Longrightarrow> u_id a = i \<Longrightarrow> u_id b \<noteq> i \<Longrightarrow>
                 email (f a) \<noteq> None \<Longrightarrow> email (f a) = email b \<Longrightarrow> False"
  shows "emails_unique (update_user i f d)"
  unfolding emails_unique_def
proof (intro ballI impI)
  have img: "\<exists>w \<in> set (users d). (u_id w = i \<and> y = f w) \<or> (u_id w \<noteq> i \<and> y = w)"
    if "y \<in> set (users (update_user i f d))" for y
    using set_update_whereD [of y] that by (fastforce simp: update_user_def)
  have old: "u_id a = u_id b"
    if "email a \<noteq> None" "email a = email b" "a \<in> set (users d)" "b \<in> set (users d)" for a b
    using assms(1) that unfolding emails_unique_def by blast
  fix u v assume u: "u \<in> set (users (update_user i f d))" and v: "v \<in> set (users (update_user i f d))"
    and eq: "email u \<noteq> None \<and> email u = email v"
  from img [OF u] obtain wu where wu: "wu \<in> set (users d)"
    "(u_id wu = i \<and> u = f wu) \<or> (u_id wu \<noteq> i \<and> u = wu)" by blast
  from img [OF v] obtain wv where wv: "wv \<in> set (users d)"
    "(u_id wv = i \<and> v = f wv) \<or> (u_id wv \<noteq> i \<and> v = wv)" by blast
  show "u_id u = u_id v"
  proof (cases "u_id wu = i"; cases "u_id wv = i")
    assume "u_id wu = i" "u_id wv = i"
    with wu(2) wv(2) fid show ?thesis by simp
  next
    assume a: "u_id wu = i" "u_id wv \<noteq> i"
    with wu(2) wv(2) have "u = f wu" "v = wv" by simp_all
    with eq fresh [OF wu(1) wv(1) a] show ?thesis by metis
  next
    assume a: "u_id wu \<noteq> i" "u_id wv = i"
    with wu(2) wv(2) have "u = wu" "v = f wv" by simp_all
    with eq fresh [OF wv(1) wu(1) a(2,1)] show ?thesis by metis
  next
    assume "u_id wu \<noteq> i" "u_id wv \<noteq> i"
    with wu(2) wv(2) have "u = wu" "v = wv" by simp_all
    with eq old [of wu wv] wu(1) wv(1) show ?thesis by metis
  qed
qed

lemma initial_setup_Inr:
  assumes "initial_setup s common rq name mail pw salt d = Inr (d', u)"
  shows "users d = [] \<and> validate_password (local_cfg s) common pw (Some name) = None \<and>
         users d' = [u] \<and> u_id u = next_user_id d \<and> username u = name \<and>
         password_hash u = Some (hash_password salt pw) \<and> is_admin u \<and> is_active u \<and>
         identities d' = identities d @
           [\<lparr>ident_id = next_identity_id d, ident_user = next_user_id d, provider = ''local'',
             ident_external_id = None, ident_identifier = name, linked_at = now rq,
             ident_last_used = None\<rparr>]"
  using assms
  by (auto simp: initial_setup_def add_user_identity_def Let_def split: if_splits option.splits)

lemma sample_setup_Inr:
  "\<exists>d' u. initial_setup sample_settings sample_common_passwords (at_time 0) ''root'' None ''ValidPass123!'' 1
             empty_db = Inr (d', u)"
  by (simp add: initial_setup_def policy_unfold settings_defaults sample_defs sample_common_passwords_def
                Let_def empty_db_def)

section \<open>Properties\<close>

text \<open>
  C19. Every admin endpoint refuses a user without the admin flag with 403, before it reads the settings or the database.
\<close>

theorem admin_gating:
  assumes "\<not> is_admin a"
  shows "get_admin_auth_settings a fresh st = Inl (HTTPError 403 ''Admin access required'')
    \<and> update_admin_auth_settings a r fresh st = Inl (HTTPError 403 ''Admin access required'')
    \<and> list_users a d = Inl (HTTPError 403 ''Admin access required'')
    \<and> get_user a uid d = Inl (HTTPError 403 ''Admin access required'')
    \<and> update_user_admin a uid r' rq d = Inl (HTTPError 403 ''Admin access required'')
    \<and> delete_user a uid d = Inl (HTTPError 403 ''Admin access required'')"
  using assms
  by (simp add: require_admin_def get_admin_auth_settings_def update_admin_auth_settings_def
                list_users_def get_user_def update_user_admin_def delete_user_def)

theorem admin_gating_witness:
  "\<not> is_admin sample_carol \<and> list_users sample_carol sample_legacy_db = Inl (HTTPError 403 ''Admin access required'')
   \<and> delete_user sample_carol 1 sample_legacy_db = Inl (HTTPError 403 ''Admin access required'')"
proof -
  have h: "\<not> is_admin sample_carol" by (simp add: legacy_defs sample_defs)
  show ?thesis using admin_gating [OF h, where d = sample_legacy_db and uid = 1] h by simp
qed

text \<open>
  C20. An admin cannot lock themselves out through \<open>update_user\<close>: after any successful update, an acting admin that was an active admin is still an active admin.
\<close>

theorem update_user_keeps_acting_admin:
  assumes "update_user_admin a uid r rq d = Inr (d', u')"
    and "find_user d (u_id a) = Some x" and "is_admin x" and "is_active x"
  shows "\<exists>y. find_user d' (u_id a) = Some y \<and> is_admin y \<and> is_active y"
proof -
  obtain u where u: "find_user d uid = Some u" and adm: "is_admin a"
    and g1: "\<not> (req_is_admin r = Some False \<and> u_id u = u_id a)"
    and g2: "\<not> (req_is_active r = Some False \<and> u_id u = u_id a)"
    and d': "d' = update_user uid (\<lambda>x. x\<lparr>is_admin := if_given (req_is_admin r) (is_admin x),
                               is_active := if_given (req_is_active r) (is_active x),
                               display_name := (case req_display_name r of
                                                  None \<Rightarrow> display_name x | Some v \<Rightarrow> Some v),
                               email := (case req_email r of None \<Rightarrow> email x | Some v \<Rightarrow> Some v),
                               updated_at := now rq\<rparr>) d"
    using assms(1)
    by (auto simp: update_user_admin_def require_admin_def Let_def split: option.splits if_splits)
  have "u_id u = uid" "u_id x = u_id a" using u assms(2) by (simp_all add: find_user_same)
  then show ?thesis
    using find_user_update_user [OF assms(2)] g1 g2 assms(3,4) d'
    by (auto intro: if_given_not_False)
qed

theorem update_user_keeps_acting_admin_witness:
  "case update_user_admin sample_admin 1 sample_self_update (at_time 9) sample_db of
     Inl _ \<Rightarrow> False
   | Inr (d', _) \<Rightarrow> \<exists>y. find_user d' 1 = Some y \<and> is_admin y \<and> is_active y"
proof -
  have "\<exists>d' u'. update_user_admin sample_admin 1 sample_self_update (at_time 9) sample_db = Inr (d', u')"
    by (simp add: update_user_admin_def require_admin_def find_user_def sample_defs sample_self_update_def
                  users_checked_def users_constraints_ok_def update_user_def)
  then obtain d' u' where e: "update_user_admin sample_admin 1 sample_self_update (at_time 9) sample_db = Inr (d', u')"
    by blast
  have f: "find_user sample_db (u_id sample_admin) = Some sample_admin"
    by (simp add: find_user_def sample_defs)
  have "is_admin sample_admin" "is_active sample_admin" "u_id sample_admin = 1" by (simp_all add: sample_defs)
  with update_user_keeps_acting_admin [OF e f] e show ?thesis by simp
qed

text \<open>
  \<open>delete_user\<close> never deletes the acting admin: their row is found unchanged afterwards.
\<close>

theorem delete_user_keeps_acting_admin:
  assumes "delete_user a uid d = Inr d'"
  shows "find_user d' (u_id a) = find_user d (u_id a)"
proof -
  obtain u where "find_user d uid = Some u" "u_id u \<noteq> u_id a"
    using assms by (auto simp: delete_user_def require_admin_def split: option.splits if_splits)
  then have "uid \<noteq> u_id a" by (auto dest: find_user_same)
  then have e: "(\<lambda>x. u_id x \<noteq> uid \<and> u_id x = u_id a) = (\<lambda>x. u_id x = u_id a)" by auto
  show ?thesis
    using delete_user_Inr [OF assms] by (simp add: find_user_def find_filter e delete_user_row_def)
qed

theorem delete_user_keeps_acting_admin_witness:
  "case delete_user sample_admin 3 sample_legacy_db of
     Inl _ \<Rightarrow> False | Inr d' \<Rightarrow> find_user d' 1 = Some sample_admin"
proof -
  have "\<exists>d'. delete_user sample_admin 3 sample_legacy_db = Inr d'"
    by (simp add: delete_user_def require_admin_def find_user_def legacy_defs sample_defs)
  then obtain d' where e: "delete_user sample_admin 3 sample_legacy_db = Inr d'" by blast
  have "find_user sample_legacy_db 1 = Some sample_admin"
    by (simp add: find_user_def legacy_defs sample_defs)
  with delete_user_keeps_acting_admin [OF e] e show ?thesis by (simp add: sample_defs)
qed

text \<open>
  \<open>delete_user\<close> removes the user's sessions and reset tokens with the user: no session or reset-token row is left without its user.
\<close>

theorem delete_user_keeps_owned_rows:
  assumes "owned_rows_ok d" and "delete_user a uid d = Inr d'"
  shows "owned_rows_ok d'"
  using assms(1) delete_user_Inr [OF assms(2)]
  by (simp add: owned_rows_ok_def delete_user_row_def) (metis (mono_tags, lifting))

theorem delete_user_keeps_owned_rows_witness:
  "owned_rows_ok sample_mallory_session_db \<and>
   (case delete_user sample_admin 3 sample_mallory_session_db of
      Inl _ \<Rightarrow> False | Inr d' \<Rightarrow> owned_rows_ok d' \<and> sessions d' = [])"
proof -
  have w: "owned_rows_ok sample_mallory_session_db"
    by (simp add: owned_rows_ok_def sample_mallory_session_db_def legacy_defs sample_defs)
  have "\<exists>d'. delete_user sample_admin 3 sample_mallory_session_db = Inr d' \<and> sessions d' = []"
    by (simp add: delete_user_def require_admin_def find_user_def sample_mallory_session_db_def
                  legacy_defs sample_defs delete_user_row_def)
  then obtain d' where e: "delete_user sample_admin 3 sample_mallory_session_db = Inr d'"
    and "sessions d' = []" by blast
  with delete_user_keeps_owned_rows [OF w e] w show ?thesis by simp
qed

text \<open>
  C22. \<open>update_current_user_profile\<close> keeps e-mail addresses unique: it refuses an address held by another user.
\<close>

theorem profile_update_keeps_emails_unique:
  assumes "emails_unique d" and "update_current_user_profile cu r rq d = Inr (d', u')"
  shows "emails_unique d'"
proof -
  obtain f where d': "d' = update_user (u_id cu) f d" and fid: "\<And>x. u_id (f x) = u_id x"
    and fe: "\<And>x. email (f x) = email x \<or> email (f x) = None \<or>
               (\<exists>e. pr_email r = Some e \<and> email (f x) = Some e \<and>
                    \<not> (\<exists>u \<in> set (users d). email u = Some e \<and> u_id u \<noteq> u_id cu))"
    using profile_Inr [OF assms(2)] by blast
  have fresh: False
    if "a \<in> set (users d)" "b \<in> set (users d)" "u_id a = u_id cu" "u_id b \<noteq> u_id cu"
       "email (f a) \<noteq> None" "email (f a) = email b" for a b
    using fe [of a]
  proof (elim disjE exE conjE)
    assume "email (f a) = email a"
    with that assms(1) show False unfolding emails_unique_def by metis
  next
    assume "email (f a) = None" with that show False by simp
  next
    fix e assume "email (f a) = Some e"
      and "\<not> (\<exists>u \<in> set (users d). email u = Some e \<and> u_id u \<noteq> u_id cu)"
    with that show False by auto
  qed
  show ?thesis unfolding d' by (rule emails_unique_update_user [OF assms(1) fid fresh])
qed

theorem profile_update_keeps_emails_unique_witness:
  "emails_unique sample_legacy_db \<and>
   (case update_current_user_profile sample_carol sample_profile_update (at_time 9) sample_legacy_db of
      Inl _ \<Rightarrow> False | Inr (d', _) \<Rightarrow> emails_unique d')"
proof -
  have w: "emails_unique sample_legacy_db" by (simp add: emails_unique_def legacy_defs sample_defs)
  have "\<exists>d' u'. update_current_user_profile sample_carol sample_profile_update (at_time 9) sample_legacy_db
                = Inr (d', u')"
    by (simp add: update_current_user_profile_def sample_profile_update_def legacy_defs sample_defs Let_def)
  then obtain d' u' where
    e: "update_current_user_profile sample_carol sample_profile_update (at_time 9) sample_legacy_db = Inr (d', u')"
    by blast
  from profile_update_keeps_emails_unique [OF w e] w e show ?thesis by simp
qed

text \<open>
  C23. First-run setup happens once: after a successful \<open>initial_setup\<close> every further call is refused with 403 and \<open>check_setup_required\<close> is false.
\<close>

theorem initial_setup_once:
  assumes "initial_setup s common rq name mail pw salt d = Inr (d', u)"
  shows "initial_setup s' common' rq' name' mail' pw' salt' d' =
           Inl (HTTPError 403 ''Setup already completed. Users already exist.'')
         \<and> \<not> check_setup_required d'"
  using initial_setup_Inr [OF assms] by (simp add: initial_setup_def check_setup_required_def)

theorem initial_setup_once_witness:
  "case initial_setup sample_settings sample_common_passwords (at_time 0) ''root'' None ''ValidPass123!'' 1
          empty_db of
     Inl _ \<Rightarrow> False
   | Inr (d', _) \<Rightarrow> isl (initial_setup sample_settings [] (at_time 1) ''eve'' None ''EvePass123!'' 2 d')"
proof -
  obtain d' u where e: "initial_setup sample_settings sample_common_passwords (at_time 0) ''root'' None
                          ''ValidPass123!'' 1 empty_db = Inr (d', u)"
    using sample_setup_Inr by blast
  from initial_setup_once [OF e] e show ?thesis by simp
qed

text \<open>
  C24. The account created by \<open>initial_setup\<close> can log in: on a store with no orphaned identities, with a non-empty password, \<open>login\<close> with the same username and password succeeds as that user, an admin.
\<close>

theorem setup_then_login:
  assumes "identity_refs_ok d" and "pw \<noteq> []"
    and "initial_setup s common rq name mail pw salt d = Inr (d', u)"
  shows "\<exists>d'' u' at rt. login s rq' name pw d' = Inr (d'', u', at, rt) \<and> u_id u' = u_id u \<and> is_admin u'"
proof -
  note r = initial_setup_Inr [OF assms(3)]
  then have "identities d = []" using assms(1) by (simp add: identity_refs_ok_def)
  then show ?thesis using r assms(2)
    by (simp add: login_def local_identity_for_def has_local_identity_def password_matches_def
                  find_user_def verify_hash_iff issue_session_def Let_def)
qed

theorem setup_then_login_witness:
  "case initial_setup sample_settings sample_common_passwords (at_time 0) ''root'' None ''ValidPass123!'' 1
          empty_db of
     Inl _ \<Rightarrow> False
   | Inr (d', _) \<Rightarrow> \<not> isl (login sample_settings (at_time 5) ''root'' ''ValidPass123!'' d')"
proof -
  obtain d' u where e: "initial_setup sample_settings sample_common_passwords (at_time 0) ''root'' None
                          ''ValidPass123!'' 1 empty_db = Inr (d', u)"
    using sample_setup_Inr by blast
  have r: "identity_refs_ok empty_db" by (simp add: identity_refs_ok_def empty_db_def)
  have p: "''ValidPass123!'' \<noteq> []" by simp
  from setup_then_login [OF r p e, of "at_time 5"] e show ?thesis by auto
qed

text \<open>
  \<open>get_auth_status\<close> reports setup as complete whenever users exist, and the repaired flag is kept in the settings cache.
\<close>

theorem auth_status_repairs_setup_flag:
  assumes "users d \<noteq> []" and "get_auth_status fresh smtp st d = (r, st')"
  shows "st_setup_complete r \<and> (\<exists>s. cached st' = Some s \<and> setup_complete s)"
proof -
  obtain s st1 where l: "load_auth_settings fresh st = (s, st1)" by fastforce
  show ?thesis
  proof (cases "setup_complete s")
    case True
    then show ?thesis using assms l load_cached_result [OF l] by (auto simp: get_auth_status_def)
  next
    case False
    then show ?thesis using assms l by (auto simp: get_auth_status_def)
  qed
qed

theorem auth_status_repairs_setup_flag_witness:
  "users sample_db \<noteq> [] \<and> \<not> setup_complete sample_settings \<and>
   st_setup_complete (fst (get_auth_status ''s'' False sample_store sample_db)) \<and>
   (\<exists>s. cached (snd (get_auth_status ''s'' False sample_store sample_db)) = Some s \<and> setup_complete s)"
proof -
  have u: "users sample_db \<noteq> []" by (simp add: sample_defs)
  have "\<not> setup_complete sample_settings" by (simp add: sample_defs settings_defaults)
  with auth_status_repairs_setup_flag [OF u prod.collapse [symmetric]] u show ?thesis by simp
qed

text \<open>
  \<open>list_users\<close> returns every user exactly once, newest first.
\<close>

theorem list_users_sorted:
  assumes "list_users a d = Inr us"
  shows "mset us = mset (users d) \<and> sorted_wrt (\<lambda>u v. created_at v \<le> created_at u) us"
proof -
  have us: "us = sort_key (\<lambda>u. - created_at u) (users d)"
    using assms by (auto simp: list_users_def require_admin_def split: if_splits)
  have "sorted (map (\<lambda>u. - created_at u) us)" unfolding us by (rule sorted_sort_key)
  then show ?thesis by (simp add: us sorted_map mset_sort)
qed

theorem list_users_sorted_witness:
  "case list_users sample_admin sample_legacy_db of
     Inl _ \<Rightarrow> False
   | Inr us \<Rightarrow> mset us = mset (users sample_legacy_db) \<and> length us = 3"
proof -
  have e: "list_users sample_admin sample_legacy_db = Inr (sort_key (\<lambda>u. - created_at u) (users sample_legacy_db))"
    by (simp add: list_users_def require_admin_def sample_defs)
  have "length (users sample_legacy_db) = 3" by (simp add: legacy_defs sample_defs)
  with list_users_sorted [OF e] e show ?thesis by (simp flip: size_mset)
qed

text \<open>
  \<open>update_admin_auth_settings\<close> keeps the invariant of the settings cache: the cached settings carry a signing secret.
\<close>

theorem admin_settings_update_keeps_secret:
  assumes "fresh \<noteq> []" and "cache_has_secret st"
    and "update_admin_auth_settings a r fresh st = Inr st'"
  shows "cache_has_secret st'"
proof -
  obtain s st1 where l: "load_auth_settings fresh st = (s, st1)" by fastforce
  have "secret_key (jwt_cfg s) \<noteq> []" by (rule load_secret_nonempty [OF assms(1,2) l])
  then show ?thesis using assms(3) l
    by (auto simp: update_admin_auth_settings_def require_admin_def cache_has_secret_def
                   apply_settings_update_def split: if_splits)
qed

theorem admin_settings_update_keeps_secret_witness:
  "cache_has_secret sample_store \<and>
   (case update_admin_auth_settings sample_admin sample_settings_update ''s'' sample_store of
      Inl _ \<Rightarrow> False | Inr st' \<Rightarrow> cache_has_secret st')"
proof -
  have f: "''s'' \<noteq> []" by simp
  have c: "cache_has_secret sample_store" by (simp add: cache_has_secret_def sample_store_def)
  have "\<exists>st'. update_admin_auth_settings sample_admin sample_settings_update ''s'' sample_store = Inr st'"
    by (simp add: update_admin_auth_settings_def require_admin_def sample_defs split: prod.splits)
  then obtain st' where e: "update_admin_auth_settings sample_admin sample_settings_update ''s'' sample_store = Inr st'"
    by blast
  from admin_settings_update_keeps_secret [OF f c e] c e show ?thesis by simp
qed


text \<open>\<open>GET /api/auth/providers\<close> fails for every configuration.\<close>

lemma get_auth_providers_500: "get_auth_providers s = Inl (HTTPError 500 ''Internal Server Error'')"
  by (simp add: get_auth_providers_def auth_settings_fields_def)


text \<open>
  C21. The admin's \<open>update_user\<close> does not check that a new e-mail address is free: given the address of another user it ends in the commit's IntegrityError, a 500, where the profile endpoint answers 409.
\<close>

theorem admin_update_taken_email_500:
  assumes adm: "is_admin a" and u: "find_user d uid = Some u"
    and x: "x \<in> set (users d)" "u_id x \<noteq> uid" "email x = Some e"
    and r: "req_is_admin r = None" "req_is_active r = None" "req_email r = Some e"
  shows "update_user_admin a uid r rq d = Inl integrity_error"
proof -
  let ?f = "\<lambda>x. x\<lparr>is_admin := if_given (req_is_admin r) (is_admin x),
                 is_active := if_given (req_is_active r) (is_active x),
                 display_name := (case req_display_name r of None \<Rightarrow> display_name x | Some v \<Rightarrow> Some v),
                 email := (case req_email r of None \<Rightarrow> email x | Some v \<Rightarrow> Some v),
                 updated_at := now rq\<rparr>"
  have uin: "u \<in> set (users d)" and uid: "u_id u = uid"
    using u by (auto simp: find_user_def)
  have "?f u \<in> set (users (update_user uid ?f d))" "x \<in> set (users (update_user uid ?f d))"
    using uin uid x by (force simp: update_user_def update_where_def)+
  moreover have "email (?f u) = Some e" "?f u \<noteq> x" using r uid x by auto
  ultimately have "\<not> users_constraints_ok (update_user uid ?f d)"
    using x map_filter_distinct_eq [of email "users (update_user uid ?f d)" "?f u" x e]
    by (auto simp: users_constraints_ok_def)
  then show ?thesis using adm u uid r by (simp add: update_user_admin_def require_admin_def Let_def)
qed

theorem admin_update_taken_email_500_witness:
  "update_user_admin sample_admin 2
     \<lparr>req_is_admin = None, req_is_active = None, req_display_name = None,
      req_email = Some ''admin@example.com''\<rparr> (at_time 5) sample_legacy_db = Inl integrity_error"
  by (rule admin_update_taken_email_500 [where u = sample_carol and x = sample_admin])
     (simp_all add: sample_legacy_db_def sample_db_def sample_admin_def sample_carol_def find_user_def)

end
