(* ===== verification/Delegated.thy ===== *)
theory Delegated
  imports Admin
begin

text \<open>
  The delegated login \<open>dispatcharr_login\<close> of \<open>auth/routes.py\<close> (POST
  \<open>/api/auth/dispatcharr/login\<close>).  The provider's \<open>authenticate\<close> call is the argument
  of type \<open>provider_outcome\<close> (see \<open>Identities\<close>).  On success the account is resolved
  through the \<open>dispatcharr\<close> identity with the provider's user id, else through the
  legacy columns \<open>auth_provider\<close>/\<open>external_id\<close> of \<open>users\<close>, else created together
  with its identity; the profile fields are refreshed from the provider, and from the
  active check on the handler continues as the local login (\<open>issue_session\<close>).  The
  flush of a new account and the final commit are refused (500) when a username or
  e-mail address would be taken twice (see \<open>users_checked\<close>).  An
  identity whose user row is gone gives \<open>identity.user = None\<close>, and the next attribute
  assignment raises: a 500.
\<close>

section \<open>The handler\<close>

text \<open>\<open>auth_result.email or user.email\<close>: an empty or absent value keeps the old one.\<close>

fun or_keep :: "string option \<Rightarrow> string option \<Rightarrow> string option" where
  "or_keep (Some v) old = (if v = [] then old else Some v)"
| "or_keep None old = old"

definition refresh_profile :: "provider_identity \<Rightarrow> user \<Rightarrow> user" where
  "refresh_profile r u =
     u\<lparr>email := or_keep (ext_email r) (email u),
       display_name := or_keep (ext_display_name r) (display_name u)\<rparr>"

text \<open>The account created on a first delegated login: its username is the provider's,
  prefixed with \<open>disp_\<close> when a user of that name exists.\<close>

definition new_delegated_user :: "request \<Rightarrow> provider_identity \<Rightarrow> db \<Rightarrow> user" where
  "new_delegated_user rq r d =
     \<lparr>u_id = next_user_id d,
      username = (if (\<exists>u \<in> set (users d). username u = ext_username r)
                  then ''disp_'' @ ext_username r else ext_username r),
      email = ext_email r, password_hash = None, display_name = ext_display_name r,
      is_admin = False, is_active = True, auth_provider = ''dispatcharr'',
      external_id = Some (ext_user_id r), created_at = now rq, updated_at = now rq,
      last_login_at = None\<rparr>"

definition finish_delegated ::
  "auth_settings \<Rightarrow> request \<Rightarrow> user \<Rightarrow> db \<Rightarrow> (db \<times> user \<times> token \<times> token) response" where
  "finish_delegated s rq u d =
     (if \<not> is_active u then Inl (auth_error ''User account is disabled'')
      else let r = issue_session s rq u d in users_checked (fst r) r)"

definition dispatcharr_login ::
  "auth_settings \<Rightarrow> request \<Rightarrow> provider_outcome \<Rightarrow> db \<Rightarrow> (db \<times> user \<times> token \<times> token) response" where
  "dispatcharr_login s rq outcome d =
     (if \<not> dispatcharr_enabled (dispatcharr_cfg s)
      then Inl (HTTPError 404 ''Dispatcharr authentication is not enabled'')
      else case outcome of
        ProviderAuthFailed m \<Rightarrow> Inl (auth_error m)
      | ProviderTimeout \<Rightarrow> Inl (HTTPError 503 ''Dispatcharr connection timeout'')
      | ProviderUnreachable _ \<Rightarrow> Inl (HTTPError 503 ''Cannot connect to Dispatcharr'')
      | ProviderCrashed _ \<Rightarrow> Inl (HTTPError 500 ''Authentication error'')
      | ProviderOk r \<Rightarrow>
          (case find (\<lambda>i. provider i = ''dispatcharr'' \<and> ident_external_id i = Some (ext_user_id r))
                  (identities d) of
             Some i \<Rightarrow>
               (case find_user d (ident_user i) of
                  None \<Rightarrow> Inl (HTTPError 500 ''Internal Server Error'')
                | Some u \<Rightarrow>
                    finish_delegated s rq (refresh_profile r u)
                      (update_identity (ident_id i) (\<lambda>x. x\<lparr>ident_last_used := Some (now rq)\<rparr>)
                        (update_user (u_id u) (refresh_profile r) d)))
           | None \<Rightarrow>
               (case find (\<lambda>u. auth_provider u = ''dispatcharr'' \<and> external_id u = Some (ext_user_id r))
                       (users d) of
                  Some u \<Rightarrow> finish_delegated s rq (refresh_profile r u)
                              (update_user (u_id u) (refresh_profile r) d)
                | None \<Rightarrow>
                    let u = new_delegated_user rq r d;
                        d1 = d\<lparr>users := users d @ [u], next_user_id := Suc (next_user_id d)\<rparr>
                    in if \<not> users_constraints_ok d1 then Inl integrity_error
                       else finish_delegated s rq u
                         (fst (add_user_identity (now rq) (u_id u) ''dispatcharr'' (ext_username r)
                                 (Some (ext_user_id r)) d1)))))"

section \<open>Invariants\<close>

text \<open>What the lookup part of the handler finds for a provider account: an identity
  whose user is active, or else a legacy user that is active; and the user's profile
  already carries what the provider reports, so the refresh changes nothing.\<close>

definition delegated_resolves :: "provider_identity \<Rightarrow> db \<Rightarrow> uid \<Rightarrow> bool" where
  "delegated_resolves r d uid =
     (list_all (\<lambda>x. u_id x = uid \<longrightarrow> refresh_profile r x = x) (users d) \<and>
     (case find (\<lambda>i. provider i = ''dispatcharr'' \<and> ident_external_id i = Some (ext_user_id r)) (identities d) of
        Some i \<Rightarrow> (case find_user d (ident_user i) of None \<Rightarrow> False | Some u \<Rightarrow> is_active u \<and> u_id u = uid)
      | None \<Rightarrow> (case find (\<lambda>u. auth_provider u = ''dispatcharr'' \<and> external_id u = Some (ext_user_id r)) (users d) of
                  None \<Rightarrow> False | Some u \<Rightarrow> is_active u \<and> u_id u = uid)))"

section \<open>Sample data\<close>

text \<open>Provider answers for \<open>mallory\<close> (external id 77, see \<open>sample_legacy_db\<close>), for a
  new provider user \<open>bob\<close> and for a new provider user \<open>dave\<close>; a store in which both
  \<open>bob\<close> and \<open>disp_bob\<close> are taken by local accounts.\<close>

definition sample_mallory_outcome :: provider_outcome where
  "sample_mallory_outcome =
     ProviderOk \<lparr>ext_user_id = ''77'', ext_username = ''mallory'', ext_email = None,
                 ext_display_name = None\<rparr>"

definition sample_bob_outcome :: provider_outcome where
  "sample_bob_outcome =
     ProviderOk \<lparr>ext_user_id = ''99'', ext_username = ''bob'', ext_email = None,
                 ext_display_name = None\<rparr>"

definition sample_dave :: provider_identity where
  "sample_dave =
     \<lparr>ext_user_id = ''55'', ext_username = ''dave'', ext_email = Some ''dave@example.com'',
      ext_display_name = None\<rparr>"

definition sample_bob_db :: db where
  "sample_bob_db =
     sample_db\<lparr>users := users sample_db @
                 [sample_carol\<lparr>u_id := 2, username := ''bob''\<rparr>,
                  sample_carol\<lparr>u_id := 3, username := ''disp_bob''\<rparr>],
               next_user_id := 4\<rparr>"

section \<open>Lemmas\<close>

lemma refresh_profile_keeps [simp]:
  "u_id (refresh_profile r u) = u_id u" "is_active (refresh_profile r u) = is_active u"
  "auth_provider (refresh_profile r u) = auth_provider u" "external_id (refresh_profile r u) = external_id u"
  by (simp_all add: refresh_profile_def)

lemma or_keep_idem [simp]: "or_keep v (or_keep v old) = or_keep v old" "or_keep v v = v"
  by (cases v; simp)+

lemma refresh_profile_idem [simp]:
  "refresh_profile r (refresh_profile r u) = refresh_profile r u"
  "refresh_profile r (u\<lparr>last_login_at := t\<rparr>) = (refresh_profile r u)\<lparr>last_login_at := t\<rparr>"
  by (simp_all add: refresh_profile_def)

lemma update_identity_constraints [simp]:
  "users_constraints_ok (update_identity i f d) = users_constraints_ok d"
  by (simp add: users_constraints_ok_def update_identity_def)

text \<open>The session issued at the end of the handler touches only \<open>last_login_at\<close> of
  the users, so it keeps the constraints as they are.\<close>

lemma issue_session_constraints:
  "users_constraints_ok (fst (issue_session s rq u d)) = users_constraints_ok d"
  by (rule users_constraints_cong) (simp_all add: update_where_def comp_def if_distrib)

lemma finish_delegated_Inr:
  "finish_delegated s rq u d = Inr (d1, u1, a1, t1) \<Longrightarrow>
   is_active u \<and> issue_session s rq u d = (d1, u1, a1, t1) \<and> users_constraints_ok d1"
  by (cases "issue_session s rq u d") (auto simp: finish_delegated_def Let_def split: if_splits)

lemma refreshed_update:
  "list_all (\<lambda>x. u_id x = i \<longrightarrow> refresh_profile r x = x)
     (update_where (\<lambda>x. u_id x = i) (refresh_profile r) xs)"
  by (induction xs) auto

lemma refreshed_last_login:
  "list_all (\<lambda>x. u_id x = i \<longrightarrow> refresh_profile r x = x) xs \<Longrightarrow>
   list_all (\<lambda>x. u_id x = i \<longrightarrow> refresh_profile r x = x)
     (update_where (\<lambda>x. u_id x = i) (\<lambda>x. x\<lparr>last_login_at := t\<rparr>) xs)"
  by (induction xs) auto

lemma delegated_login_again:
  assumes res: "delegated_resolves r d uid" and en: "dispatcharr_enabled (dispatcharr_cfg s)"
    and ok: "users_constraints_ok d"
  shows "case dispatcharr_login s rq (ProviderOk r) d of
           Inl _ \<Rightarrow> False
         | Inr (d', u', _) \<Rightarrow> u_id u' = uid \<and> length (users d') = length (users d)"
proof -
  have fixd: "update_user uid (refresh_profile r) d = d"
    using res by (simp add: delegated_resolves_def update_user_def update_where_fixed)
  have fx: "refresh_profile r x = x" if "x \<in> set (users d)" "u_id x = uid" for x
    using res that by (auto simp: delegated_resolves_def list_all_iff)
  have iss: "case finish_delegated s rq u D of
               Inl _ \<Rightarrow> False
             | Inr (d', u', _) \<Rightarrow> u_id u' = u_id u \<and> length (users d') = length (users D)"
    if "is_active u" and "users_constraints_ok D" for u D
  proof -
    obtain a b c e where fs: "issue_session s rq u D = (a, b, c, e)"
      by (cases "issue_session s rq u D")
    then have "users_constraints_ok a" using issue_session_constraints [of s rq u D] that by simp
    then show ?thesis using fs that issue_session_shape [OF fs] by (simp add: finish_delegated_def users_checked_def)
  qed
  show ?thesis
  proof (cases "find (\<lambda>i. provider i = ''dispatcharr'' \<and> ident_external_id i = Some (ext_user_id r))
                  (identities d)")
    case (Some i)
    then obtain u where u: "find_user d (ident_user i) = Some u" and act: "is_active u" and eq: "u_id u = uid"
      using res by (auto simp: delegated_resolves_def split: option.splits)
    have "refresh_profile r u = u"
      using fx eq find_SomeD [OF u [unfolded find_user_def]] by blast
    moreover let ?D = "update_identity (ident_id i) (\<lambda>x. x\<lparr>ident_last_used := Some (now rq)\<rparr>) d"
    have "length (users ?D) = length (users d)" by (simp add: update_identity_def)
    ultimately show ?thesis
      using Some u act en fixd iss [of u ?D] ok unfolding eq [symmetric]
      by (simp add: dispatcharr_login_def split: sum.splits prod.splits)
  next
    case None
    then obtain u where u: "find (\<lambda>u. auth_provider u = ''dispatcharr'' \<and> external_id u = Some (ext_user_id r))
                              (users d) = Some u" and act: "is_active u" and eq: "u_id u = uid"
      using res by (auto simp: delegated_resolves_def split: option.splits)
    have "refresh_profile r u = u"
      using fx eq find_SomeD [OF u] by blast
    then show ?thesis
      using None u act en ok fixd iss [of u d] unfolding eq [symmetric]
      by (simp add: dispatcharr_login_def split: sum.splits prod.splits)
  qed
qed

lemma delegated_first_login:
  assumes wf: "db_wf d" and ok: "dispatcharr_login s rq (ProviderOk r) d = Inr (d1, u1, a1, t1)"
  shows "dispatcharr_enabled (dispatcharr_cfg s) \<and> users_constraints_ok d1 \<and> delegated_resolves r d1 (u_id u1)"
proof -
  let ?Pi = "\<lambda>i. provider i = ''dispatcharr'' \<and> ident_external_id i = Some (ext_user_id r)"
  let ?Pu = "\<lambda>u. auth_provider u = ''dispatcharr'' \<and> external_id u = Some (ext_user_id r)"
  let ?ll = "\<lambda>x. x\<lparr>last_login_at := Some (now rq)\<rparr>"
  let ?fixed = "\<lambda>d i. list_all (\<lambda>x. u_id x = i \<longrightarrow> refresh_profile r x = x) (users d)"
  have en: "dispatcharr_enabled (dispatcharr_cfg s)"
    using ok by (cases "dispatcharr_enabled (dispatcharr_cfg s)") (simp_all add: dispatcharr_login_def)
  have fu: "find_user (fst (issue_session s rq u d0)) j =
              map_option (\<lambda>x. if u_id x = u_id u then ?ll x else x) (find_user d0 j)" for u d0 j
    by (simp add: find_user_def find_update_where_map)
  show ?thesis
  proof (cases "find ?Pi (identities d)")
    case (Some i)
    then obtain u where u: "find_user d (ident_user i) = Some u"
      and fin: "finish_delegated s rq (refresh_profile r u)
                 (update_identity (ident_id i) (\<lambda>x. x\<lparr>ident_last_used := Some (now rq)\<rparr>)
                   (update_user (u_id u) (refresh_profile r) d)) = Inr (d1, u1, a1, t1)"
      using ok en by (auto simp: dispatcharr_login_def split: option.splits)
    note f = finish_delegated_Inr [OF fin]
    then have d1: "issue_session s rq (refresh_profile r u)
                 (update_identity (ident_id i) (\<lambda>x. x\<lparr>ident_last_used := Some (now rq)\<rparr>)
                   (update_user (u_id u) (refresh_profile r) d)) = (d1, u1, a1, t1)" by simp
    have "find ?Pi (identities d1) = Some (i\<lparr>ident_last_used := Some (now rq)\<rparr>)"
      using issue_session_fst [OF d1] Some by (simp add: update_identity_def update_user_def find_update_where_map)
    moreover have "find_user d1 (ident_user i) = Some (?ll (refresh_profile r u))"
      using fu [of "refresh_profile r u"] issue_session_fst [OF d1] u find_user_same [OF u]
      by (simp add: update_identity_def update_user_def find_user_def find_update_where_map)
    moreover have "u_id u1 = u_id u" using issue_session_shape [OF d1] by simp
    moreover have "?fixed d1 (u_id u)"
      using issue_session_fst [OF d1]
      by (simp add: update_identity_def update_user_def refreshed_last_login refreshed_update)
    ultimately show ?thesis using en f find_user_same [OF u]
      by (simp add: delegated_resolves_def)
  next
    case None
    show ?thesis
    proof (cases "find ?Pu (users d)")
      case (Some u)
      then have fin: "finish_delegated s rq (refresh_profile r u) (update_user (u_id u) (refresh_profile r) d)
                   = Inr (d1, u1, a1, t1)"
        using ok en None by (simp add: dispatcharr_login_def)
      note f = finish_delegated_Inr [OF fin]
      then have d1: "issue_session s rq (refresh_profile r u) (update_user (u_id u) (refresh_profile r) d)
                   = (d1, u1, a1, t1)" by simp
      have "identities d1 = identities d" using issue_session_fst [OF d1] by (simp add: update_user_def)
      moreover have "find ?Pu (users d1) = Some (?ll (refresh_profile r u))"
        using issue_session_fst [OF d1] Some by (simp add: update_user_def find_update_where_map)
      moreover have "u_id u1 = u_id u" using issue_session_shape [OF d1] by simp
      moreover have "?fixed d1 (u_id u)"
        using issue_session_fst [OF d1]
        by (simp add: update_user_def refreshed_last_login refreshed_update)
      ultimately show ?thesis using en f None by (simp add: delegated_resolves_def)
    next
      case None2: None
      let ?nu = "new_delegated_user rq r d"
      let ?d0 = "fst (add_user_identity (now rq) (u_id ?nu) ''dispatcharr'' (ext_username r)
                   (Some (ext_user_id r)) (d\<lparr>users := users d @ [?nu], next_user_id := Suc (next_user_id d)\<rparr>))"
      have fin: "finish_delegated s rq ?nu ?d0 = Inr (d1, u1, a1, t1)"
        using ok en None None2
        by (simp add: dispatcharr_login_def Let_def split: if_splits)
      note f = finish_delegated_Inr [OF fin]
      then have d1: "issue_session s rq ?nu ?d0 = (d1, u1, a1, t1)" by simp
      have fresh: "find (\<lambda>x. u_id x = next_user_id d) (users d) = None"
        using wf by (auto simp: db_wf_def keys_ok_def find_None_iff2)
      have "find ?Pi (identities d1) = Some (snd (add_user_identity (now rq) (u_id ?nu) ''dispatcharr''
               (ext_username r) (Some (ext_user_id r))
               (d\<lparr>users := users d @ [?nu], next_user_id := Suc (next_user_id d)\<rparr>)))"
        using issue_session_fst [OF d1] None by (simp add: add_user_identity_def find_append_None new_delegated_user_def Let_def)
      moreover have "find_user d1 (next_user_id d) = Some (?ll ?nu)"
        using fu [of ?nu ?d0 "next_user_id d"] issue_session_fst [OF d1] fresh
        by (simp add: find_user_def add_user_identity_def find_append_None new_delegated_user_def Let_def)
      moreover have "u_id u1 = next_user_id d"
        using issue_session_shape [OF d1] by (simp add: new_delegated_user_def)
      moreover have "list_all (\<lambda>x. u_id x = next_user_id d \<longrightarrow> refresh_profile r x = x) (users d @ [?nu])"
        using fresh by (auto simp: find_None_iff2 list_all_iff new_delegated_user_def refresh_profile_def)
      then have "?fixed d1 (next_user_id d)"
        using issue_session_fst [OF d1] refreshed_last_login
        by (simp add: add_user_identity_def new_delegated_user_def Let_def)
      ultimately show ?thesis using en f
        by (simp add: delegated_resolves_def add_user_identity_def new_delegated_user_def Let_def)
    qed
  qed
qed

section \<open>Properties\<close>

text \<open>
  C17. Delegated login resolves or creates the account once: on a well-formed store, after a successful delegated login for a provider account, every later delegated login of the same provider account succeeds as the same user and creates no further user.
\<close>

theorem delegated_login_stable_account:
  assumes "db_wf d" and "dispatcharr_login s rq (ProviderOk r) d = Inr (d1, u1, a1, t1)"
  shows "case dispatcharr_login s rq' (ProviderOk r) d1 of
           Inl _ \<Rightarrow> False
         | Inr (d2, u2, _) \<Rightarrow> u_id u2 = u_id u1 \<and> length (users d2) = length (users d1)"
  using delegated_first_login [OF assms] delegated_login_again by blast

theorem delegated_login_stable_account_witness:
  "case dispatcharr_login sample_settings_sso (at_time 5) (ProviderOk sample_dave) sample_db of
     Inl _ \<Rightarrow> False
   | Inr (d1, u1, _) \<Rightarrow>
       (case dispatcharr_login sample_settings_sso (at_time 9) (ProviderOk sample_dave) d1 of
          Inl _ \<Rightarrow> False
        | Inr (d2, u2, _) \<Rightarrow> u_id u2 = u_id u1 \<and> length (users d2) = length (users d1))"
proof -
  have w: "db_wf sample_db" by (rule sample_db_wf)
  have "\<not> isl (dispatcharr_login sample_settings_sso (at_time 5) (ProviderOk sample_dave) sample_db)"
    by (simp add: dispatcharr_login_def finish_delegated_def new_delegated_user_def Let_def
                  sample_dave_def sample_defs sample_settings_sso_def settings_defaults
                  users_checked_def users_constraints_ok_def)
  then obtain d1 u1 a1 t1 where
    e: "dispatcharr_login sample_settings_sso (at_time 5) (ProviderOk sample_dave) sample_db = Inr (d1, u1, a1, t1)"
    by (cases "dispatcharr_login sample_settings_sso (at_time 5) (ProviderOk sample_dave) sample_db") auto
  from delegated_login_stable_account [OF w e, of "at_time 9"] e show ?thesis by simp
qed

text \<open>
  C18. The first delegated login of a provider account tries one alternative username only: when both the provider's username and its \<open>disp_\<close> variant are taken, the flush of the new user fails with IntegrityError, a 500, and since nothing is stored, every later attempt fails the same way.
\<close>

theorem delegated_login_name_taken_500:
  assumes en: "dispatcharr_enabled (dispatcharr_cfg s)"
    and ni: "find (\<lambda>i. provider i = ''dispatcharr'' \<and> ident_external_id i = Some (ext_user_id r))
               (identities d) = None"
    and nu: "find (\<lambda>u. auth_provider u = ''dispatcharr'' \<and> external_id u = Some (ext_user_id r))
               (users d) = None"
    and t1: "x \<in> set (users d)" "username x = ext_username r"
    and t2: "y \<in> set (users d)" "username y = ''disp_'' @ ext_username r"
  shows "dispatcharr_login s rq (ProviderOk r) d = Inl integrity_error"
proof -
  have "username (new_delegated_user rq r d) = ''disp_'' @ ext_username r"
    using t1 by (auto simp: new_delegated_user_def)
  then have "username (new_delegated_user rq r d) \<in> set (map username (users d))"
    using t2 by (metis image_eqI list.set_map)
  then have "\<not> users_constraints_ok
               (d\<lparr>users := users d @ [new_delegated_user rq r d], next_user_id := Suc (next_user_id d)\<rparr>)"
    by (simp add: users_constraints_ok_def)
  then show ?thesis using en ni nu by (simp add: dispatcharr_login_def Let_def)
qed

theorem delegated_login_name_taken_500_witness:
  "dispatcharr_login sample_settings_sso (at_time 5) sample_bob_outcome sample_bob_db = Inl integrity_error"
  unfolding sample_bob_outcome_def
  by (rule delegated_login_name_taken_500
        [where x = "sample_carol\<lparr>u_id := 2, username := ''bob''\<rparr>"
           and y = "sample_carol\<lparr>u_id := 3, username := ''disp_bob''\<rparr>"])
     (simp_all add: sample_bob_db_def sample_defs sample_carol_def sample_settings_sso_def settings_defaults)

end
