(* ===== verification/Cookies.thy ===== *)
theory Cookies
  imports Delegated
begin

text \<open>
  The authentication cookies of \<open>src/backend/auth/routes.py\<close>: \<open>_set_auth_cookies\<close>
  and \<open>_clear_auth_cookies\<close>, the four routes that call them (\<open>login\<close>,
  \<open>refresh_tokens\<close>, \<open>logout\<close>, \<open>dispatcharr_login\<close>) as functions from a call to the
  new store and the response's \<open>Set-Cookie\<close> headers, and the browser that keeps the
  cookies.  A route that raises answers with a fresh error response, so the cookies set on
  the injected \<open>response\<close> are sent only on success.  The browser is not part of the
  sources: its cookie store follows RFC 6265 (a cookie is identified by name and path, a
  new one replaces the old, one with a non-positive \<open>Max-Age\<close> or a deletion removes it,
  it expires \<open>Max-Age\<close> seconds after it was received, and a request carries the cookies
  whose path matches the request's path).
\<close>

section \<open>Set-Cookie headers\<close>

record cookie =
  ck_name :: string
  ck_value :: token
  ck_path :: string
  ck_max_age :: int
  ck_httponly :: bool
  ck_secure :: bool
  ck_samesite :: string

datatype cookie_header = SetCookie cookie | DeleteCookie string string

text \<open>\<open>_set_auth_cookies(response, access_token, refresh_token, secure=False)\<close>.\<close>

definition set_auth_cookies :: "auth_settings \<Rightarrow> token \<Rightarrow> token \<Rightarrow> bool \<Rightarrow> cookie_header list" where
  "set_auth_cookies s at rt secure =
     [SetCookie \<lparr>ck_name = ''access_token'', ck_value = at, ck_path = ''/'',
                 ck_max_age = access_token_expire_minutes (jwt_cfg s) * 60,
                 ck_httponly = True, ck_secure = secure, ck_samesite = ''lax''\<rparr>,
      SetCookie \<lparr>ck_name = ''refresh_token'', ck_value = rt, ck_path = ''/api/auth'',
                 ck_max_age = refresh_token_expire_days (jwt_cfg s) * 24 * 60 * 60,
                 ck_httponly = True, ck_secure = secure, ck_samesite = ''lax''\<rparr>]"

definition clear_auth_cookies :: "cookie_header list" where
  "clear_auth_cookies = [DeleteCookie ''access_token'' ''/'', DeleteCookie ''refresh_token'' ''/api/auth'']"

section \<open>The routes\<close>

text \<open>A call of one of the routes that touch the cookies, with its inputs.  The
  refresh token of \<open>refresh_tokens\<close> and \<open>logout\<close> is read from the request's
  cookies (\<open>get_refresh_token_from_request\<close>), so it is an argument of \<open>serve\<close>.\<close>

datatype route_call =
    LoginCall request string string
  | RefreshCall request
  | LogoutCall time
  | DispatcharrCall request provider_outcome

fun call_time :: "route_call \<Rightarrow> time" where
  "call_time (LoginCall rq _ _) = now rq"
| "call_time (RefreshCall rq) = now rq"
| "call_time (LogoutCall t) = t"
| "call_time (DispatcharrCall rq _) = now rq"

fun call_path :: "route_call \<Rightarrow> string" where
  "call_path (LoginCall _ _ _) = ''/api/auth/login''"
| "call_path (RefreshCall _) = ''/api/auth/refresh''"
| "call_path (LogoutCall _) = ''/api/auth/logout''"
| "call_path (DispatcharrCall _ _) = ''/api/auth/dispatcharr/login''"

text \<open>Every call site passes no \<open>secure\<close> argument, so the default \<open>False\<close> is used.\<close>

fun serve :: "auth_settings \<Rightarrow> route_call \<Rightarrow> token option \<Rightarrow> db \<Rightarrow> db \<times> cookie_header list" where
  "serve s (LoginCall rq name pw) tok d =
     (case login s rq name pw d of
        Inl _ \<Rightarrow> (d, [])
      | Inr (d', u, at, rt) \<Rightarrow> (d', set_auth_cookies s at rt False))"
| "serve s (RefreshCall rq) tok d =
     (case refresh_tokens s rq tok d of
        Inl _ \<Rightarrow> (d, [])
      | Inr (d', at, rt) \<Rightarrow> (d', set_auth_cookies s at rt False))"
| "serve s (LogoutCall t) tok d = (logout tok d, clear_auth_cookies)"
| "serve s (DispatcharrCall rq outcome) tok d =
     (case dispatcharr_login s rq outcome d of
        Inl _ \<Rightarrow> (d, [])
      | Inr (d', u, at, rt) \<Rightarrow> (d', set_auth_cookies s at rt False))"

section \<open>The browser\<close>

text \<open>A stored cookie with the time it expires.\<close>

type_synonym jar = "(cookie \<times> time) list"

definition same_cookie :: "string \<Rightarrow> string \<Rightarrow> cookie \<times> time \<Rightarrow> bool" where
  "same_cookie n p e \<longleftrightarrow> ck_name (fst e) = n \<and> ck_path (fst e) = p"

fun receive :: "time \<Rightarrow> cookie_header \<Rightarrow> jar \<Rightarrow> jar" where
  "receive t (SetCookie c) j =
     (let j' = filter (\<lambda>e. \<not> same_cookie (ck_name c) (ck_path c) e) j
      in if ck_max_age c \<le> 0 then j' else j' @ [(c, t + ck_max_age c)])"
| "receive t (DeleteCookie n p) j = filter (\<lambda>e. \<not> same_cookie n p e) j"

definition receive_all :: "time \<Rightarrow> cookie_header list \<Rightarrow> jar \<Rightarrow> jar" where
  "receive_all t hs j = fold (receive t) hs j"

text \<open>RFC 6265, 5.1.4: the request path is the cookie path or lies below it.\<close>

definition path_match :: "string \<Rightarrow> string \<Rightarrow> bool" where
  "path_match rp cp \<longleftrightarrow>
     rp = cp \<or> (starts_with rp cp \<and> cp \<noteq> [] \<and>
                 (last cp = CHR ''/'' \<or> rp ! length cp = CHR ''/''))"

definition cookies_for :: "jar \<Rightarrow> time \<Rightarrow> string \<Rightarrow> cookie list" where
  "cookies_for j t rp = map fst (filter (\<lambda>e. t < snd e \<and> path_match rp (ck_path (fst e))) j)"

text \<open>The refresh token a request carries: the first live \<open>refresh_token\<close> cookie
  whose path matches the request's.\<close>

definition refresh_cookie :: "jar \<Rightarrow> time \<Rightarrow> string \<Rightarrow> token option" where
  "refresh_cookie j t rp =
     map_option ck_value (find (\<lambda>c. ck_name c = ''refresh_token'') (cookies_for j t rp))"

text \<open>The server and one browser: each call carries the browser's cookies, is served,
  and its response is received.\<close>

definition system_step :: "auth_settings \<Rightarrow> route_call \<Rightarrow> db \<times> jar \<Rightarrow> db \<times> jar" where
  "system_step s c st =
     (let tok = refresh_cookie (snd st) (call_time c) (call_path c);
          (d', hs) = serve s c tok (fst st)
      in (d', receive_all (call_time c) hs (snd st)))"

definition system_run :: "auth_settings \<Rightarrow> route_call list \<Rightarrow> db \<times> jar \<Rightarrow> db \<times> jar" where
  "system_run s cs st = fold (system_step s) cs st"

section \<open>Invariant\<close>

definition auth_cookie_names :: "string list" where
  "auth_cookie_names = [''access_token'', ''refresh_token'']"

text \<open>Every authentication cookie the browser holds was set by \<open>_set_auth_cookies\<close>:
  the access token at \<open>/\<close>, the refresh token at \<open>/api/auth\<close>, both \<open>HttpOnly\<close>.\<close>

definition auth_cookie_ok :: "cookie \<Rightarrow> bool" where
  "auth_cookie_ok c \<longleftrightarrow>
     (ck_name c = ''access_token'' \<longrightarrow> ck_path c = ''/'') \<and>
     (ck_name c = ''refresh_token'' \<longrightarrow> ck_path c = ''/api/auth'') \<and>
     ck_httponly c \<and> ck_samesite c = ''lax''"

definition jar_ok :: "jar \<Rightarrow> bool" where
  "jar_ok j \<longleftrightarrow> (\<forall>e \<in> set j. ck_name (fst e) \<in> set auth_cookie_names \<longrightarrow> auth_cookie_ok (fst e))"

definition sets_only :: "(cookie \<Rightarrow> bool) \<Rightarrow> cookie_header list \<Rightarrow> bool" where
  "sets_only P hs \<longleftrightarrow> (\<forall>c. SetCookie c \<in> set hs \<longrightarrow> P c)"

text \<open>A browser that holds a refresh cookie and an unrelated cookie.\<close>

definition sample_jar :: jar where
  "sample_jar =
     [(\<lparr>ck_name = ''theme'', ck_value = Garbage ''dark'', ck_path = ''/'', ck_max_age = 3600,
        ck_httponly = False, ck_secure = False, ck_samesite = ''lax''\<rparr>, 3600),
      (\<lparr>ck_name = ''refresh_token'', ck_value = Garbage ''rt'', ck_path = ''/api/auth'',
        ck_max_age = 604800, ck_httponly = True, ck_secure = False, ck_samesite = ''lax''\<rparr>, 604800)]"

section \<open>Lemmas\<close>

lemma receive_all_pred:
  assumes "sets_only P hs" and "\<forall>e \<in> set j. P (fst e)"
  shows "\<forall>e \<in> set (receive_all t hs j). P (fst e)"
  using assms
proof (induction hs arbitrary: j)
  case Nil
  then show ?case by (simp add: receive_all_def)
next
  case (Cons h hs)
  have "\<forall>e \<in> set (receive t h j). P (fst e)"
    using Cons.prems by (cases h) (auto simp: sets_only_def Let_def)
  moreover have "sets_only P hs" using Cons.prems(1) by (simp add: sets_only_def)
  ultimately show ?case using Cons.IH by (simp add: receive_all_def)
qed

lemma serve_sets_auth:
  "SetCookie c \<in> set (snd (serve s call tok d)) \<Longrightarrow>
   \<exists>at rt. SetCookie c \<in> set (set_auth_cookies s at rt False)"
  by (cases call) (auto simp: clear_auth_cookies_def split: sum.splits prod.splits)

lemma serve_sets_only:
  assumes "\<And>at rt c. SetCookie c \<in> set (set_auth_cookies s at rt False) \<Longrightarrow> P c"
  shows "sets_only P (snd (serve s call tok d))"
  using serve_sets_auth assms unfolding sets_only_def by blast

lemma system_step_pred:
  assumes "\<And>at rt c. SetCookie c \<in> set (set_auth_cookies s at rt False) \<Longrightarrow> P c"
    and "\<forall>e \<in> set (snd st). P (fst e)"
  shows "\<forall>e \<in> set (snd (system_step s call st)). P (fst e)"
proof -
  let ?tok = "refresh_cookie (snd st) (call_time call) (call_path call)"
  obtain d' hs where e: "serve s call ?tok (fst st) = (d', hs)"
    by (rule prod.exhaust)
  have "sets_only P (snd (serve s call ?tok (fst st)))"
    by (rule serve_sets_only [OF assms(1)])
  then have "sets_only P hs" by (simp add: e)
  with assms(2) e show ?thesis by (simp add: system_step_def receive_all_pred)
qed

lemma system_run_pred:
  assumes "\<And>at rt c. SetCookie c \<in> set (set_auth_cookies s at rt False) \<Longrightarrow> P c"
    and "\<forall>e \<in> set (snd st). P (fst e)"
  shows "\<forall>e \<in> set (snd (system_run s cs st)). P (fst e)"
  using assms(2)
proof (induction cs arbitrary: st)
  case Nil
  then show ?case by (simp add: system_run_def)
next
  case (Cons c cs)
  from system_step_pred [OF assms(1) Cons.prems] have "\<forall>e \<in> set (snd (system_step s c st)). P (fst e)" .
  from Cons.IH [OF this] show ?case by (simp add: system_run_def)
qed

lemma system_run_jar_ok:
  "jar_ok (snd st) \<Longrightarrow> jar_ok (snd (system_run s cs st))"
  unfolding jar_ok_def
  by (rule system_run_pred [where P = "\<lambda>c. ck_name c \<in> set auth_cookie_names \<longrightarrow> auth_cookie_ok c"])
     (auto simp: set_auth_cookies_def auth_cookie_ok_def)

lemma logout_jar:
  "snd (system_step s (LogoutCall t) st) =
   filter (\<lambda>e. \<not> same_cookie ''refresh_token'' ''/api/auth'' e)
     (filter (\<lambda>e. \<not> same_cookie ''access_token'' ''/'' e) (snd st))"
  by (simp add: system_step_def clear_auth_cookies_def receive_all_def)

section \<open>Properties\<close>

text \<open>
  C6. The authentication cookies are never marked \<open>Secure\<close>: no call site of
  \<open>_set_auth_cookies\<close> passes \<open>secure=True\<close> (the comment says it should in production),
  so after any sequence of logins, refreshes, logouts and delegated logins from a fresh
  browser, no cookie the browser holds has the flag, and the tokens are sent over plain
  HTTP as well.
\<close>

theorem auth_cookies_never_secure:
  "\<forall>e \<in> set (snd (system_run s cs (d, []))). \<not> ck_secure (fst e)"
  by (rule system_run_pred [where P = "\<lambda>c. \<not> ck_secure c"]) (auto simp: set_auth_cookies_def)

theorem auth_cookies_never_secure_witness:
  "list_all (\<lambda>e. \<not> ck_secure (fst e))
     (snd (system_run sample_settings [LoginCall (at_time 0) ''admin'' ''validpassword123'', LogoutCall 5]
             (sample_db, [])))"
  using auth_cookies_never_secure [of sample_settings
          "[LoginCall (at_time 0) ''admin'' ''validpassword123'', LogoutCall 5]" sample_db]
  by (simp add: list_all_iff)

text \<open>
  C5. Logout ends the browser's session: \<open>_clear_auth_cookies\<close> deletes the cookies at
  the paths \<open>_set_auth_cookies\<close> used, so from a browser whose authentication cookies were
  all set by the server, no request after the logout carries an access or refresh
  token, whatever its path and time.
\<close>

theorem logout_drops_auth_cookies:
  assumes "jar_ok (snd st)"
  shows "\<forall>c \<in> set (cookies_for (snd (system_step s (LogoutCall t) st)) t' rp).
           ck_name c \<notin> set auth_cookie_names"
  using assms
  by (auto simp: logout_jar cookies_for_def jar_ok_def auth_cookie_ok_def same_cookie_def
                 auth_cookie_names_def)

theorem logout_drops_auth_cookies_witness:
  "list_all (\<lambda>c. ck_name c \<notin> set auth_cookie_names)
     (cookies_for (snd (system_step sample_settings (LogoutCall 10) (sample_db, sample_jar)))
        20 ''/api/auth/refresh'')"
proof -
  have "jar_ok (snd (sample_db, sample_jar))"
    by (simp add: jar_ok_def sample_jar_def auth_cookie_names_def auth_cookie_ok_def)
  from logout_drops_auth_cookies [OF this, of sample_settings 10 20 "''/api/auth/refresh''"]
  show ?thesis by (simp add: list_all_iff)
qed

end
