(* ===== verification/Cache.thy ===== *)
theory Cache
  imports Complex_Main Prelude "HOL-Library.AList"
begin

text \<open>
  The in-memory response cache of \<open>src/backend/cache.py\<close>: \<open>CacheEntry\<close> and the class
  \<open>Cache\<close> with \<open>get\<close>, \<open>set\<close>, \<open>invalidate\<close>, \<open>invalidate_prefix\<close>, \<open>clear\<close> and
  \<open>stats\<close>, and the module's global instance.  The dictionary \<open>_cache\<close> is an association
  list in insertion order (a Python \<open>dict\<close> keeps the position of a key that is assigned
  again, as \<open>AList.update\<close> does; \<open>del\<close> is \<open>AList.delete\<close>).  The clock
  \<open>time.time()\<close> is the argument \<open>now\<close>, a real number of seconds.  Each operation
  returns its result and the new cache.  The abstraction \<open>cache_abs\<close> forgets the order
  and keeps a partial map from keys to entries with the two counters; every operation
  refines an operation on that map.
\<close>

type_synonym clock = real

section \<open>State\<close>

record 'a cache_entry =
  data :: 'a
  cached_at :: clock

record 'a cache =
  entries :: "(string \<times> 'a cache_entry) list"
  default_ttl :: int
  hits :: nat
  misses :: nat

definition cache_init :: "int \<Rightarrow> 'a cache" where
  "cache_init ttl = \<lparr>entries = [], default_ttl = ttl, hits = 0, misses = 0\<rparr>"

section \<open>Operations\<close>

text \<open>
  \<open>get\<close>: a missing key is a miss; an entry older than the effective TTL (the argument,
  or the default when it is \<open>None\<close>) is a miss and is deleted; otherwise a hit.  An age
  equal to the TTL is still a hit (\<open>age > effective_ttl\<close>).
\<close>

definition cache_get :: "clock \<Rightarrow> string \<Rightarrow> int option \<Rightarrow> 'a cache \<Rightarrow> 'a option \<times> 'a cache" where
  "cache_get now key ttl c =
     (case map_of (entries c) key of
        None \<Rightarrow> (None, c\<lparr>misses := misses c + 1\<rparr>)
      | Some e \<Rightarrow>
          let eff = (case ttl of None \<Rightarrow> default_ttl c | Some t \<Rightarrow> t);
              age = now - cached_at e
          in if age > of_int eff
             then (None, c\<lparr>misses := misses c + 1, entries := AList.delete key (entries c)\<rparr>)
             else (Some (data e), c\<lparr>hits := hits c + 1\<rparr>))"

definition cache_set :: "clock \<Rightarrow> string \<Rightarrow> 'a \<Rightarrow> 'a cache \<Rightarrow> 'a cache" where
  "cache_set now key v c =
     c\<lparr>entries := AList.update key \<lparr>data = v, cached_at = now\<rparr> (entries c)\<rparr>"

definition cache_invalidate :: "string \<Rightarrow> 'a cache \<Rightarrow> bool \<times> 'a cache" where
  "cache_invalidate key c =
     (if key \<in> set (map fst (entries c))
      then (True, c\<lparr>entries := AList.delete key (entries c)\<rparr>)
      else (False, c))"

text \<open>\<open>invalidate_prefix\<close>: the matching keys are collected first, then deleted one by
  one; the result is their number.\<close>

definition cache_invalidate_prefix :: "string \<Rightarrow> 'a cache \<Rightarrow> nat \<times> 'a cache" where
  "cache_invalidate_prefix prefix c =
     (let keys_to_remove = filter (\<lambda>k. starts_with k prefix) (map fst (entries c))
      in (length keys_to_remove,
          c\<lparr>entries := fold AList.delete keys_to_remove (entries c)\<rparr>))"

definition cache_clear :: "'a cache \<Rightarrow> nat \<times> 'a cache" where
  "cache_clear c = (length (entries c), c\<lparr>entries := []\<rparr>)"

text \<open>
  \<open>stats\<close>: the entry count, the counters, the hit rate in percent (0 without
  requests) and the age of every entry in dictionary order.  The source rounds the rate
  and the ages to one decimal for display; the model keeps the exact values.
\<close>

record cache_stats =
  entry_count :: nat
  stat_hits :: nat
  stat_misses :: nat
  hit_rate_percent :: real
  stat_entries :: "(string \<times> clock) list"

definition cache_stats :: "clock \<Rightarrow> 'a cache \<Rightarrow> cache_stats" where
  "cache_stats now c =
     (let total = hits c + misses c
      in \<lparr>entry_count = length (entries c), stat_hits = hits c, stat_misses = misses c,
          hit_rate_percent = (if total > 0 then real (hits c) / real total * 100 else 0),
          stat_entries = map (\<lambda>(k, e). (k, now - cached_at e)) (entries c)\<rparr>)"

text \<open>The global instance \<open>_cache = Cache(default_ttl=300)\<close> returned by \<open>get_cache\<close>.\<close>

definition get_cache :: "'a cache" where
  "get_cache = cache_init 300"

section \<open>Sequences of operations\<close>

text \<open>The operations a caller can interleave, and their effect on the cache.\<close>

datatype 'a cache_op =
    OpGet clock string "int option"
  | OpSet clock string 'a
  | OpInvalidate string
  | OpInvalidatePrefix string
  | OpClear

fun cache_step :: "'a cache_op \<Rightarrow> 'a cache \<Rightarrow> 'a cache" where
  "cache_step (OpGet t k ttl) c = snd (cache_get t k ttl c)"
| "cache_step (OpSet t k v) c = cache_set t k v c"
| "cache_step (OpInvalidate k) c = snd (cache_invalidate k c)"
| "cache_step (OpInvalidatePrefix p) c = snd (cache_invalidate_prefix p c)"
| "cache_step OpClear c = snd (cache_clear c)"

definition cache_run :: "'a cache_op list \<Rightarrow> 'a cache \<Rightarrow> 'a cache" where
  "cache_run ops c = fold cache_step ops c"

fun is_get :: "'a cache_op \<Rightarrow> bool" where
  "is_get (OpGet _ _ _) = True"
| "is_get _ = False"

inductive cache_reach :: "int \<Rightarrow> 'a cache \<Rightarrow> bool" for ttl where
  reach_init: "cache_reach ttl (cache_init ttl)"
| reach_step: "cache_reach ttl c \<Longrightarrow> cache_reach ttl (cache_step op c)"

section \<open>The abstract cache\<close>

text \<open>A partial map from keys to entries and the two counters: what the cache promises
  independently of the order of its dictionary.\<close>

record 'a abs_cache =
  amap :: "string \<rightharpoonup> 'a cache_entry"
  ahits :: nat
  amisses :: nat

definition cache_abs :: "'a cache \<Rightarrow> 'a abs_cache" where
  "cache_abs c = \<lparr>amap = map_of (entries c), ahits = hits c, amisses = misses c\<rparr>"

definition expired :: "clock \<Rightarrow> int \<Rightarrow> 'a cache_entry \<Rightarrow> bool" where
  "expired now ttl e = (now - cached_at e > of_int ttl)"

fun abs_step :: "int \<Rightarrow> 'a cache_op \<Rightarrow> 'a abs_cache \<Rightarrow> 'a abs_cache" where
  "abs_step dflt (OpGet t k ttl) a =
     (case amap a k of
        None \<Rightarrow> a\<lparr>amisses := amisses a + 1\<rparr>
      | Some e \<Rightarrow>
          if expired t (case ttl of None \<Rightarrow> dflt | Some x \<Rightarrow> x) e
          then a\<lparr>amap := (amap a)(k := None), amisses := amisses a + 1\<rparr>
          else a\<lparr>ahits := ahits a + 1\<rparr>)"
| "abs_step dflt (OpSet t k v) a = a\<lparr>amap := (amap a)(k \<mapsto> \<lparr>data = v, cached_at = t\<rparr>)\<rparr>"
| "abs_step dflt (OpInvalidate k) a = a\<lparr>amap := (amap a)(k := None)\<rparr>"
| "abs_step dflt (OpInvalidatePrefix p) a =
     a\<lparr>amap := (\<lambda>k. if starts_with k p then None else amap a k)\<rparr>"
| "abs_step dflt OpClear a = a\<lparr>amap := Map.empty\<rparr>"

text \<open>The invariant of the representation: each key occurs once.\<close>

definition cache_wf :: "'a cache \<Rightarrow> bool" where
  "cache_wf c = distinct (map fst (entries c))"

section \<open>Sample data\<close>

text \<open>The global cache after three \<open>set\<close> calls, two of them under the prefix
  \<open>streams:\<close>.\<close>

definition sample_cache :: "int cache" where
  "sample_cache =
     cache_run [OpSet 1 ''streams:1'' 10, OpSet 2 ''epg'' 20, OpSet 3 ''streams:2'' 30] get_cache"

section \<open>Lemmas\<close>

lemma delete_filter: "AList.delete k al = filter (\<lambda>p. fst p \<noteq> k) al"
  by (simp add: AList.delete_eq split_def eq_commute)

lemma fold_delete_filter:
  "fold AList.delete ks al = filter (\<lambda>p. fst p \<notin> set ks) al"
  by (induction ks arbitrary: al) (auto simp: delete_filter filter_filter conj_commute)

lemma map_of_filter_key:
  "map_of (filter (\<lambda>p. P (fst p)) al) k = (if P k then map_of al k else None)"
  by (induction al) auto

lemma map_of_notin_keys: "k \<notin> set (map fst al) \<Longrightarrow> map_of al k = None"
  by (simp add: map_of_eq_None_iff)

lemma invalidate_prefix_simps [simp]:
  "entries (snd (cache_invalidate_prefix p c)) = filter (\<lambda>e. \<not> starts_with (fst e) p) (entries c)"
  "hits (snd (cache_invalidate_prefix p c)) = hits c"
  "misses (snd (cache_invalidate_prefix p c)) = misses c"
  "default_ttl (snd (cache_invalidate_prefix p c)) = default_ttl c"
  by (auto simp: cache_invalidate_prefix_def fold_delete_filter Let_def intro!: filter_cong)

lemma cache_abs_step:
  "cache_abs (cache_step op c) = abs_step (default_ttl c) op (cache_abs c)
   \<and> default_ttl (cache_step op c) = default_ttl c"
proof (cases op)
  case (OpGet t k ttl)
  then show ?thesis
    by (auto simp: cache_abs_def cache_get_def expired_def delete_conv' Let_def
             split: option.splits)
next
  case (OpSet t k v)
  then show ?thesis by (simp add: cache_abs_def cache_set_def update_conv')
next
  case (OpInvalidate k)
  then show ?thesis
    by (auto simp: cache_abs_def cache_invalidate_def delete_conv' map_of_notin_keys fun_upd_idem)
next
  case (OpInvalidatePrefix p)
  have "map_of (filter (\<lambda>e. \<not> starts_with (fst e) p) (entries c)) =
        (\<lambda>k. if starts_with k p then None else map_of (entries c) k)"
    by (rule ext) (simp add: map_of_filter_key [where P = "\<lambda>k. \<not> starts_with k p", simplified])
  with OpInvalidatePrefix show ?thesis by (simp add: cache_abs_def cong: if_cong)
next
  case OpClear
  then show ?thesis by (simp add: cache_abs_def cache_clear_def)
qed

lemma cache_step_wf: "cache_wf c \<Longrightarrow> cache_wf (cache_step op c)"
  by (cases op)
     (auto simp: cache_wf_def cache_get_def cache_set_def cache_invalidate_def cache_clear_def
                 distinct_update distinct_delete distinct_map_filter Let_def split: option.splits)

lemma cache_step_default_ttl [simp]: "default_ttl (cache_step op c) = default_ttl c"
  using cache_abs_step by blast

lemma cache_step_counters:
  "hits (cache_step op c) + misses (cache_step op c) = hits c + misses c + (if is_get op then 1 else 0)"
  by (cases op)
     (auto simp: cache_get_def cache_set_def cache_invalidate_def cache_clear_def Let_def
           split: option.splits)

section \<open>Properties\<close>

text \<open>
  C25. The cache refines a partial map: after any sequence of operations, forgetting the order of the dictionary gives the map, hit and miss counters that the same operations compute on the abstract cache (\<open>abs_step\<close>): \<open>set\<close> is a map update, \<open>invalidate\<close> a deletion, \<open>invalidate_prefix\<close> deletes exactly the keys with the prefix, \<open>clear\<close> empties the map, and \<open>get\<close> deletes an expired entry.
\<close>

theorem cache_run_refines:
  "cache_abs (cache_run ops c) = fold (abs_step (default_ttl c)) ops (cache_abs c)"
proof (induction ops arbitrary: c)
  case Nil
  then show ?case by (simp add: cache_run_def)
next
  case (Cons op ops)
  then show ?case using cache_abs_step [of op c] by (simp add: cache_run_def)
qed

text \<open>
  C26. The loop of \<open>invalidate_prefix\<close>, which deletes the collected keys one by one, equals filtering the dictionary by the prefix; on a well-formed cache its result is the number of keys with the prefix.
\<close>

theorem invalidate_prefix_removes:
  "entries (snd (cache_invalidate_prefix p c)) = filter (\<lambda>e. \<not> starts_with (fst e) p) (entries c)
   \<and> (cache_wf c \<longrightarrow>
        fst (cache_invalidate_prefix p c) = card {k \<in> dom (map_of (entries c)). starts_with k p})"
proof -
  have "cache_wf c \<Longrightarrow> fst (cache_invalidate_prefix p c) = card {k \<in> dom (map_of (entries c)). starts_with k p}"
  proof -
    assume "cache_wf c"
    then have "distinct (filter (\<lambda>k. starts_with k p) (map fst (entries c)))"
      by (simp add: cache_wf_def)
    have "fst (cache_invalidate_prefix p c) = length (filter (\<lambda>k. starts_with k p) (map fst (entries c)))"
      by (simp add: cache_invalidate_prefix_def Let_def)
    also have "\<dots> =
               card (set (filter (\<lambda>k. starts_with k p) (map fst (entries c))))"
      using \<open>distinct (filter (\<lambda>k. starts_with k p) (map fst (entries c)))\<close>
      by (rule distinct_card [symmetric])
    also have "set (filter (\<lambda>k. starts_with k p) (map fst (entries c))) =
               {k \<in> dom (map_of (entries c)). starts_with k p}"
      by (auto simp: dom_map_of_conv_image_fst)
    finally show ?thesis .
  qed
  then show ?thesis by simp
qed

theorem invalidate_prefix_removes_witness:
  "cache_wf sample_cache \<and>
   fst (cache_invalidate_prefix ''streams:'' sample_cache) =
     card {k \<in> dom (map_of (entries sample_cache)). starts_with k ''streams:''} \<and>
   map fst (entries (snd (cache_invalidate_prefix ''streams:'' sample_cache))) = [''epg'']"
proof -
  have w: "cache_wf sample_cache"
    by (simp add: cache_wf_def sample_cache_def cache_run_def cache_set_def get_cache_def cache_init_def)
  have e: "map fst (entries (snd (cache_invalidate_prefix ''streams:'' sample_cache))) = [''epg'']"
    by (simp add: sample_cache_def cache_run_def cache_set_def get_cache_def cache_init_def)
  from invalidate_prefix_removes [of "''streams:''" sample_cache] w e show ?thesis by simp
qed

text \<open>
  Every cache reachable from \<open>Cache(default_ttl)\<close> by the operations has each key once and keeps its default TTL.
\<close>

theorem cache_reach_wf:
  assumes "cache_reach ttl c"
  shows "cache_wf c \<and> default_ttl c = ttl"
  using assms
proof (induction rule: cache_reach.induct)
  case reach_init
  then show ?case by (simp add: cache_wf_def cache_init_def)
next
  case (reach_step c op)
  then show ?case by (simp add: cache_step_wf)
qed

theorem cache_reach_wf_witness:
  "cache_wf (cache_step (OpSet 1 ''streams'' (7::int)) (cache_init 300))
   \<and> default_ttl (cache_step (OpSet 1 ''streams'' (7::int)) (cache_init 300)) = 300"
proof -
  have "cache_reach 300 (cache_step (OpSet 1 ''streams'' (7::int)) (cache_init 300))"
    by (rule reach_step [OF reach_init])
  then show ?thesis by (rule cache_reach_wf)
qed

text \<open>
  A value stored by \<open>set\<close> at time \<open>t\<close> is returned by \<open>get\<close> at any time \<open>t\<close> to \<open>t + ttl\<close> (the TTL given to \<open>get\<close>, or the default).
\<close>

theorem cache_set_get:
  assumes "0 \<le> t' - t" and "t' - t \<le> of_int (case ttl of None \<Rightarrow> default_ttl c | Some x \<Rightarrow> x)"
  shows "fst (cache_get t' k ttl (cache_set t k v c)) = Some v"
  using assms by (auto simp: cache_get_def cache_set_def update_conv' Let_def split: option.splits)

theorem cache_set_get_witness:
  "fst (cache_get 150 ''streams'' None (cache_set 100 ''streams'' (7::int) get_cache)) = Some 7"
proof -
  have "(0::real) \<le> 150 - 100" by simp
  moreover have "(150::real) - 100 \<le> of_int (case None of None \<Rightarrow> default_ttl (get_cache :: int cache) | Some x \<Rightarrow> x)"
    by (simp add: get_cache_def cache_init_def)
  ultimately show ?thesis by (rule cache_set_get)
qed

text \<open>
  The counters count requests: over any sequence of operations, hits plus misses grow by exactly the number of \<open>get\<close> calls.
\<close>

theorem cache_run_counts_gets:
  "hits (cache_run ops c) + misses (cache_run ops c) = hits c + misses c + length (filter is_get ops)"
proof (induction ops arbitrary: c)
  case Nil
  then show ?case by (simp add: cache_run_def)
next
  case (Cons op ops)
  then show ?case using cache_step_counters [of op c] by (simp add: cache_run_def)
qed

text \<open>
  The hit rate reported by \<open>stats\<close> lies between 0 and 100 percent.
\<close>

theorem hit_rate_bounds:
  "0 \<le> hit_rate_percent (cache_stats now c) \<and> hit_rate_percent (cache_stats now c) \<le> 100"
proof (cases "hits c + misses c > 0")
  case True
  let ?r = "real (hits c) / real (hits c + misses c)"
  have "?r \<le> 1" using True by (subst divide_le_eq_1_pos) auto
  then have "?r * 100 \<le> 1 * 100" by (rule mult_right_mono) simp
  moreover have "0 \<le> ?r * 100" by simp
  ultimately have "0 \<le> ?r * 100 \<and> ?r * 100 \<le> 100" by simp
  with True show ?thesis by (simp only: cache_stats_def Let_def cache_stats.simps if_True)
next
  case False
  then show ?thesis by (simp add: cache_stats_def Let_def)
qed

text \<open>
  The TTL boundaries of the global cache (default 300 s): an explicit TTL of 0 is honoured (a value is readable in the same instant only, not treated as absent), an entry exactly as old as the TTL is still a hit, and one older is a miss that removes it.
\<close>

theorem cache_ttl_scenario:
  "let c = cache_set 100 ''streams'' (42::int) get_cache in
     fst (cache_get 100 ''streams'' (Some 0) c) = Some 42
   \<and> fst (cache_get (201/2) ''streams'' (Some 0) c) = None
   \<and> fst (cache_get 400 ''streams'' None c) = Some 42
   \<and> fst (cache_get (801/2) ''streams'' None c) = None
   \<and> entries (snd (cache_get (801/2) ''streams'' None c)) = []"
  by (simp add: cache_get_def cache_set_def get_cache_def cache_init_def Let_def)

end
