(* ===== verification/Bandwidth.thy ===== *)
theory Bandwidth
  imports Prelude "HOL-Library.AList"
begin

text \<open>
  The background bandwidth tracker of \<open>src/backend/bandwidth_tracker.py\<close> and the
  \<open>BandwidthDaily\<close> table of \<open>src/backend/models.py\<close>.  A poll of the provider's
  channel statistics (\<open>client.get_channel_stats()\<close>) is an argument of type
  \<open>stats_fetch\<close>: it fails, or it returns the list under \<open>"channels"\<close>.  A channel's
  \<open>channel_id\<close> is its \<open>str(...)\<close>; an absent or \<open>None\<close> byte or client count is
  \<open>None\<close>, read as 0 (\<open>... or 0\<close>).  Dates are day numbers
  (\<open>date.toordinal()\<close>), and \<open>date.today()\<close> is the argument \<open>today\<close>; the first days
  of the month and the year (\<open>today.replace(...)\<close>) are arguments of the summary.  Whether
  the database accepts a commit is the argument \<open>commit_ok\<close>: a failed commit is rolled
  back.  The tracker's asynchronous task is the flag \<open>has_task\<close>; one iteration of
  \<open>_poll_loop\<close> is one \<open>Poll\<close> event of the step function \<open>tracker_step\<close>, and
  \<open>start\<close> and \<open>stop\<close> are events interleaved with the polls.
\<close>

section \<open>Data\<close>

record channel_stat =
  channel_id :: string
  total_bytes :: "int option"
  client_count :: "int option"

datatype stats_fetch = FetchFailed | Fetched "channel_stat list"

record bandwidth_daily =
  bd_id :: nat
  bd_date :: int
  bytes_transferred :: int
  peak_channels :: int
  peak_clients :: int

record bw_db =
  daily :: "bandwidth_daily list"
  next_daily_id :: nat

record tracker =
  last_bytes :: "(string \<times> int) list"
  running :: bool
  has_task :: bool

definition tracker_init :: tracker where
  "tracker_init = \<lparr>last_bytes = [], running = False, has_task = False\<rparr>"

definition poll_interval :: nat where
  "poll_interval = 30"

section \<open>Collecting statistics\<close>

fun or_zero :: "int option \<Rightarrow> int" where
  "or_zero None = 0"
| "or_zero (Some n) = n"

text \<open>
  The loop of \<open>_collect_stats\<close> over the channels: it records each channel's current
  byte count (a later duplicate id overwrites an earlier one), sums the client counts, and
  adds the growth of a channel's counter since the previous poll when the channel was
  seen then and its counter grew.
\<close>

fun collect_channels ::
  "(string \<times> int) list \<Rightarrow> channel_stat list \<Rightarrow> (string \<times> int) list \<Rightarrow> int \<Rightarrow> int \<Rightarrow>
   (string \<times> int) list \<times> int \<times> int" where
  "collect_channels seen [] cur delta clients = (cur, delta, clients)"
| "collect_channels seen (ch # chs) cur delta clients =
     (let b = or_zero (total_bytes ch);
          d = (case map_of seen (channel_id ch) of
                 None \<Rightarrow> 0
               | Some prev \<Rightarrow> if b > prev then b - prev else 0)
      in collect_channels seen chs (AList.update (channel_id ch) b cur) (delta + d)
           (clients + or_zero (client_count ch)))"

text \<open>\<open>_update_daily_record\<close>: get or create the row of the day, add the bytes, raise
  the peaks.\<close>

definition update_daily_record :: "int \<Rightarrow> int \<Rightarrow> int \<Rightarrow> int \<Rightarrow> bool \<Rightarrow> bw_db \<Rightarrow> bw_db" where
  "update_daily_record today bytes_delta active_channels total_clients commit_ok db =
     (if \<not> commit_ok then db
      else case find (\<lambda>r. bd_date r = today) (daily db) of
        None \<Rightarrow>
          db\<lparr>daily := daily db @
                [\<lparr>bd_id = next_daily_id db, bd_date = today, bytes_transferred = bytes_delta,
                  peak_channels = max 0 active_channels, peak_clients = max 0 total_clients\<rparr>],
             next_daily_id := Suc (next_daily_id db)\<rparr>
      | Some r \<Rightarrow>
          db\<lparr>daily := update_where (\<lambda>x. bd_id x = bd_id r)
                        (\<lambda>x. x\<lparr>bytes_transferred := bytes_transferred x + bytes_delta,
                              peak_channels := max (peak_channels x) active_channels,
                              peak_clients := max (peak_clients x) total_clients\<rparr>) (daily db)\<rparr>)"

definition collect_stats ::
  "stats_fetch \<Rightarrow> int \<Rightarrow> bool \<Rightarrow> tracker \<Rightarrow> bw_db \<Rightarrow> tracker \<times> bw_db" where
  "collect_stats fetch today commit_ok st db =
     (case fetch of
        FetchFailed \<Rightarrow> (st, db)
      | Fetched chs \<Rightarrow>
          if chs = [] then (st, db)
          else let (cur, delta, clients) = collect_channels (last_bytes st) chs [] 0 0;
                   active = int (length chs);
                   st' = st\<lparr>last_bytes := cur\<rparr>
               in if delta > 0 \<or> active > 0
                  then (st', update_daily_record today delta active clients commit_ok db)
                  else (st', db))"

section \<open>Start, stop and the polling loop\<close>

datatype tracker_event =
    Start
  | Stop
  | Poll stats_fetch int bool   \<comment> \<open>one iteration of \<open>_poll_loop\<close>: fetch, day, commit\<close>

text \<open>
  \<open>start\<close> does nothing when the tracker runs; otherwise it sets the flag and creates
  the task.  \<open>stop\<close> clears the flag and cancels the task.  A poll happens only in the
  task's loop, i.e. while the tracker runs.
\<close>

fun tracker_step :: "tracker_event \<Rightarrow> tracker \<times> bw_db \<Rightarrow> tracker \<times> bw_db" where
  "tracker_step Start (st, db) =
     (if running st then (st, db) else (st\<lparr>running := True, has_task := True\<rparr>, db))"
| "tracker_step Stop (st, db) = (st\<lparr>running := False, has_task := False\<rparr>, db)"
| "tracker_step (Poll f today ok) (st, db) =
     (if running st \<and> has_task st then collect_stats f today ok st db else (st, db))"

inductive tracker_reach :: "tracker \<times> bw_db \<Rightarrow> bool" where
  tr_init: "tracker_reach (tracker_init, \<lparr>daily = [], next_daily_id = 1\<rparr>)"
| tr_step: "tracker_reach s \<Longrightarrow> tracker_reach (tracker_step e s)"

section \<open>Summary and purge\<close>

record bandwidth_summary =
  today_bytes :: int
  week_bytes :: int
  month_bytes :: int
  year_bytes :: int
  all_time_bytes :: int
  daily_history :: "bandwidth_daily list"

text \<open>The loop of \<open>get_bandwidth_summary\<close> over all rows: five accumulators; the
  day's bytes are those of the last row dated today.\<close>

fun summary_loop ::
  "int \<Rightarrow> int \<Rightarrow> int \<Rightarrow> int \<Rightarrow> bandwidth_daily list \<Rightarrow> int \<times> int \<times> int \<times> int \<times> int \<Rightarrow>
   int \<times> int \<times> int \<times> int \<times> int" where
  "summary_loop today week_ago month_start year_start [] acc = acc"
| "summary_loop today week_ago month_start year_start (r # rs) (t, w, m, y, a) =
     (let b = bytes_transferred r
      in summary_loop today week_ago month_start year_start rs
           (if bd_date r = today then b else t,
            if bd_date r \<ge> week_ago then w + b else w,
            if bd_date r \<ge> month_start then m + b else m,
            if bd_date r \<ge> year_start then y + b else y,
            a + b))"

definition get_bandwidth_summary :: "int \<Rightarrow> int \<Rightarrow> int \<Rightarrow> bw_db \<Rightarrow> bandwidth_summary" where
  "get_bandwidth_summary today month_start year_start db =
     (let week_ago = today - 7;
          (t, w, m, y, a) = summary_loop today week_ago month_start year_start (daily db) (0, 0, 0, 0, 0)
      in \<lparr>today_bytes = t, week_bytes = w, month_bytes = m, year_bytes = y, all_time_bytes = a,
          daily_history = sort_key bd_date (filter (\<lambda>r. bd_date r \<ge> week_ago) (daily db))\<rparr>)"

definition purge_old_records :: "int \<Rightarrow> int \<Rightarrow> bool \<Rightarrow> bw_db \<Rightarrow> bw_db" where
  "purge_old_records today days commit_ok db =
     (if commit_ok then db\<lparr>daily := filter (\<lambda>r. \<not> bd_date r < today - days) (daily db)\<rparr> else db)"

section \<open>Invariants\<close>

text \<open>One row per day, and no negative total or peak.\<close>

definition daily_wf :: "bw_db \<Rightarrow> bool" where
  "daily_wf db =
     (distinct (map bd_date (daily db)) \<and> distinct (map bd_id (daily db)) \<and>
      (\<forall>r \<in> set (daily db). bd_id r < next_daily_id db \<and> 0 \<le> bytes_transferred r
                            \<and> 0 \<le> peak_channels r \<and> 0 \<le> peak_clients r))"

definition tracker_wf :: "tracker \<Rightarrow> bool" where
  "tracker_wf st = (running st = has_task st)"

section \<open>Sample data\<close>

definition sample_row :: "int \<Rightarrow> bandwidth_daily" where
  "sample_row d = \<lparr>bd_id = nat d + 1, bd_date = d, bytes_transferred = 100, peak_channels = 1,
                    peak_clients = 1\<rparr>"

definition sample_week_db :: bw_db where
  "sample_week_db = \<lparr>daily = map sample_row [0, 1, 2, 3, 4, 5, 6, 7, 8], next_daily_id = 10\<rparr>"

definition sample_channel :: "string \<Rightarrow> int \<Rightarrow> channel_stat" where
  "sample_channel i b = \<lparr>channel_id = i, total_bytes = Some b, client_count = Some 1\<rparr>"

section \<open>Lemmas\<close>

lemma collect_channels_delta_mono:
  "collect_channels seen chs cur d c = (cur', d', c') \<Longrightarrow> d \<le> d'"
proof (induction seen chs cur d c rule: collect_channels.induct)
  case (1 seen cur delta clients)
  then show ?case by simp
next
  case (2 seen ch chs cur delta clients)
  let ?b = "or_zero (total_bytes ch)"
  let ?g = "case map_of seen (channel_id ch) of None \<Rightarrow> 0 | Some prev \<Rightarrow> if ?b > prev then ?b - prev else 0"
  have "0 \<le> ?g" by (auto split: option.splits)
  moreover have "delta + ?g \<le> d'" using 2 by (simp add: Let_def)
  ultimately show ?case by linarith
qed

lemma collect_stats_cases:
  "collect_stats f today ok st db = (st', db') \<Longrightarrow>
   db' = db \<or> (\<exists>delta a c. 0 \<le> delta \<and> db' = update_daily_record today delta a c ok db)"
  by (auto simp: collect_stats_def Let_def split: stats_fetch.splits if_splits prod.splits
           dest!: collect_channels_delta_mono)

lemma update_daily_wf:
  assumes "daily_wf db" and "0 \<le> delta"
  shows "daily_wf (update_daily_record today delta a c ok db)"
proof (cases "ok \<and> find (\<lambda>r. bd_date r = today) (daily db) = None")
  case True
  then have "update_daily_record today delta a c ok db =
    db\<lparr>daily := daily db @
          [\<lparr>bd_id = next_daily_id db, bd_date = today, bytes_transferred = delta,
            peak_channels = max 0 a, peak_clients = max 0 c\<rparr>],
       next_daily_id := Suc (next_daily_id db)\<rparr>"
    by (simp add: update_daily_record_def)
  moreover have "\<forall>x \<in> set (daily db). bd_date x \<noteq> today" using True by (simp add: find_None_iff2)
  ultimately show ?thesis using assms by (fastforce simp: daily_wf_def)
next
  case False
  then consider "\<not> ok" | r where "ok" "find (\<lambda>r. bd_date r = today) (daily db) = Some r" by auto
  then show ?thesis
  proof cases
    case 1 then show ?thesis using assms(1) by (simp add: update_daily_record_def)
  next
    case 2
    let ?f = "\<lambda>x. x\<lparr>bytes_transferred := bytes_transferred x + delta,
                    peak_channels := max (peak_channels x) a, peak_clients := max (peak_clients x) c\<rparr>"
    have d: "map bd_date (update_where (\<lambda>x. bd_id x = bd_id r) ?f (daily db)) = map bd_date (daily db)"
      "map bd_id (update_where (\<lambda>x. bd_id x = bd_id r) ?f (daily db)) = map bd_id (daily db)"
      by (simp_all add: map_update_where_other)
    have "\<forall>x \<in> set (update_where (\<lambda>x. bd_id x = bd_id r) ?f (daily db)).
            bd_id x < next_daily_id db \<and> 0 \<le> bytes_transferred x \<and> 0 \<le> peak_channels x \<and> 0 \<le> peak_clients x"
      using assms by (fastforce simp: daily_wf_def dest!: set_update_whereD)
    with d assms(1) 2 show ?thesis by (simp add: update_daily_record_def daily_wf_def)
  qed
qed

lemma summary_loop_sums:
  "summary_loop T W M Y rs (t, w, m, y, a) =
     ((case find (\<lambda>r. bd_date r = T) (rev rs) of None \<Rightarrow> t | Some r \<Rightarrow> bytes_transferred r),
      w + sum_list (map bytes_transferred (filter (\<lambda>r. W \<le> bd_date r) rs)),
      m + sum_list (map bytes_transferred (filter (\<lambda>r. M \<le> bd_date r) rs)),
      y + sum_list (map bytes_transferred (filter (\<lambda>r. Y \<le> bd_date r) rs)),
      a + sum_list (map bytes_transferred rs))"
  by (induction rs arbitrary: t w m y a) (auto simp: Let_def find_snoc split: option.splits)

text \<open>The growth the loop adds for one channel.\<close>

lemma collect_channels_delta:
  "fst (snd (collect_channels seen chs cur d c)) =
   d + sum_list (map (\<lambda>ch. case map_of seen (channel_id ch) of None \<Rightarrow> 0
                            | Some prev \<Rightarrow> if or_zero (total_bytes ch) > prev
                                           then or_zero (total_bytes ch) - prev else 0) chs)"
  by (induction seen chs cur d c rule: collect_channels.induct) (simp_all add: Let_def)

text \<open>On a table with one row per id, the day's update adds exactly the poll's bytes to
  the table's total.\<close>

lemma update_daily_total:
  assumes "daily_wf db"
  shows "sum_list (map bytes_transferred (daily (update_daily_record today delta a c True db))) =
         sum_list (map bytes_transferred (daily db)) + delta"
proof (cases "find (\<lambda>r. bd_date r = today) (daily db)")
  case None
  then show ?thesis by (simp add: update_daily_record_def)
next
  case (Some r)
  then have "r \<in> set (daily db)" by auto
  then show ?thesis using Some assms sum_list_update_where_key [of bd_id "daily db" r bytes_transferred]
    by (simp add: update_daily_record_def daily_wf_def)
qed

section \<open>Properties\<close>

text \<open>
  C27. Every state reachable from the tracker's initial state by \<open>start\<close>, \<open>stop\<close> and polls keeps one row per day with non-negative totals and peaks, and the tracker runs exactly when its task exists (a second \<open>start\<close> creates no second task).
\<close>

theorem tracker_reach_wf:
  assumes "tracker_reach s"
  shows "daily_wf (snd s) \<and> tracker_wf (fst s)"
  using assms
proof (induction rule: tracker_reach.induct)
  case tr_init
  then show ?case by (simp add: daily_wf_def tracker_wf_def tracker_init_def)
next
  case (tr_step s e)
  obtain st db where s: "s = (st, db)" by fastforce
  show ?case
  proof (cases e)
    case (Poll f today ok)
    show ?thesis
    proof (cases "running st \<and> has_task st")
      case True
      obtain st' db' where c: "collect_stats f today ok st db = (st', db')" by fastforce
      have "running st' = running st \<and> has_task st' = has_task st"
        using c by (auto simp: collect_stats_def Let_def split: stats_fetch.splits if_splits prod.splits)
      moreover have "daily_wf db'"
        using collect_stats_cases [OF c] tr_step.IH s update_daily_wf by auto
      ultimately show ?thesis using Poll True c tr_step.IH s by (simp add: tracker_wf_def)
    next
      case False
      then show ?thesis using Poll tr_step.IH s by auto
    qed
  qed (use tr_step.IH s in \<open>auto simp: tracker_wf_def\<close>)
qed

theorem tracker_reach_wf_witness:
  "daily_wf (snd (tracker_step (Poll (Fetched [sample_channel ''7'' 500]) 20 True)
                   (tracker_step Start (tracker_init, \<lparr>daily = [], next_daily_id = 1\<rparr>))))"
proof -
  have "tracker_reach (tracker_step (Poll (Fetched [sample_channel ''7'' 500]) 20 True)
                   (tracker_step Start (tracker_init, \<lparr>daily = [], next_daily_id = 1\<rparr>)))"
    by (intro tr_step tr_init)
  then show ?thesis using tracker_reach_wf by blast
qed

text \<open>
  C28. The accumulating loop of \<open>get_bandwidth_summary\<close> computes, for each period, the sum of the bytes of the rows dated in it; the day's figure is the last row dated today.
\<close>

theorem bandwidth_summary_sums:
  "get_bandwidth_summary today month_start year_start db =
     \<lparr>today_bytes = (case find (\<lambda>r. bd_date r = today) (rev (daily db)) of
                       None \<Rightarrow> 0 | Some r \<Rightarrow> bytes_transferred r),
      week_bytes = sum_list (map bytes_transferred (filter (\<lambda>r. today - 7 \<le> bd_date r) (daily db))),
      month_bytes = sum_list (map bytes_transferred (filter (\<lambda>r. month_start \<le> bd_date r) (daily db))),
      year_bytes = sum_list (map bytes_transferred (filter (\<lambda>r. year_start \<le> bd_date r) (daily db))),
      all_time_bytes = sum_list (map bytes_transferred (daily db)),
      daily_history = sort_key bd_date (filter (\<lambda>r. today - 7 \<le> bd_date r) (daily db))\<rparr>"
  by (simp add: get_bandwidth_summary_def summary_loop_sums Let_def)

text \<open>
  C29. On a well-formed table, with the first of the year not after the first of the month and that not after today, the summary's figures are ordered: today within the week and the month, the month within the year, the year and the week within all time.
\<close>

theorem bandwidth_summary_bounds:
  assumes "daily_wf db" and "year_start \<le> month_start" and "month_start \<le> today"
  shows "0 \<le> today_bytes (get_bandwidth_summary today month_start year_start db)
    \<and> today_bytes (get_bandwidth_summary today month_start year_start db)
        \<le> week_bytes (get_bandwidth_summary today month_start year_start db)
    \<and> today_bytes (get_bandwidth_summary today month_start year_start db)
        \<le> month_bytes (get_bandwidth_summary today month_start year_start db)
    \<and> month_bytes (get_bandwidth_summary today month_start year_start db)
        \<le> year_bytes (get_bandwidth_summary today month_start year_start db)
    \<and> year_bytes (get_bandwidth_summary today month_start year_start db)
        \<le> all_time_bytes (get_bandwidth_summary today month_start year_start db)
    \<and> week_bytes (get_bandwidth_summary today month_start year_start db)
        \<le> all_time_bytes (get_bandwidth_summary today month_start year_start db)"
proof -
  have nn: "\<forall>r \<in> set (daily db). 0 \<le> bytes_transferred r" using assms(1) by (simp add: daily_wf_def)
  have all: "sum_list (map bytes_transferred (filter P (daily db))) \<le> sum_list (map bytes_transferred (daily db))" for P
    using sum_filter_mono [OF nn, of P "\<lambda>_. True"] by simp
  have t: "(case find (\<lambda>r. bd_date r = today) (rev (daily db)) of None \<Rightarrow> 0 | Some r \<Rightarrow> bytes_transferred r)
           \<le> sum_list (map bytes_transferred (filter P (daily db)))
         \<and> 0 \<le> (case find (\<lambda>r. bd_date r = today) (rev (daily db)) of None \<Rightarrow> 0 | Some r \<Rightarrow> bytes_transferred r)"
    if "\<And>r. bd_date r = today \<Longrightarrow> P r" for P
  proof (cases "find (\<lambda>r. bd_date r = today) (rev (daily db))")
    case None
    then show ?thesis using sum_filter_mono [OF nn, of "\<lambda>_. False" P] by simp
  next
    case (Some r)
    then have "r \<in> set (daily db)" "bd_date r = today" by auto
    then show ?thesis using Some member_le_sum_filter [OF nn, of r P] that nn by auto
  qed
  show ?thesis
    unfolding bandwidth_summary_sums bandwidth_summary.simps
    using t [of "\<lambda>r. today - 7 \<le> bd_date r"] t [of "\<lambda>r. month_start \<le> bd_date r"] assms(2,3)
          sum_filter_mono [OF nn, of "\<lambda>r. month_start \<le> bd_date r" "\<lambda>r. year_start \<le> bd_date r"]
          all [of "\<lambda>r. year_start \<le> bd_date r"] all [of "\<lambda>r. today - 7 \<le> bd_date r"]
    by auto
qed

theorem bandwidth_summary_bounds_witness:
  "daily_wf sample_week_db \<and>
   today_bytes (get_bandwidth_summary 8 0 0 sample_week_db) \<le> week_bytes (get_bandwidth_summary 8 0 0 sample_week_db)"
proof -
  have w: "daily_wf sample_week_db" by (simp add: daily_wf_def sample_week_db_def sample_row_def)
  from bandwidth_summary_bounds [OF w, of 0 0 8] w show ?thesis by simp
qed

text \<open>
  C30. Every successful poll that reports at least one channel writes today's row, even when no channel transferred a byte: the guard \<open>total_bytes_delta > 0 or active_channels > 0\<close> is always true there, contrary to the comment \<open>Only record if there's actual data transfer\<close>.
\<close>

theorem poll_writes_today:
  assumes "chs \<noteq> []" and "collect_stats (Fetched chs) today True st db = (st', db')"
  shows "\<exists>r \<in> set (daily db'). bd_date r = today"
proof -
  obtain cur delta clients where c: "collect_channels (last_bytes st) chs [] 0 0 = (cur, delta, clients)"
    by (metis prod.exhaust)
  have db': "db' = update_daily_record today delta (int (length chs)) clients True db"
    using assms c by (simp add: collect_stats_def Let_def)
  show ?thesis
  proof (cases "find (\<lambda>r. bd_date r = today) (daily db)")
    case None
    then show ?thesis using db' by (simp add: update_daily_record_def)
  next
    case (Some r)
    then have r: "r \<in> set (daily db)" "bd_date r = today" by auto
    let ?f = "\<lambda>x. x\<lparr>bytes_transferred := bytes_transferred x + delta,
                    peak_channels := max (peak_channels x) (int (length chs)),
                    peak_clients := max (peak_clients x) clients\<rparr>"
    have "?f r \<in> set (update_where (\<lambda>x. bd_id x = bd_id r) ?f (daily db))"
      using r(1) by (force simp: update_where_def)
    then have "\<exists>x \<in> set (update_where (\<lambda>x. bd_id x = bd_id r) ?f (daily db)). bd_date x = today"
      using r(2) by (intro bexI [of _ "?f r"]) simp_all
    then show ?thesis using db' Some by (simp add: update_daily_record_def)
  qed
qed

theorem poll_writes_today_witness:
  "case collect_stats (Fetched [sample_channel ''7'' 500]) 20 True
          (tracker_init\<lparr>last_bytes := [(''7'', 500)], running := True, has_task := True\<rparr>)
          \<lparr>daily = [], next_daily_id = 1\<rparr> of
     (st', db') \<Rightarrow> (\<exists>r \<in> set (daily db'). bd_date r = 20) \<and> map bytes_transferred (daily db') = [0]"
proof -
  obtain st' db' where c: "collect_stats (Fetched [sample_channel ''7'' 500]) 20 True
          (tracker_init\<lparr>last_bytes := [(''7'', 500)], running := True, has_task := True\<rparr>)
          \<lparr>daily = [], next_daily_id = 1\<rparr> = (st', db')" by fastforce
  have "map bytes_transferred (daily db') = [0]"
    using c [symmetric] by (simp add: collect_stats_def update_daily_record_def sample_channel_def)
  with poll_writes_today [OF _ c] c show ?thesis by simp
qed

text \<open>
  The "last 7 days" of the summary span eight days: with one row per day, \<open>daily_history\<close> and \<open>this_week\<close> include the rows from \<open>today - 7\<close> to today.
\<close>

theorem history_spans_eight_days:
  "map bd_date (daily_history (get_bandwidth_summary 8 0 0 sample_week_db)) = [1, 2, 3, 4, 5, 6, 7, 8]
   \<and> week_bytes (get_bandwidth_summary 8 0 0 sample_week_db) = 800"
  by (simp add: bandwidth_summary_sums sample_week_db_def sample_row_def)

text \<open>
  C31. Traffic is lost when a channel's counter restarts or the channel misses a poll: on a well-formed table, a poll of the running tracker adds to the table's total exactly the growth of each polled counter over its previous reading, and nothing for a channel whose counter is below its previous reading or that the previous poll did not see, so the bytes such a channel moved are never recorded.
\<close>

theorem counter_reset_undercounts:
  assumes wf: "daily_wf db" and run: "running st" "has_task st" and ne: "chs \<noteq> []"
  shows "sum_list (map bytes_transferred (daily (snd (tracker_step (Poll (Fetched chs) today True) (st, db))))) =
         sum_list (map bytes_transferred (daily db)) +
         sum_list (map (\<lambda>ch. case map_of (last_bytes st) (channel_id ch) of None \<Rightarrow> 0
                              | Some prev \<Rightarrow> if or_zero (total_bytes ch) > prev
                                             then or_zero (total_bytes ch) - prev else 0) chs)"
proof -
  obtain cur delta clients where c: "collect_channels (last_bytes st) chs [] 0 0 = (cur, delta, clients)"
    by (metis prod.exhaust)
  have "snd (tracker_step (Poll (Fetched chs) today True) (st, db)) =
        update_daily_record today delta (int (length chs)) clients True db"
    using run ne c by (simp add: collect_stats_def Let_def)
  moreover have "delta = sum_list (map (\<lambda>ch. case map_of (last_bytes st) (channel_id ch) of None \<Rightarrow> 0
                              | Some prev \<Rightarrow> if or_zero (total_bytes ch) > prev
                                             then or_zero (total_bytes ch) - prev else 0) chs)"
    using collect_channels_delta [of "last_bytes st" chs "[]" 0 0] c by simp
  ultimately show ?thesis using update_daily_total [OF wf] by simp
qed

theorem counter_reset_undercounts_witness:
  "sum_list (map bytes_transferred (daily (snd (tracker_step (Poll (Fetched [sample_channel ''7'' 300, sample_channel ''8'' 600]) 20 True)
      (tracker_init\<lparr>last_bytes := [(''7'', 1000)], running := True, has_task := True\<rparr>,
       \<lparr>daily = [], next_daily_id = 1\<rparr>))))) = 0"
  using counter_reset_undercounts [of "\<lparr>daily = [], next_daily_id = 1\<rparr>"
          "tracker_init\<lparr>last_bytes := [(''7'', 1000)], running := True, has_task := True\<rparr>"
          "[sample_channel ''7'' 300, sample_channel ''8'' 600]" 20]
  by (simp add: daily_wf_def tracker_init_def sample_channel_def)

end
