(* ===== verification/Digest.thy ===== *)
theory Digest
  imports Alerts
begin

text \<open>
  The M3U change digest of \<open>src/backend/tasks/m3u_digest.py\<close>: the settings singleton
  and its creation (\<open>get_or_create_digest_settings\<close>), the look-back of each frequency,
  \<open>get_config\<close>/\<open>update_config\<close>, the change query and filters of \<open>execute\<close>, the
  delivery through the alert manager of \<open>alert_methods.py\<close>
  (\<open>_send_digest_email\<close>, \<open>_send_custom_email\<close>) and \<open>send_immediate_digest\<close>.
  The database rows (\<open>M3UDigestSettings\<close>, \<open>M3UChangeLog\<close>) and \<open>TaskResult\<close> are
  not part of the sources and are modelled from their use here.  Python's attribute
  lookup on the manager and on a method object is modelled by the list of attributes the
  classes of \<open>alert_methods.py\<close> define; a missing attribute raises
  \<open>AttributeError\<close>.
\<close>

section \<open>Rows and settings\<close>

record digest_settings =
  ds_enabled :: bool
  ds_frequency :: string
  ds_email_recipients :: "string list"
  ds_include_group_changes :: bool
  ds_include_stream_changes :: bool
  ds_min_changes_threshold :: int
  ds_last_digest_at :: "time option"

record change_log =
  change_time :: time
  cl_account :: nat
  change_type :: string

record digest_db =
  digest_row :: "digest_settings option"
  change_logs :: "change_log list"

text \<open>The row created on first use; \<open>email_recipients\<close> and \<open>last_digest_at\<close> are
  not passed and keep their column defaults (no recipients, never sent).\<close>

definition default_digest_settings :: digest_settings where
  "default_digest_settings =
     \<lparr>ds_enabled = False, ds_frequency = ''daily'', ds_email_recipients = [],
      ds_include_group_changes = True, ds_include_stream_changes = True,
      ds_min_changes_threshold = 1, ds_last_digest_at = None\<rparr>"

definition get_or_create_digest_settings :: "digest_db \<Rightarrow> digest_settings \<times> digest_db" where
  "get_or_create_digest_settings d =
     (case digest_row d of
        Some s \<Rightarrow> (s, d)
      | None \<Rightarrow> (default_digest_settings, d\<lparr>digest_row := Some default_digest_settings\<rparr>))"

text \<open>The look-back of a first digest, in seconds; an unknown frequency is a day.\<close>

definition get_frequency_delta :: "string \<Rightarrow> time" where
  "get_frequency_delta f =
     (if f = ''immediate'' then 5 * 60
      else if f = ''hourly'' then 60 * 60
      else if f = ''daily'' then 24 * 60 * 60
      else if f = ''weekly'' then 7 * 24 * 60 * 60
      else 24 * 60 * 60)"

section \<open>Configuration\<close>

definition get_config :: "digest_db \<Rightarrow> digest_settings \<times> digest_db" where
  "get_config d = get_or_create_digest_settings d"

text \<open>The keys present in the \<open>config\<close> dictionary of \<open>update_config\<close>; an absent
  key is \<open>None\<close> and leaves its column as it is.\<close>

record digest_config =
  dc_enabled :: "bool option"
  dc_frequency :: "string option"
  dc_email_recipients :: "string list option"
  dc_include_group_changes :: "bool option"
  dc_include_stream_changes :: "bool option"
  dc_min_changes_threshold :: "int option"

definition apply_digest_config :: "digest_config \<Rightarrow> digest_settings \<Rightarrow> digest_settings" where
  "apply_digest_config c s =
     (let s = (case dc_enabled c of None \<Rightarrow> s | Some v \<Rightarrow> s\<lparr>ds_enabled := v\<rparr>);
          s = (case dc_frequency c of None \<Rightarrow> s | Some v \<Rightarrow> s\<lparr>ds_frequency := v\<rparr>);
          s = (case dc_email_recipients c of None \<Rightarrow> s | Some v \<Rightarrow> s\<lparr>ds_email_recipients := v\<rparr>);
          s = (case dc_include_group_changes c of None \<Rightarrow> s
               | Some v \<Rightarrow> s\<lparr>ds_include_group_changes := v\<rparr>);
          s = (case dc_include_stream_changes c of None \<Rightarrow> s
               | Some v \<Rightarrow> s\<lparr>ds_include_stream_changes := v\<rparr>)
      in case dc_min_changes_threshold c of None \<Rightarrow> s
         | Some v \<Rightarrow> s\<lparr>ds_min_changes_threshold := v\<rparr>)"

definition update_config :: "digest_config \<Rightarrow> digest_db \<Rightarrow> digest_db" where
  "update_config c d =
     (let (s, d1) = get_or_create_digest_settings d
      in d1\<lparr>digest_row := Some (apply_digest_config c s)\<rparr>)"

section \<open>The changes a digest reports\<close>

text \<open>The query of \<open>execute\<close>: changes at or after \<open>since\<close>, of the given account when
  one is given (\<open>if m3u_account_id:\<close>, so account \<open>0\<close> counts as none), newest
  first (the database orders ties arbitrarily; the model keeps insertion order), then
  the type filters of the settings.\<close>

definition group_types :: "string list" where
  "group_types = [''group_added'', ''group_removed'']"

definition stream_types :: "string list" where
  "stream_types = [''streams_added'', ''streams_removed'']"

definition digest_changes :: "digest_settings \<Rightarrow> nat option \<Rightarrow> time \<Rightarrow> change_log list \<Rightarrow> change_log list" where
  "digest_changes s acct since cs =
     (let q = filter (\<lambda>c. since \<le> change_time c) cs;
          q = (case acct of None \<Rightarrow> q
               | Some a \<Rightarrow> if a \<noteq> 0 then filter (\<lambda>c. cl_account c = a) q else q);
          q = sort_key (\<lambda>c. - change_time c) q;
          q = (if \<not> ds_include_group_changes s
               then filter (\<lambda>c. change_type c \<notin> set group_types) q else q)
      in if \<not> ds_include_stream_changes s
         then filter (\<lambda>c. change_type c \<notin> set stream_types) q else q)"

text \<open>The start of the window: the last digest, or one frequency back from now.\<close>

definition digest_since :: "digest_settings \<Rightarrow> time \<Rightarrow> time" where
  "digest_since s now =
     (case ds_last_digest_at s of None \<Rightarrow> now - get_frequency_delta (ds_frequency s) | Some t \<Rightarrow> t)"

section \<open>Delivery through the alert manager\<close>

text \<open>The attributes that \<open>AlertMethodManager\<close> and \<open>AlertMethod\<close> define (the
  methods and the instance and class attributes of \<open>alert_methods.py\<close>).\<close>

definition alert_manager_attrs :: "string list" where
  "alert_manager_attrs = [''_methods'', ''load_methods'', ''reload_method'', ''send_alert'']"

definition alert_method_attrs :: "string list" where
  "alert_method_attrs =
     [''method_type'', ''display_name'', ''required_config_fields'', ''optional_config_fields'',
      ''method_id'', ''name'', ''config'', ''send'', ''test_connection'', ''validate_config'',
      ''format_message'', ''get_emoji'']"

text \<open>\<open>[m for m in methods if m.method_type == "smtp" and m.enabled]\<close>: the test of
  \<open>enabled\<close> is reached only for an SMTP method, and raises when the attribute is
  missing (\<open>None\<close>).  Every loaded method comes from an enabled row, so a present
  attribute would be true.\<close>

fun smtp_methods :: "alert_method list \<Rightarrow> alert_method list option" where
  "smtp_methods [] = Some []"
| "smtp_methods (m # ms) =
     (if mc_type (m_class m) \<noteq> ''smtp'' then smtp_methods ms
      else if ''enabled'' \<notin> set alert_method_attrs then None
      else map_option (Cons m) (smtp_methods ms))"

text \<open>\<open>_send_custom_email\<close>: host and sender must be set; the SMTP conversation's
  outcome (an exception is \<open>False\<close>) is an argument.\<close>

definition send_custom_email :: "config \<Rightarrow> bool \<Rightarrow> bool" where
  "send_custom_email cfg conversation_ok =
     (if falsy (cfg_get cfg ''smtp_host'' CNone) \<or> falsy (cfg_get cfg ''from_email'' CNone)
      then False else conversation_ok)"

text \<open>\<open>_send_digest_email\<close>: every exception is caught and is \<open>False\<close>.  The first
  SMTP method's \<open>to_emails\<close> is overwritten for the send and then set back to the
  value read before (\<open>None\<close> when the key was absent); the method objects are shared
  with the manager, so the manager is returned.\<close>

definition send_digest_email :: "manager \<Rightarrow> string list \<Rightarrow> bool \<Rightarrow> bool \<times> manager" where
  "send_digest_email mgr rcpts conversation_ok =
     (if ''get_methods'' \<notin> set alert_manager_attrs then (False, mgr)
      else case smtp_methods (map snd mgr) of
        None \<Rightarrow> (False, mgr)
      | Some [] \<Rightarrow> (False, mgr)
      | Some (m # _) \<Rightarrow>
          (let cfg = m_config m;
               original_to = cfg_get cfg ''to_emails'' CNone;
               ok = send_custom_email (AList.update ''to_emails'' (CList rcpts) cfg) conversation_ok;
               m' = m\<lparr>m_config := AList.update ''to_emails'' original_to cfg\<rparr>
           in (ok, AList.update (m_id m) m' mgr)))"

section \<open>The task\<close>

text \<open>The outcome of \<open>execute\<close> (\<open>TaskResult\<close>): one constructor per return, with
  the counts its message reports.\<close>

datatype digest_result =
    Disabled
  | NoRecipients
  | BelowThreshold nat int
  | NoChanges
  | DigestSent nat nat
  | SendFailed nat
  | ImmediateDisabled

fun digest_success :: "digest_result \<Rightarrow> bool" where
  "digest_success NoRecipients = False"
| "digest_success (SendFailed _) = False"
| "digest_success _ = True"

text \<open>\<open>execute(force, m3u_account_id)\<close>: \<open>now\<close> is \<open>utcnow()\<close> when the window is
  computed, \<open>sent_at\<close> when the send has returned, \<open>conversation_ok\<close> the SMTP
  conversation's outcome.  Only a successful send commits \<open>last_digest_at\<close>.\<close>

definition execute ::
  "bool \<Rightarrow> nat option \<Rightarrow> time \<Rightarrow> bool \<Rightarrow> time \<Rightarrow> manager \<Rightarrow> digest_db \<Rightarrow>
   digest_result \<times> digest_db \<times> manager" where
  "execute force acct now conversation_ok sent_at mgr d =
     (let (s, d1) = get_or_create_digest_settings d in
      if \<not> ds_enabled s \<and> \<not> force then (Disabled, d1, mgr)
      else let rcpts = ds_email_recipients s in
      if rcpts = [] then (NoRecipients, d1, mgr)
      else let cs = digest_changes s acct (digest_since s now) (change_logs d1) in
      if int (length cs) < ds_min_changes_threshold s \<and> \<not> force
      then (BelowThreshold (length cs) (ds_min_changes_threshold s), d1, mgr)
      else if cs = [] then (NoChanges, d1, mgr)
      else let (ok, mgr') = send_digest_email mgr rcpts conversation_ok in
      if ok then (DigestSent (length cs) (length rcpts),
                  d1\<lparr>digest_row := Some (s\<lparr>ds_last_digest_at := Some sent_at\<rparr>)\<rparr>, mgr')
      else (SendFailed (length cs), d1, mgr'))"

text \<open>\<open>send_immediate_digest\<close>: runs \<open>execute\<close> for one account when the digest is
  enabled with the \<open>immediate\<close> frequency.\<close>

definition send_immediate_digest ::
  "nat \<Rightarrow> time \<Rightarrow> bool \<Rightarrow> time \<Rightarrow> manager \<Rightarrow> digest_db \<Rightarrow>
   digest_result \<times> digest_db \<times> manager" where
  "send_immediate_digest acct now conversation_ok sent_at mgr d =
     (let (s, d1) = get_or_create_digest_settings d in
      if \<not> ds_enabled s \<or> ds_frequency s \<noteq> ''immediate'' then (ImmediateDisabled, d1, mgr)
      else execute False (Some acct) now conversation_ok sent_at mgr d1)"

section \<open>Reference filter and samples\<close>

text \<open>What a digest should report, as one predicate on a change.\<close>

definition digest_keep :: "digest_settings \<Rightarrow> nat option \<Rightarrow> time \<Rightarrow> change_log \<Rightarrow> bool" where
  "digest_keep s acct since c \<longleftrightarrow>
     since \<le> change_time c \<and>
     (case acct of None \<Rightarrow> True | Some a \<Rightarrow> a = 0 \<or> cl_account c = a) \<and>
     (ds_include_group_changes s \<or> change_type c \<notin> set group_types) \<and>
     (ds_include_stream_changes s \<or> change_type c \<notin> set stream_types)"

definition sample_digest_settings :: digest_settings where
  "sample_digest_settings =
     \<lparr>ds_enabled = False, ds_frequency = ''hourly'', ds_email_recipients = [''ops@example.org''],
      ds_include_group_changes = False, ds_include_stream_changes = True,
      ds_min_changes_threshold = 5, ds_last_digest_at = None\<rparr>"

definition sample_digest_db :: digest_db where
  "sample_digest_db =
     \<lparr>digest_row = Some sample_digest_settings,
      change_logs = [\<lparr>change_time = 1000, cl_account = 1, change_type = ''streams_added''\<rparr>,
                     \<lparr>change_time = 2000, cl_account = 2, change_type = ''group_added''\<rparr>,
                     \<lparr>change_time = 3000, cl_account = 1, change_type = ''streams_removed''\<rparr>,
                     \<lparr>change_time = 100, cl_account = 1, change_type = ''streams_added''\<rparr>]\<rparr>"

section \<open>Lemmas\<close>

lemma get_or_create_logs [simp]:
  "change_logs (snd (get_or_create_digest_settings d)) = change_logs d"
  by (simp add: get_or_create_digest_settings_def split: option.split)

lemma get_or_create_again [simp]:
  "get_or_create_digest_settings (snd (get_or_create_digest_settings d)) =
   (fst (get_or_create_digest_settings d), snd (get_or_create_digest_settings d))"
  by (simp add: get_or_create_digest_settings_def split: option.split)

text \<open>\<open>_send_digest_email\<close> always reports failure and leaves the manager as it was:
  \<open>AlertMethodManager\<close> has no \<open>get_methods\<close>.\<close>

lemma send_digest_email_fails [simp]: "send_digest_email mgr rcpts ok = (False, mgr)"
  by (simp add: send_digest_email_def alert_manager_attrs_def)

lemma filter_digest_keep:
  "digest_changes s acct since cs =
   filter (\<lambda>c. ds_include_stream_changes s \<or> change_type c \<notin> set stream_types)
     (filter (\<lambda>c. ds_include_group_changes s \<or> change_type c \<notin> set group_types)
       (sort_key (\<lambda>c. - change_time c)
         (filter (\<lambda>c. case acct of None \<Rightarrow> True | Some a \<Rightarrow> a = 0 \<or> cl_account c = a)
           (filter (\<lambda>c. since \<le> change_time c) cs))))"
  by (cases acct) (simp_all add: digest_changes_def Let_def)

section \<open>Properties\<close>

text \<open>
  C35. The query and the filters of \<open>execute\<close> select exactly the changes at or after
  the window start, of the requested account (none, or account 0, means all), of a type the
  settings include, and list them newest first: the pipeline equals one filter by
  \<open>digest_keep\<close> followed by a stable sort on the time, descending.
\<close>

theorem digest_changes_sorted_filter:
  "digest_changes s acct since cs =
     sort_key (\<lambda>c. - change_time c) (filter (digest_keep s acct since) cs) \<and>
   sorted (map (\<lambda>c. - change_time c) (digest_changes s acct since cs))"
  by (simp add: filter_digest_keep filter_sort filter_filter digest_keep_def [abs_def] conj_ac
                sorted_sort_key)

theorem digest_changes_sorted_filter_witness:
  "digest_changes sample_digest_settings (Some 1) 500 (change_logs sample_digest_db) =
     [\<lparr>change_time = 3000, cl_account = 1, change_type = ''streams_removed''\<rparr>,
      \<lparr>change_time = 1000, cl_account = 1, change_type = ''streams_added''\<rparr>]"
proof -
  have "filter (digest_keep sample_digest_settings (Some 1) 500) (change_logs sample_digest_db) =
     [\<lparr>change_time = 1000, cl_account = 1, change_type = ''streams_added''\<rparr>,
      \<lparr>change_time = 3000, cl_account = 1, change_type = ''streams_removed''\<rparr>]"
    by (simp add: digest_keep_def sample_digest_db_def sample_digest_settings_def
                  group_types_def stream_types_def)
  then show ?thesis
    using digest_changes_sorted_filter [of sample_digest_settings "Some 1" 500
            "change_logs sample_digest_db"]
    by simp
qed

text \<open>
  C34. No run of \<open>execute\<close> ever sends a digest: \<open>AlertMethodManager\<close> defines no
  \<open>get_methods\<close>, so \<open>_send_digest_email\<close> always ends in its \<open>except\<close> and reports
  failure.  The run therefore changes neither the store (beyond creating the settings row)
  nor the alert manager, and \<open>last_digest_at\<close> never advances.
\<close>

theorem execute_never_sends:
  "fst (execute force acct now ok sent_at mgr d) \<noteq> DigestSent n k \<and>
   snd (execute force acct now ok sent_at mgr d) = (snd (get_or_create_digest_settings d), mgr)"
  by (cases "get_or_create_digest_settings d") (simp add: execute_def Let_def)

text \<open>
  A forced run bypasses both the enabled flag and the change threshold: with recipients
  configured and at least one change in the window, it reaches the send and returns
  \<open>SendFailed\<close> with the number of changes, leaving the store as it was.
\<close>

theorem execute_never_sends_witness:
  "fst (execute True None 4000 True 4100 sample_manager sample_digest_db) \<noteq> DigestSent 2 1 \<and>
   snd (execute True None 4000 True 4100 sample_manager sample_digest_db) =
     (sample_digest_db, sample_manager)"
  using execute_never_sends [of True None 4000 True 4100 sample_manager sample_digest_db 2 1]
  by (simp add: get_or_create_digest_settings_def sample_digest_db_def)

theorem execute_forced_fails:
  assumes "s = fst (get_or_create_digest_settings d)"
    and "cs = digest_changes s acct (digest_since s now) (change_logs d)"
    and "ds_email_recipients s \<noteq> []" and "cs \<noteq> []"
  shows "execute True acct now ok sent_at mgr d = (SendFailed (length cs), snd (get_or_create_digest_settings d), mgr)"
proof (cases "get_or_create_digest_settings d")
  case (Pair s' d1)
  then have "change_logs d1 = change_logs d"
    using get_or_create_logs [of d] by simp
  with Pair assms show ?thesis by (simp add: execute_def Let_def)
qed

theorem execute_forced_fails_witness:
  "execute True None 4000 True 4100 sample_manager sample_digest_db =
     (SendFailed 2, sample_digest_db, sample_manager)"
proof -
  have "digest_changes sample_digest_settings None (digest_since sample_digest_settings 4000)
          (change_logs sample_digest_db) =
        [\<lparr>change_time = 3000, cl_account = 1, change_type = ''streams_removed''\<rparr>,
         \<lparr>change_time = 1000, cl_account = 1, change_type = ''streams_added''\<rparr>]"
    by (simp add: digest_changes_def digest_since_def get_frequency_delta_def
                  sample_digest_db_def sample_digest_settings_def group_types_def
                  stream_types_def)
  then show ?thesis
    using execute_forced_fails [of sample_digest_settings sample_digest_db _ None 4000]
    by (simp add: get_or_create_digest_settings_def sample_digest_db_def
                  sample_digest_settings_def)
qed

text \<open>
  After \<open>update_config\<close>, \<open>get_config\<close> reads back every given key's new value and
  every absent key's previous value; \<open>last_digest_at\<close> and the change log are untouched.
\<close>

theorem update_config_roundtrip:
  "let s = fst (get_config d); s' = fst (get_config (update_config c d)) in
   ds_enabled s' = (case dc_enabled c of None \<Rightarrow> ds_enabled s | Some v \<Rightarrow> v) \<and>
   ds_frequency s' = (case dc_frequency c of None \<Rightarrow> ds_frequency s | Some v \<Rightarrow> v) \<and>
   ds_email_recipients s' =
     (case dc_email_recipients c of None \<Rightarrow> ds_email_recipients s | Some v \<Rightarrow> v) \<and>
   ds_include_group_changes s' =
     (case dc_include_group_changes c of None \<Rightarrow> ds_include_group_changes s | Some v \<Rightarrow> v) \<and>
   ds_include_stream_changes s' =
     (case dc_include_stream_changes c of None \<Rightarrow> ds_include_stream_changes s | Some v \<Rightarrow> v) \<and>
   ds_min_changes_threshold s' =
     (case dc_min_changes_threshold c of None \<Rightarrow> ds_min_changes_threshold s | Some v \<Rightarrow> v) \<and>
   ds_last_digest_at s' = ds_last_digest_at s \<and>
   change_logs (update_config c d) = change_logs d"
  by (cases "digest_row d")
     (simp_all add: get_config_def update_config_def apply_digest_config_def Let_def
                    get_or_create_digest_settings_def split: option.split)

end
