(* ===== verification/Spec2Isabelle.thy ===== *)
theory Spec2Isabelle
  imports ResetEmail Cookies Cache Bandwidth Digest
begin

text \<open>
  \<^bold>\<open>A verification library for the backend of Enhanced Channel Manager.\<close>

  The sources under \<open>src/backend\<close> hold the authentication subsystem
  (\<open>auth/routes.py\<close>, \<open>auth/settings.py\<close>), an in-memory response cache
  (\<open>cache.py\<close>), a background bandwidth tracker (\<open>bandwidth_tracker.py\<close> with the
  \<open>BandwidthDaily\<close> table of \<open>models.py\<close>), the alert framework with its e-mail method
  (\<open>alert_methods.py\<close>, \<open>alert_methods_smtp.py\<close>) and an M3U digest task
  (\<open>tasks/m3u_digest.py\<close>).  The route handlers call a password module, a token module,
  ORM models and a provider client that are not part of the sources; those are modelled
  from the specification and marked so in the manifest.

  \<^bold>\<open>Theories and what they model.\<close>
  \<^item> \<open>Prelude\<close>: the HTTP error type (\<open>HTTPException\<close> as \<open>HTTPError status detail\<close>)
    and \<open>'a response = http_error + 'a\<close>, string helpers (\<open>lower()\<close>,
    \<open>startswith\<close>, substring, \<open>str(n)\<close>), and \<open>update_where\<close>, the update of every row
    of a table that satisfies a condition, with the list lemmas the components share.
  \<^item> \<open>Settings\<close> (\<open>auth/settings.py\<close>): the pydantic models as records with their
    defaults; the module cache and the JSON file as a store passed through
    \<open>load_auth_settings\<close>, \<open>save_auth_settings\<close>, \<open>get_jwt_secret_key\<close> and
    \<open>mark_setup_complete\<close>; the invariant that the cache holds a signing secret.
  \<^item> \<open>Password\<close> and \<open>Tokens\<close> (modelled from the specification): ideal bcrypt
    (\<open>Bcrypt salt p\<close>, verified only by the same password) and the policy
    \<open>validate_password\<close>; symbolic HS256 tokens (\<open>JWT alg claims (HMAC key claims)\<close>),
    \<open>decode_token\<close> with its error kinds, \<open>hash_token\<close> as an injective digest and
    \<open>rotate_refresh_token\<close>.  A refresh token carries a random identifier (\<open>jti\<close>,
    the request's argument \<open>token_jti\<close>), so two refresh tokens issued in one second
    differ.
  \<^item> \<open>Store\<close>: the tables \<open>users\<close>, \<open>user_identities\<close>, \<open>user_sessions\<close>,
    \<open>password_reset_tokens\<close> as row lists in insertion order (so \<open>.first()\<close> is
    \<open>find\<close>) with autoincrement counters, the well-formedness \<open>db_wf\<close> (unique keys
    below their counters) and its preservation by the update operations.  A handler that
    raises before \<open>session.commit()\<close> returns \<open>Inl\<close> and changes nothing.  The unique
    constraints of the \<open>User\<close> table (username, e-mail if set) are checked where the
    handlers flush or commit (\<open>users_checked\<close>: \<open>IntegrityError\<close>, a 500), and a
    user's identity rows are deleted with the user row (\<open>delete_user_row\<close>).  The user as
    the API returns it (\<open>UserResponse\<close>) omits the password hash.
  \<^item> \<open>Sessions\<close> (\<open>login\<close>, \<open>refresh_tokens\<close>, \<open>logout\<close>), \<open>Reset\<close>
    (\<open>change_password\<close>, \<open>forgot_password\<close>, \<open>reset_password\<close>), \<open>ResetEmail\<close>
    (\<open>send_password_reset_email\<close> and the base URL of the reset link), \<open>Identities\<close>
    (identity helpers, \<open>link_identity\<close>, \<open>unlink_identity\<close>), \<open>Delegated\<close>
    (\<open>dispatcharr_login\<close>) and \<open>Admin\<close> (\<open>get_auth_status\<close>, setup, profile update,
    \<open>require_admin\<close> and the admin settings and user endpoints): one definition per
    handler of \<open>auth/routes.py\<close>, with its guards in the source's order and one \<open>Inl\<close>
    per \<open>raise\<close>.  Randomness (secrets, salts, raw reset tokens), the clock, the
    request's client address and agent, the result of sending e-mail and the provider's
    answer are arguments.
  \<^item> \<open>Cookies\<close>: \<open>_set_auth_cookies\<close> and \<open>_clear_auth_cookies\<close>, the four routes that
    call them composed as \<open>serve\<close>, and a browser cookie store following RFC 6265 (not
    in the sources), driven by \<open>system_step\<close> so that each call carries the cookies the
    browser holds.
  \<^item> \<open>Cache\<close> (\<open>cache.py\<close>): the dictionary as an association list (\<open>AList\<close>),
    every method, a datatype of operations with a step function and inductive
    reachability, and the abstraction \<open>cache_abs\<close> to a partial map.
  \<^item> \<open>Bandwidth\<close> (\<open>bandwidth_tracker.py\<close>): the per-channel loop of
    \<open>_collect_stats\<close>, \<open>_update_daily_record\<close>, \<open>start\<close>/\<open>stop\<close>/\<open>_poll_loop\<close>
    as events of \<open>tracker_step\<close> with inductive reachability, the summary and the purge.
  \<^item> \<open>Alerts\<close> (\<open>alert_methods.py\<close>, \<open>alert_methods_smtp.py\<close>): messages,
    \<open>validate_config\<close>, the registry, the manager with \<open>load_methods\<close>,
    \<open>reload_method\<close> and \<open>send_alert\<close> (type filter and rate limit), the SMTP plain-text
    and HTML bodies, recipient parsing, the connection plan and \<open>test_connection\<close>.
  \<^item> \<open>Digest\<close> (\<open>tasks/m3u_digest.py\<close>): the settings singleton, \<open>get_config\<close> and
    \<open>update_config\<close>, the query and filters of \<open>execute\<close>, delivery through the alert
    manager of \<open>Alerts\<close> (\<open>_send_digest_email\<close>, \<open>_send_custom_email\<close>) and
    \<open>send_immediate_digest\<close>.  The database rows and \<open>TaskResult\<close> are modelled from
    their use; attribute lookup on the manager follows the attributes its class defines.

  \<^bold>\<open>What is proved\<close> (the manifest lists the claims C1 to C35).
  \<^item> Sessions: a rotated refresh token cannot be replayed (C1); a logged-out
    token no longer refreshes when session hashes are distinct (C2); login
    authenticates the stored account, issues a live session, and keeps the store well
    formed (C3, \<open>login_preserves_wf\<close>).  Logout deletes both authentication cookies from the
    browser, so no later request carries a token (C5).
  \<^item> Reset tokens are single-use; a reset stores the new password and invalidates the
    token; a password change needs the current password (C7, C8, C9); the token
    e-mailed by \<open>forgot_password\<close> redeems within the hour (C12).
  \<^item> Identity linking never removes a user's last identity, keeps the identity table's
    uniqueness, and links a provider account to the user that is found through it
    afterwards (C13, C14, C15); delegated login resolves or creates an account
    once (C17).
  \<^item> Admin endpoints are gated; an admin cannot demote or deactivate themselves; the
    profile update keeps e-mails unique; setup happens once and its account can log in
    (C19, C20, C22, C23, C24).
  \<^item> The cache refines a partial map, its prefix invalidation loop equals a filter, and
    its reachable states have unique keys (C25, C26, \<open>cache_reach_wf\<close>).  The tracker's reachable states keep
    one row per day with non-negative totals; the summary loop equals per-period sums,
    which are ordered (C27, C28, C29).
  \<^item> Alerts respect each method's rate limit across calls and its type subscriptions
    (C32, C33).  The digest's query and filters equal one reference filter sorted
    newest first (C35).
  Proved as lemmas beside them: the scenarios of the specification (the admin login, the
  reset-token expiry, unlinking the only identity, the cache's TTL boundaries), the
  cache's set/get round trip, the eight-day week of the bandwidth summary, the digest's
  forced run and configuration round trip, and the browser invariant that every
  authentication cookie sits at the path \<open>_set_auth_cookies\<close> gave it.

  \<^bold>\<open>Findings\<close>, each with a witness on a concrete store: the authentication
  cookies are never \<open>Secure\<close> (C6); the local login tells SSO accounts from unknown
  names (C4); the raw reset token is logged when e-mail fails (C10); the reset
  link's host is taken from the client's \<open>X-Forwarded-Host\<close> header (C11); a local link
  can take over a legacy account's username (C16); a provider account
  whose username and its \<open>disp_\<close> variant are both taken can never log in: the
  delegated login answers 500 (C18); the admin update skips the e-mail
  uniqueness check and answers 500 where the profile update answers 409 (C21); the tracker writes a row on every poll with a channel and
  loses the traffic of restarted counters and missed polls (C30, C31); the M3U digest is never sent, because the
  alert manager has no \<open>get_methods\<close> (C34).  Proved as lemmas: \<open>GET /providers\<close> answers
  500 for every configuration (\<open>get_auth_providers_500\<close>); the alert e-mail's HTML body
  carries title and message unescaped (\<open>html_title_unescaped\<close>); a recipient list of
  separators passes the connection test's check and then fails the send
  (\<open>test_connection_blank_recipients\<close>).

  \<^bold>\<open>Loops and termination.\<close>  Every loop of the sources runs over a finite list and is a
  structurally recursive \<open>fun\<close> or a \<open>fold\<close>; \<open>split_commas\<close> is a \<open>function\<close>
  whose termination is proved with the measure \<open>length\<close>.  The polling loop of the
  tracker and the sequences of cache operations are explicit event sequences, so no fuel
  is needed.  Python integers are unbounded and are \<open>int\<close>/\<open>nat\<close>; the
  \<open>BigInteger\<close> column of the bandwidth table would overflow only beyond \<open>2^63\<close> bytes,
  which the model does not bound.

  \<^bold>\<open>Not modelled.\<close>  The SMTP conversations (network I/O; their outcome is an
  argument); the HTML alternative of the reset e-mail (the same link in a template) and
  \<open>get_emoji\<close> (a table of non-ASCII symbols, an argument of the alert's HTML body);
  the browser beyond its cookie store; the
  digest task's scheduler base class and templates and the rows of \<open>models.py\<close> other
  than \<open>BandwidthDaily\<close> (not in the sources, or declared and never used);
  \<open>auth/__init__.py\<close> (re-exports only); \<open>get_current_user_info\<close> and
  \<open>list_linked_identities\<close> (they return stored rows unchanged); and the rounding of the
  cache's statistics for display.  \<open>get_auth_providers\<close> is modelled by the attributes
  \<open>AuthSettings\<close> declares: it reads \<open>settings.saml\<close>, which is not one of them, so it
  always answers 500.  Concurrency between workers is not modelled: each handler is one
  atomic step on the store.  Within one event loop this holds for every handler except
  \<open>link_identity\<close>, which awaits the provider between its first check and its commit.
\<close>

end
